(* ===== verification/Prelude.thy ===== *)
theory Prelude
  imports Complex_Main "HOL-Library.Multiset"
begin

text \<open>
  Shared vocabulary of the renderer model. The C++ framework types the core reads
  (\<open>Vector3\<close>, \<open>Matrix44\<close>, the \<open>float\<close> scalars) are named here once:
  \<^item> \<open>vec3\<close> is a triple of reals (the framework's \<open>Vector3\<close> of floats);
  \<^item> \<open>mat4\<close> is the list of the 16 entries of a \<open>Matrix44\<close>
    (\<open>float m[16]\<close>, entry \<open>M[i][j]\<close> at index \<open>4 * i + j\<close>);
  \<^item> floats are \<open>real\<close>: no claim of the development depends on rounding.
  The theory also holds the collections of rewrite rules the component theories share and
  generic lemmas on lists used by several components.
\<close>

type_synonym vec3 = "real \<times> real \<times> real"
type_synonym mat4 = "real list"

named_theorems model_defs "definitions unfolded when a concrete frame is evaluated"
named_theorems trace_simps "rewrite rules for the recorded graphics-call traces"

definition vzero :: vec3 where
  "vzero = (0, 0, 0)"

definition mat_identity :: mat4 where
  "mat_identity = [1,0,0,0, 0,1,0,0, 0,0,1,0, 0,0,0,1]"

text \<open>\<open>Matrix44::getTranslation\<close>: the entries \<open>M[3][0..2]\<close>.\<close>

definition get_translation :: "mat4 \<Rightarrow> vec3" where
  "get_translation m = (m ! 12, m ! 13, m ! 14)"

definition vsub :: "vec3 \<Rightarrow> vec3 \<Rightarrow> vec3" where
  "vsub a b = (case a of (ax, ay, az) \<Rightarrow> case b of (bx, by, bz) \<Rightarrow> (ax - bx, ay - by, az - bz))"

text \<open>\<open>Vector3::distance\<close>: the Euclidean distance of two points.\<close>

definition vdistance :: "vec3 \<Rightarrow> vec3 \<Rightarrow> real" where
  "vdistance a b = (case vsub a b of (x, y, z) \<Rightarrow> sqrt (x * x + y * y + z * z))"

text \<open>\<open>Matrix44::operator *\<close>: the row-by-column product of two 4x4 matrices.\<close>

definition mat4_mul :: "mat4 \<Rightarrow> mat4 \<Rightarrow> mat4" where
  "mat4_mul a b =
     map (\<lambda>n. \<Sum>k \<leftarrow> [0..<4]. a ! (4 * (n div 4) + k) * b ! (4 * k + n mod 4)) [0..<16]"

text \<open>\<open>Matrix44 * Vector3\<close>: a point transformed by a matrix (row vector convention).\<close>

definition mat4_point :: "mat4 \<Rightarrow> vec3 \<Rightarrow> vec3" where
  "mat4_point m v = (case v of (x, y, z) \<Rightarrow>
     (m ! 0 * x + m ! 4 * y + m ! 8 * z + m ! 12,
      m ! 1 * x + m ! 5 * y + m ! 9 * z + m ! 13,
      m ! 2 * x + m ! 6 * y + m ! 10 * z + m ! 14))"

text \<open>\<open>Matrix44::frontVector\<close>: the third row \<open>M[2][0..2]\<close>.\<close>

definition mat_front :: "mat4 \<Rightarrow> vec3" where
  "mat_front m = (m ! 8, m ! 9, m ! 10)"

text \<open>Sequencing of operations that may fail: the first error stops the sequence.\<close>

definition ebind :: "'e + 'a \<Rightarrow> ('a \<Rightarrow> 'e + 'b) \<Rightarrow> 'e + 'b" where
  "ebind r f = (case r of Inl e \<Rightarrow> Inl e | Inr a \<Rightarrow> f a)"

text \<open>A loop over a list whose body may fail, the state threaded through in list order.\<close>

fun fold_err :: "('a \<Rightarrow> 's \<Rightarrow> 'e + 's) \<Rightarrow> 'a list \<Rightarrow> 's \<Rightarrow> 'e + 's" where
  "fold_err f [] s = Inr s"
| "fold_err f (x # xs) s = ebind (f x s) (fold_err f xs)"

declare vzero_def [model_defs] mat_identity_def [model_defs] mat_front_def [model_defs]
  get_translation_def [model_defs] vsub_def [model_defs] vdistance_def [model_defs]

subsection \<open>Generic lemmas\<close>

lemma ebind_simps [simp]: "ebind (Inl e) f = Inl e" "ebind (Inr a) f = f a"
  by (simp_all add: ebind_def)

lemma ebind_Inr_iff: "ebind r f = Inr b \<longleftrightarrow> (\<exists>a. r = Inr a \<and> f a = Inr b)"
  by (cases r) simp_all

lemma fold_err_append:
  "fold_err f (xs @ ys) s = ebind (fold_err f xs s) (fold_err f ys)"
  by (induction xs arbitrary: s) (simp_all add: ebind_def split: sum.splits)

lemma fold_err_Inr_pure:
  "(\<And>x s. x \<in> set xs \<Longrightarrow> f x s = Inr (g x s)) \<Longrightarrow> fold_err f xs s = Inr (fold g xs s)"
  by (induction xs arbitrary: s) simp_all

lemma fold_rel:
  assumes refl: "\<And>s. R s s" and trans: "\<And>a b c. R a b \<Longrightarrow> R b c \<Longrightarrow> R a c"
    and step: "\<And>x s. x \<in> set xs \<Longrightarrow> R s (f x s)"
  shows "R s (fold f xs s)"
  using step by (induction xs arbitrary: s) (auto intro: trans refl)

lemma fold_err_rel:
  assumes refl: "\<And>s. R s s" and trans: "\<And>a b c. R a b \<Longrightarrow> R b c \<Longrightarrow> R a c"
    and step: "\<And>x s s'. x \<in> set xs \<Longrightarrow> f x s = Inr s' \<Longrightarrow> R s s'"
    and ok: "fold_err f xs s = Inr s'"
  shows "R s s'"
  using step ok
proof (induction xs arbitrary: s)
  case Nil
  then show ?case using refl by simp
next
  case (Cons x xs)
  then obtain s1 where "f x s = Inr s1" "fold_err f xs s1 = Inr s'" by (auto simp: ebind_Inr_iff)
  then show ?case using Cons trans by (meson list.set_intros)
qed

text \<open>A loop whose every step emits a list (of events, say) emits their concatenation.\<close>

lemma fold_err_concat:
  assumes nil: "\<And>s. E [] s s" and app: "\<And>a b s1 s2 s3. E a s1 s2 \<Longrightarrow> E b s2 s3 \<Longrightarrow> E (a @ b) s1 s3"
    and step: "\<And>x s s'. x \<in> set xs \<Longrightarrow> f x s = Inr s' \<Longrightarrow> E (g x) s s'"
    and ok: "fold_err f xs s = Inr s'"
  shows "E (concat (map g xs)) s s'"
  using step ok
proof (induction xs arbitrary: s)
  case Nil
  then show ?case using nil by simp
next
  case (Cons x xs)
  then obtain s1 where "f x s = Inr s1" "fold_err f xs s1 = Inr s'" by (auto simp: ebind_Inr_iff)
  then show ?case using Cons app by (metis concat.simps(2) list.set_intros list.simps(9))
qed

lemma vdistance_nonneg [simp]: "0 \<le> vdistance a b"
  by (auto simp: vdistance_def vsub_def split: prod.splits)

lemma vdistance_self [simp]: "vdistance a a = 0"
  by (auto simp: vdistance_def vsub_def split: prod.splits)

lemma filter_empty_conv_all: "filter P xs = [] \<longleftrightarrow> (\<forall>x \<in> set xs. \<not> P x)"
  by (induction xs) auto

lemma length_concat_map_const:
  "(\<And>x. x \<in> set xs \<Longrightarrow> length (f x) = n) \<Longrightarrow> length (concat (map f xs)) = n * length xs"
  by (induction xs) auto

lemma nth_concat_map_const:
  assumes "\<And>x. x \<in> set xs \<Longrightarrow> length (f x) = n" and "i < length xs" and "j < n"
  shows "concat (map f xs) ! (i * n + j) = f (xs ! i) ! j"
  using assms
proof (induction xs arbitrary: i)
  case Nil
  then show ?case by simp
next
  case (Cons x xs)
  show ?case
  proof (cases i)
    case 0
    with Cons.prems show ?thesis by (simp add: nth_append)
  next
    case (Suc k)
    with Cons.prems have "concat (map f xs) ! (k * n + j) = f (xs ! k) ! j"
      by (intro Cons.IH) auto
    with Suc Cons.prems show ?thesis
      by (simp add: nth_append add.assoc)
  qed
qed

end
