(* ===== verification/Entities.thy ===== *)
theory Entities
  imports Prelude
begin

text \<open>
  The scene's data model (\<open>src/src/scene.h\<close>, \<open>src/src/scene.cpp\<close>): the entity and light
  enums, the entity classes as records extending a base record (as the C++ classes extend
  \<open>BaseEntity\<close>), the closed set of entity kinds as a datatype, the material, mesh and
  prefab-node types the core reads (framework headers, modelled from the spec), the
  external math and camera services as a record of functions, and the load-time
  operation \<open>LightEntity::configure\<close> (the grid's \<open>configure\<close> is in \<open>Probes\<close>).
\<close>

subsection \<open>Enumerations\<close>

datatype eEntityType = NONE | PREFAB | LIGHT | CAMERA | IRRADIANCE_GRID | PROBE | DECAL
  | REFLECTION_PROBE

datatype eLightType = POINT | SPOT | DIRECTIONAL | NO_LIGHT

text \<open>The integer a light type is uploaded as (\<open>(int)light_type\<close>).\<close>

fun light_type_code :: "eLightType \<Rightarrow> int" where
  "light_type_code POINT = 0"
| "light_type_code SPOT = 1"
| "light_type_code DIRECTIONAL = 2"
| "light_type_code NO_LIGHT = 3"

text \<open>Material alpha modes (\<open>GTR::eAlphaMode\<close> of the framework's material header).\<close>

datatype eAlphaMode = NO_ALPHA | MASK | BLEND

fun alpha_rank :: "eAlphaMode \<Rightarrow> nat" where
  "alpha_rank NO_ALPHA = 0"
| "alpha_rank MASK = 1"
| "alpha_rank BLEND = 2"

text \<open>Quality tiers of the application (\<open>LOW\<close> to \<open>ULTRA\<close>, in the order of the GUI combo).\<close>

datatype eQuality = LOW | MEDIUM | HIGH | ULTRA

fun quality_code :: "eQuality \<Rightarrow> nat" where
  "quality_code LOW = 0"
| "quality_code MEDIUM = 1"
| "quality_code HIGH = 2"
| "quality_code ULTRA = 3"

text \<open>\<open>int res = 1024 * pow(2, (int)quality)\<close>: the shadow-map side length.\<close>

definition shadow_res :: "eQuality \<Rightarrow> int" where
  "shadow_res q = 1024 * 2 ^ quality_code q"

subsection \<open>Framework types the core reads\<close>

record fbo =
  fbo_w :: int
  fbo_h :: int
  fbo_depth_only :: bool

text \<open>\<open>FBO::setDepthOnly(w, h)\<close> on a fresh \<open>FBO\<close>.\<close>

definition depth_only_fbo :: "int \<Rightarrow> fbo" where
  "depth_only_fbo res = \<lparr>fbo_w = res, fbo_h = res, fbo_depth_only = True\<rparr>"

datatype cam_kind = PERSPECTIVE | ORTHOGRAPHIC

record camera =
  eye :: vec3
  center :: vec3
  up :: vec3
  kind :: cam_kind
  fov :: real
  aspect :: real
  near_plane :: real
  far_plane :: real
  left :: real
  right :: real
  bottom :: real
  top :: real
  view_matrix :: mat4
  projection_matrix :: mat4
  viewprojection_matrix :: mat4

record mesh =
  mesh_id :: nat
  num_vertices :: nat

record material =
  mat_id :: nat
  alpha_mode :: eAlphaMode
  alpha_cutoff :: real
  two_sided :: bool
  color_texture :: "string option"
  mat_color :: "real \<times> real \<times> real \<times> real"
  emissive_factor :: vec3
  metallic_factor :: real
  roughness_factor :: real
  emissive_texture :: "string option"
  metallic_roughness_texture :: "string option"
  normal_texture :: "string option"

text \<open>A prefab node (\<open>GTR::Node\<close>): visibility, local matrix, optional mesh and material.\<close>

datatype node = Node (n_visible: bool) (n_local: mat4) (n_mesh: "mesh option")
  (n_material: "material option") (n_children: "node list")

record services =
  set_front :: "mat4 \<Rightarrow> vec3 \<Rightarrow> mat4"
  look_at :: "vec3 \<Rightarrow> vec3 \<Rightarrow> vec3 \<Rightarrow> mat4"
  mat_mul :: "mat4 \<Rightarrow> mat4 \<Rightarrow> mat4"
  transform_point :: "mat4 \<Rightarrow> vec3 \<Rightarrow> vec3"
  box_center :: "mat4 \<Rightarrow> mesh \<Rightarrow> vec3"
  box_in_frustum :: "camera \<Rightarrow> mat4 \<Rightarrow> mesh \<Rightarrow> bool"
  sphere_in_frustum :: "camera \<Rightarrow> vec3 \<Rightarrow> real \<Rightarrow> bool"
  set_translation :: "mat4 \<Rightarrow> vec3 \<Rightarrow> mat4"
  scale :: "mat4 \<Rightarrow> vec3 \<Rightarrow> mat4"
  inverse :: "mat4 \<Rightarrow> mat4"
  cone_sphere :: "vec3 \<Rightarrow> vec3 \<Rightarrow> real \<Rightarrow> real \<Rightarrow> vec3 \<times> real"
  rotate_vector :: "mat4 \<Rightarrow> vec3 \<Rightarrow> vec3"
  perspective :: "real \<Rightarrow> real \<Rightarrow> real \<Rightarrow> real \<Rightarrow> mat4"
  orthographic :: "real \<Rightarrow> real \<Rightarrow> real \<Rightarrow> real \<Rightarrow> real \<Rightarrow> real \<Rightarrow> mat4"

text \<open>The camera operations the renderer calls (\<open>Camera::lookAt\<close>,
  \<open>Camera::setPerspective\<close>, \<open>Camera::setOrthographic\<close>): each stores its parameters,
  recomputes its matrix and \<open>viewprojection_matrix = view_matrix * projection_matrix\<close>.\<close>

definition camera_look_at :: "services \<Rightarrow> camera \<Rightarrow> vec3 \<Rightarrow> vec3 \<Rightarrow> vec3 \<Rightarrow> camera" where
  "camera_look_at svc c e ce u =
     c\<lparr>eye := e, center := ce, up := u, view_matrix := look_at svc e ce u,
       viewprojection_matrix := mat_mul svc (look_at svc e ce u) (projection_matrix c)\<rparr>"

definition camera_set_perspective ::
  "services \<Rightarrow> camera \<Rightarrow> real \<Rightarrow> real \<Rightarrow> real \<Rightarrow> real \<Rightarrow> camera" where
  "camera_set_perspective svc c fv asp n f =
     c\<lparr>kind := PERSPECTIVE, fov := fv, aspect := asp, near_plane := n, far_plane := f,
       projection_matrix := perspective svc fv asp n f,
       viewprojection_matrix := mat_mul svc (view_matrix c) (perspective svc fv asp n f)\<rparr>"

definition camera_set_orthographic ::
  "services \<Rightarrow> camera \<Rightarrow> real \<Rightarrow> real \<Rightarrow> real \<Rightarrow> real \<Rightarrow> real \<Rightarrow> real \<Rightarrow> camera" where
  "camera_set_orthographic svc c l r b t n f =
     c\<lparr>kind := ORTHOGRAPHIC, left := l, right := r, bottom := b, top := t, near_plane := n,
       far_plane := f, projection_matrix := orthographic svc l r b t n f,
       viewprojection_matrix := mat_mul svc (view_matrix c) (orthographic svc l r b t n f)\<rparr>"

text \<open>C++'s float-to-int conversion truncates towards zero.\<close>

definition float_to_int :: "real \<Rightarrow> int" where
  "float_to_int x = (if 0 \<le> x then \<lfloor>x\<rfloor> else \<lceil>x\<rceil>)"

subsection \<open>Entities\<close>

record base_entity =
  name :: string
  model :: mat4
  visible :: bool

record light_entity = base_entity +
  color :: vec3
  intensity :: real
  light_type :: eLightType
  max_distance :: real
  cone_angle :: real
  area_size :: real
  spot_exp :: real
  bias :: real
  cast_shadows :: bool
  uvs :: vec3
  l_camera :: camera
  shadow_fbo :: "fbo option"

record prefab_entity = base_entity +
  filename :: string
  prefab :: "node option"

record probe_entity = base_entity +
  p_local :: vec3
  p_index :: int
  p_sh :: "real list"

record irradiance_grid = base_entity +
  probes :: "probe_entity list"
  inv_model :: mat4
  dim :: vec3
  probe_scale :: int

record reflection_probe = base_entity +
  cubemap :: string

record decal_entity = base_entity +
  albedo :: "string option"

text \<open>The closed set of entity kinds; \<open>EBase\<close> is the plain \<open>BaseEntity\<close> that
  \<open>Scene::load\<close> creates for an unknown type string.\<close>

datatype entity = EBase base_entity | EPrefab prefab_entity | ELight light_entity
  | EProbe probe_entity | EGrid irradiance_grid | EReflProbe reflection_probe
  | EDecal decal_entity

fun entity_type :: "entity \<Rightarrow> eEntityType" where
  "entity_type (EBase _) = NONE"
| "entity_type (EPrefab _) = PREFAB"
| "entity_type (ELight _) = LIGHT"
| "entity_type (EProbe _) = PROBE"
| "entity_type (EGrid _) = IRRADIANCE_GRID"
| "entity_type (EReflProbe _) = REFLECTION_PROBE"
| "entity_type (EDecal _) = DECAL"

fun entity_visible :: "entity \<Rightarrow> bool" where
  "entity_visible (EBase e) = visible e"
| "entity_visible (EPrefab e) = visible e"
| "entity_visible (ELight e) = visible e"
| "entity_visible (EProbe e) = visible e"
| "entity_visible (EGrid e) = visible e"
| "entity_visible (EReflProbe e) = visible e"
| "entity_visible (EDecal e) = visible e"

text \<open>\<open>BaseEntity::model\<close> of any entity.\<close>

fun entity_model :: "entity \<Rightarrow> mat4" where
  "entity_model (EBase e) = model e"
| "entity_model (EPrefab e) = model e"
| "entity_model (ELight e) = model e"
| "entity_model (EProbe e) = model e"
| "entity_model (EGrid e) = model e"
| "entity_model (EReflProbe e) = model e"
| "entity_model (EDecal e) = model e"

text \<open>\<open>Scene::createEntity\<close>: \<open>None\<close> is the \<open>NULL\<close> returned for an unknown type.
  The constructors' uninitialised fields come from the argument \<open>junk\<close>.\<close>

datatype entity_kind_tag = TagPrefab | TagLight | TagProbe | TagReflProbe | TagGrid | TagDecal

definition create_entity :: "string \<Rightarrow> entity_kind_tag option" where
  "create_entity ty =
     (if ty = ''PREFAB'' then Some TagPrefab
      else if ty = ''LIGHT'' then Some TagLight
      else if ty = ''PROBE'' then Some TagProbe
      else if ty = ''REFLECTION_PROBE'' then Some TagReflProbe
      else if ty = ''IRRADIANCE_GRID'' then Some TagGrid
      else if ty = ''DECAL'' then Some TagDecal
      else None)"

text \<open>\<open>LightEntity::LightEntity()\<close>: \<open>BaseEntity()\<close> sets \<open>visible\<close>, \<open>Matrix44()\<close> is
  the identity; the constructor sets the camera, \<open>cast_shadows\<close>, \<open>uvs\<close> and
  \<open>shadow_fbo\<close>. Every other field is left as it was in memory (\<open>junk\<close>).\<close>

definition light_entity_new :: "light_entity \<Rightarrow> camera \<Rightarrow> light_entity" where
  "light_entity_new junk cam =
     junk\<lparr>name := [], model := mat_identity, visible := True, l_camera := cam,
       cast_shadows := False, uvs := vzero, shadow_fbo := None\<rparr>"

subsection \<open>Light configuration (\<open>LightEntity::configure\<close>)\<close>

text \<open>The JSON object of a light: each key present or absent.\<close>

record light_json =
  j_light_type :: "string option"
  j_color :: "vec3 option"
  j_max_dist :: "real option"
  j_intensity :: "real option"
  j_target :: "vec3 option"
  j_cone_angle :: "real option"
  j_area_size :: "real option"
  j_cone_exp :: "real option"
  j_shadow_bias :: "real option"
  j_cast_shadows :: "bool option"

text \<open>The \<open>light_type\<close> key: three independent \<open>if\<close>s on the type string; SPOT and
  DIRECTIONAL allocate a depth-only shadow FBO of side \<open>1024 * 2^quality\<close>.\<close>

definition configure_light_type :: "eQuality \<Rightarrow> string \<Rightarrow> light_entity \<Rightarrow> light_entity" where
  "configure_light_type q ty l =
     (let l1 = (if ty = ''POINT'' then l\<lparr>light_type := POINT\<rparr> else l);
          l2 = (if ty = ''SPOT'' then l1\<lparr>light_type := SPOT, bias := 0.03,
                  shadow_fbo := Some (depth_only_fbo (shadow_res q))\<rparr> else l1)
      in if ty = ''DIRECTIONAL'' then l2\<lparr>light_type := DIRECTIONAL, bias := 0.005,
                  shadow_fbo := Some (depth_only_fbo (shadow_res q))\<rparr> else l2)"

definition light_configure :: "services \<Rightarrow> eQuality \<Rightarrow> light_json \<Rightarrow> light_entity \<Rightarrow> light_entity" where
  "light_configure svc q j l =
     (let l1 = (case j_light_type j of None \<Rightarrow> l | Some ty \<Rightarrow> configure_light_type q ty l);
          l2 = (case j_color j of None \<Rightarrow> l1 | Some c \<Rightarrow> l1\<lparr>color := c\<rparr>);
          l3 = (case j_max_dist j of None \<Rightarrow> l2 | Some d \<Rightarrow> l2\<lparr>max_distance := d\<rparr>);
          l4 = (case j_intensity j of None \<Rightarrow> l3 | Some i \<Rightarrow> l3\<lparr>intensity := i\<rparr>);
          l5 = (case j_target j of None \<Rightarrow> l4
                | Some t \<Rightarrow> l4\<lparr>model := set_front svc (model l4) (vsub t (get_translation (model l4)))\<rparr>);
          l6 = (case j_cone_angle j of None \<Rightarrow> l5 | Some a \<Rightarrow> l5\<lparr>cone_angle := a\<rparr>);
          l7 = (case j_area_size j of None \<Rightarrow> l6 | Some a \<Rightarrow> l6\<lparr>area_size := a\<rparr>);
          l8 = (case j_cone_exp j of None \<Rightarrow> l7 | Some e \<Rightarrow> l7\<lparr>spot_exp := e\<rparr>);
          l9 = (case j_shadow_bias j of None \<Rightarrow> l8 | Some b \<Rightarrow> l8\<lparr>bias := b\<rparr>)
      in case j_cast_shadows j of None \<Rightarrow> l9 | Some c \<Rightarrow> l9\<lparr>cast_shadows := c\<rparr>)"

text \<open>\<open>LightEntity::lightBounding\<close>: a spot light is tested with the bounding sphere of
  its cone, every other light with the sphere of radius \<open>max_distance\<close> around it.
  The cone's sphere (\<open>boundingSphere\<close>) is a service of the math library.\<close>

definition light_bounding :: "services \<Rightarrow> camera \<Rightarrow> light_entity \<Rightarrow> bool" where
  "light_bounding svc cam l =
     (let pos = transform_point svc (model l) vzero;
          (c, r) = (if light_type l = SPOT
                    then cone_sphere svc pos (transform_point svc (model l) (0, 0, -1)) (max_distance l)
                           (cone_angle l * pi / 180)
                    else (pos, max_distance l))
      in sphere_in_frustum svc cam c r)"

text \<open>Test fixtures: services computed with the matrix product above, every frustum test
  passing, and a camera at the origin.\<close>

definition demo_svc :: services where
  "demo_svc =
     \<lparr>set_front = (\<lambda>m v. m), look_at = (\<lambda>e c u. mat_identity), mat_mul = mat4_mul,
      transform_point = mat4_point, box_center = (\<lambda>m me. get_translation m),
      box_in_frustum = (\<lambda>c m me. True), sphere_in_frustum = (\<lambda>c p r. True),
      set_translation = (\<lambda>m v. m), scale = (\<lambda>m v. m), inverse = (\<lambda>m. m),
      cone_sphere = (\<lambda>p d r a. (p, r)), rotate_vector = (\<lambda>m v. v),
      perspective = (\<lambda>fv asp n f. mat_identity),
      orthographic = (\<lambda>l r b t n f. mat_identity)\<rparr>"

definition demo_camera :: camera where
  "demo_camera =
     \<lparr>eye = vzero, center = (0, 0, -1), up = (0, 1, 0), kind = PERSPECTIVE, fov = 45, aspect = 1,
      near_plane = 0.1, far_plane = 1000, left = -1, right = 1, bottom = -1, top = 1,
      view_matrix = mat_identity, projection_matrix = mat_identity,
      viewprojection_matrix = mat_identity\<rparr>"

lemmas light_configure_defs = light_configure_def configure_light_type_def Let_def

declare depth_only_fbo_def [model_defs] shadow_res_def [model_defs]
  light_entity_new_def [model_defs] create_entity_def [model_defs]

subsection \<open>Properties of light configuration\<close>

lemma configure_light_type_fbo:
  "shadow_fbo (configure_light_type q ty l) =
     (if ty = ''SPOT'' \<or> ty = ''DIRECTIONAL'' then Some (depth_only_fbo (shadow_res q))
      else shadow_fbo l)"
  by (auto simp: configure_light_type_def Let_def)

lemma configure_light_type_type:
  "light_type (configure_light_type q ty l) =
     (if ty = ''POINT'' then POINT else if ty = ''SPOT'' then SPOT
      else if ty = ''DIRECTIONAL'' then DIRECTIONAL else light_type l)"
  by (auto simp: configure_light_type_def Let_def)

lemma configure_light_type_cast [simp]:
  "cast_shadows (configure_light_type q ty l) = cast_shadows l"
  by (simp add: configure_light_type_def Let_def)

lemma light_configure_fbo:
  "shadow_fbo (light_configure svc q j l) =
     (case j_light_type j of None \<Rightarrow> shadow_fbo l
      | Some ty \<Rightarrow> shadow_fbo (configure_light_type q ty l))"
  by (simp add: light_configure_def Let_def split: option.splits)

lemma light_configure_type:
  "light_type (light_configure svc q j l) =
     (case j_light_type j of None \<Rightarrow> light_type l
      | Some ty \<Rightarrow> light_type (configure_light_type q ty l))"
  by (simp add: light_configure_def Let_def split: option.splits)

lemma light_configure_cast:
  "cast_shadows (light_configure svc q j l) =
     (case j_cast_shadows j of None \<Rightarrow> cast_shadows l | Some c \<Rightarrow> c)"
  by (simp add: light_configure_def Let_def split: option.splits)

lemma shadow_res_pos: "0 < shadow_res q"
  by (simp add: shadow_res_def)

lemma shadow_res_values:
  "shadow_res LOW = 1024" "shadow_res MEDIUM = 2048" "shadow_res HIGH = 4096"
  "shadow_res ULTRA = 8192"
  by (simp_all add: shadow_res_def)

end
