(* ===== verification/RenderCall.thy ===== *)
theory RenderCall
  imports Entities "HOL-Library.Product_Lexorder"
begin

text \<open>
  The draw record \<open>GTR::RenderCall\<close> (\<open>src/src/rendercall.h\<close>, \<open>src/src/rendercall.cpp\<close>),
  its comparison \<open>operator <\<close>, and the \<open>std::sort\<close> that \<open>Renderer::fetchSceneEntities\<close>
  applies to the call list. \<open>std::sort\<close> is specified by its contract (the result is a
  permutation of the input that is sorted for the comparison) and implemented by the
  insertion sort libstdc++ runs on ranges of at most 16 elements
  (\<open>__insertion_sort\<close>: each element moves left past the elements it compares less
  than). The lemmas show that the comparison is a strict weak ordering, that it is the
  lexicographic order on the key (alpha rank, minus camera distance), that the insertion
  sort meets the contract, and what a sorted call list looks like.
\<close>

record render_call =
  rc_mesh :: mesh
  rc_material :: material
  rc_model :: mat4
  rc_probe :: "nat option"
  cam_dist :: real

text \<open>\<open>RenderCall::RenderCall(mesh, material, model)\<close>.\<close>

definition render_call_new :: "mesh \<Rightarrow> material \<Rightarrow> mat4 \<Rightarrow> render_call" where
  "render_call_new me ma m =
     \<lparr>rc_mesh = me, rc_material = ma, rc_model = m, rc_probe = None, cam_dist = 0\<rparr>"

text \<open>\<open>RenderCall::operator <\<close>: the enum values of the alpha modes are compared with
  \<open><=\<close> when they differ; equal modes compare by descending camera distance.\<close>

definition rc_less :: "render_call \<Rightarrow> render_call \<Rightarrow> bool" where
  "rc_less a b =
     (if alpha_mode (rc_material a) \<noteq> alpha_mode (rc_material b)
      then alpha_rank (alpha_mode (rc_material a)) \<le> alpha_rank (alpha_mode (rc_material b))
      else cam_dist a > cam_dist b)"

text \<open>The contract of \<open>std::sort(first, last)\<close> with this comparison.\<close>

definition rc_sorted :: "render_call list \<Rightarrow> bool" where
  "rc_sorted ys = sorted_wrt (\<lambda>a b. \<not> rc_less b a) ys"

definition rc_sort_spec :: "render_call list \<Rightarrow> render_call list \<Rightarrow> bool" where
  "rc_sort_spec xs ys = (mset ys = mset xs \<and> rc_sorted ys)"

text \<open>libstdc++'s \<open>__insertion_sort\<close> / \<open>__unguarded_linear_insert\<close>: the next element
  is inserted into the sorted prefix after every element it is not less than.\<close>

fun rc_insert :: "render_call \<Rightarrow> render_call list \<Rightarrow> render_call list" where
  "rc_insert x [] = [x]"
| "rc_insert x (y # ys) = (if rc_less x y then x # y # ys else y # rc_insert x ys)"

definition rc_sort :: "render_call list \<Rightarrow> render_call list" where
  "rc_sort xs = foldl (\<lambda>ys x. rc_insert x ys) [] xs"

text \<open>The sort key: alpha rank first, then the camera distance, descending.\<close>

definition rc_key :: "render_call \<Rightarrow> nat \<times> real" where
  "rc_key c = (alpha_rank (alpha_mode (rc_material c)), - cam_dist c)"

text \<open>Test fixtures: a call of a given alpha mode and camera distance.\<close>

definition demo_call :: "nat \<Rightarrow> eAlphaMode \<Rightarrow> real \<Rightarrow> render_call" where
  "demo_call k am d =
     \<lparr>rc_mesh = \<lparr>mesh_id = k, num_vertices = 3\<rparr>,
      rc_material = \<lparr>mat_id = k, alpha_mode = am, alpha_cutoff = 0, two_sided = False,
                     color_texture = None, mat_color = (1, 1, 1, 1), emissive_factor = vzero,
                     metallic_factor = 0, roughness_factor = 1, emissive_texture = None,
                     metallic_roughness_texture = None, normal_texture = None\<rparr>,
      rc_model = mat_identity, rc_probe = None, cam_dist = d\<rparr>"

declare render_call_new_def [model_defs] rc_less_def [model_defs] rc_key_def [model_defs]

subsection \<open>The comparison is the key order\<close>

lemma alpha_rank_inj: "alpha_rank a = alpha_rank b \<longleftrightarrow> a = b"
  by (cases a; cases b) auto

lemma rc_less_key: "rc_less a b \<longleftrightarrow> rc_key a < rc_key b"
  by (auto simp: rc_less_def rc_key_def less_prod_def alpha_rank_inj)

lemma rc_not_less_key: "\<not> rc_less b a \<longleftrightarrow> rc_key a \<le> rc_key b"
  by (auto simp: rc_less_key)

lemma rc_sorted_key: "rc_sorted ys \<longleftrightarrow> sorted (map rc_key ys)"
  by (simp add: rc_sorted_def rc_not_less_key sorted_wrt_map)

subsection \<open>Insertion sort\<close>

lemma mset_rc_insert: "mset (rc_insert x ys) = add_mset x (mset ys)"
  by (induction ys) auto

lemma set_rc_insert: "set (rc_insert x ys) = insert x (set ys)"
  by (induction ys) auto

lemma sorted_rc_insert:
  "sorted (map rc_key ys) \<Longrightarrow> sorted (map rc_key (rc_insert x ys))"
  by (induction ys) (auto simp: set_rc_insert rc_less_key)

lemma rc_sort_foldl:
  "mset (foldl (\<lambda>ys x. rc_insert x ys) acc xs) = mset acc + mset xs \<and>
   (sorted (map rc_key acc) \<longrightarrow> sorted (map rc_key (foldl (\<lambda>ys x. rc_insert x ys) acc xs)))"
  by (induction xs arbitrary: acc) (auto simp: mset_rc_insert sorted_rc_insert)

lemma mset_rc_sort: "mset (rc_sort xs) = mset xs"
  using rc_sort_foldl [of "[]" xs] by (simp add: rc_sort_def)

lemma sorted_rc_sort: "sorted (map rc_key (rc_sort xs))"
  using rc_sort_foldl [of "[]" xs] by (simp add: rc_sort_def)

lemma length_rc_sort: "length (rc_sort xs) = length xs"
  by (metis mset_rc_sort size_mset)

text \<open>Insertion puts the new call after every call of the same key: the model sort is
  stable.\<close>

lemma filter_rc_insert:
  assumes "sorted (map rc_key ys)"
  shows "filter (\<lambda>y. rc_key y = k) (rc_insert x ys) =
           filter (\<lambda>y. rc_key y = k) ys @ (if rc_key x = k then [x] else [])"
  using assms
proof (induction ys)
  case Nil
  then show ?case by simp
next
  case (Cons y ys)
  show ?case
  proof (cases "rc_less x y")
    case True
    with Cons.prems have "\<forall>z \<in> set (y # ys). rc_key x < rc_key z"
      by (auto simp: rc_less_key)
    then have "filter (\<lambda>z. rc_key z = rc_key x) (y # ys) = []"
      by (auto simp: filter_empty_conv_all)
    with True show ?thesis by auto
  next
    case False
    with Cons show ?thesis by simp
  qed
qed

lemma rc_sort_stable_foldl:
  "sorted (map rc_key acc) \<Longrightarrow>
   filter (\<lambda>y. rc_key y = k) (foldl (\<lambda>ys x. rc_insert x ys) acc xs) =
     filter (\<lambda>y. rc_key y = k) acc @ filter (\<lambda>y. rc_key y = k) xs"
proof (induction xs arbitrary: acc)
  case Nil
  then show ?case by simp
next
  case (Cons x xs)
  have "sorted (map rc_key (rc_insert x acc))"
    using Cons.prems by (rule sorted_rc_insert)
  then show ?case
    using Cons.IH [of "rc_insert x acc"] filter_rc_insert [OF Cons.prems, of k x] by simp
qed

lemma rc_sort_stable_lemma:
  "filter (\<lambda>y. rc_key y = k) (rc_sort xs) = filter (\<lambda>y. rc_key y = k) xs"
  using rc_sort_stable_foldl [of "[]" k xs] by (simp add: rc_sort_def)

lemma rc_sorted_nth_key:
  "rc_sorted ys \<Longrightarrow> i < j \<Longrightarrow> j < length ys \<Longrightarrow> rc_key (ys ! i) \<le> rc_key (ys ! j)"
  by (simp add: rc_sorted_key sorted_iff_nth_mono_less)

lemma rc_key_le_iff:
  "rc_key a \<le> rc_key b \<longleftrightarrow>
     alpha_rank (alpha_mode (rc_material a)) \<le> alpha_rank (alpha_mode (rc_material b)) \<and>
     (alpha_mode (rc_material a) = alpha_mode (rc_material b) \<longrightarrow> cam_dist b \<le> cam_dist a)"
  by (auto simp: rc_key_def less_eq_prod_def alpha_rank_inj)

subsection \<open>Properties of the draw-call order\<close>

text \<open>C1: \<open>RenderCall::operator <\<close> is a strict weak ordering, as \<open>std::sort\<close> requires:
  it is irreflexive and transitive, and incomparability is transitive.\<close>

theorem rc_less_strict_weak_order:
  "irreflp rc_less \<and> transp rc_less \<and> transp (\<lambda>a b. \<not> rc_less a b \<and> \<not> rc_less b a)"
  unfolding irreflp_def transp_def rc_less_key
  by (auto simp: not_less)


text \<open>C3: in the sorted call list an earlier call never has a higher alpha-mode rank
  (opaque, then masked, then blended calls), and of two calls with the same alpha mode
  the earlier one is at least as far from the camera (back to front).\<close>

theorem rc_sort_order:
  assumes "i < j" and "j < length (rc_sort xs)"
  shows "alpha_rank (alpha_mode (rc_material (rc_sort xs ! i)))
           \<le> alpha_rank (alpha_mode (rc_material (rc_sort xs ! j))) \<and>
         (alpha_mode (rc_material (rc_sort xs ! i)) = alpha_mode (rc_material (rc_sort xs ! j))
           \<longrightarrow> cam_dist (rc_sort xs ! j) \<le> cam_dist (rc_sort xs ! i))"
proof -
  have "rc_sorted (rc_sort xs)"
    by (simp add: rc_sorted_key sorted_rc_sort)
  then have "rc_key (rc_sort xs ! i) \<le> rc_key (rc_sort xs ! j)"
    using assms by (rule rc_sorted_nth_key)
  then show ?thesis unfolding rc_key_le_iff .
qed

theorem rc_sort_order_witness:
  "(0::nat) < 1 \<and> 1 < length (rc_sort [demo_call 0 BLEND 1, demo_call 1 NO_ALPHA 2]) \<and>
   alpha_rank (alpha_mode (rc_material (rc_sort [demo_call 0 BLEND 1, demo_call 1 NO_ALPHA 2] ! 0)))
     \<le> alpha_rank (alpha_mode (rc_material (rc_sort [demo_call 0 BLEND 1, demo_call 1 NO_ALPHA 2] ! 1)))"
proof -
  have s: "rc_sort [demo_call 0 BLEND 1, demo_call 1 NO_ALPHA 2] =
             [demo_call 1 NO_ALPHA 2, demo_call 0 BLEND 1]"
    by (simp add: rc_sort_def demo_call_def rc_less_def)
  show ?thesis
    using rc_sort_order [of 0 1 "[demo_call 0 BLEND 1, demo_call 1 NO_ALPHA 2]"]
    unfolding s by (simp add: demo_call_def)
qed





end
