(* ===== verification/RendererState.thy ===== *)
theory RendererState
  imports RenderCall
begin

text \<open>
  The state the renderer keeps and the graphics API it drives.
  \<^item> \<open>renderer\<close> is \<open>GTR::Renderer\<close> (\<open>src/src/renderer.h\<close>): its configuration
    flags, the per-frame lists (\<open>calls\<close>; \<open>lights\<close>, \<open>reflection_probes\<close>,
    \<open>grid\<close>, \<open>directional_light\<close> as indices into the scene's entity vector, since
    the C++ holds pointers to the scene's entities and writes through them), the
    \<open>shadow_count\<close>, and the lazily allocated render targets (\<open>atlas\<close>,
    \<open>probes_texture\<close>, the G-buffers).
  \<^item> \<open>gl\<close> is the OpenGL state the passes set (blending, depth test, culling,
    scissor, viewport, bound framebuffer, enabled program) and the uniforms of every
    shader program (a map per program: a uniform keeps its value until it is set
    again, also across draws).
  \<^item> \<open>world\<close> is everything one frame reads and writes: the scene (whose entities the
    renderer mutates through its pointers), the renderer, the GL state, the trace of
    graphics calls issued so far, the quality tier and the window size.
  A draw or clear appends an event to the trace with a snapshot of the GL state, so
  properties about the order and the state of the submitted draws are properties of
  the trace. A dereference of a null pointer is the error value \<open>NullDeref\<close>.
\<close>

datatype eRenderMode = FORWARD | DEFERRED | DEFERRED_ALPHA
datatype eLightMode = SINGLE | MULTI | BRUH
datatype eLightEq = PHONG | DIRECT_LAMB | DIRECT_BURLEY | NO_EQ

fun light_eq_code :: "eLightEq \<Rightarrow> int" where
  "light_eq_code PHONG = 0"
| "light_eq_code DIRECT_LAMB = 1"
| "light_eq_code DIRECT_BURLEY = 2"
| "light_eq_code NO_EQ = 3"

text \<open>\<open>static const int max_lights = 100\<close>: the size of the single-pass arrays.\<close>

definition max_lights :: nat where
  "max_lights = 100"

record scene =
  background_color :: vec3
  ambient_light :: vec3
  environment :: "string option"
  entities :: "entity list"

record ssao =
  ssao_samples :: int
  ssao_intensity :: real
  ssao_plus :: bool
  ssao_bias :: real
  ssao_blur :: bool

record renderer =
  render_mode :: eRenderMode
  light_mode :: eLightMode
  light_eq :: eLightEq
  pcf :: bool
  depth_viewport :: bool
  dithering :: bool
  show_gbuffers :: bool
  show_omr :: bool
  activate_ssao :: bool
  hdr_active :: bool
  activate_irr :: bool
  irr_3lerp :: bool
  reflections :: bool
  show_probes :: bool
  volumetric :: bool
  show_reflection_probes :: bool
  depth_light :: int
  shadow_count :: int
  hdr_scale :: real
  hdr_average_lum :: real
  hdr_white_balance :: real
  hdr_gamma :: real
  air_density :: real
  calls :: "render_call list"
  lights :: "nat list"
  reflection_probes :: "nat list"
  grid :: "nat option"
  directional_light :: "nat option"
  probes_texture :: "nat option"
  atlas :: "fbo option"
  gbuffers_ready :: bool
  reflections_calculated :: bool
  blur_iterations :: int
  bloom_th :: real
  bloom_soft_th :: real
  focal_dist :: real
  min_dist_dof :: real
  max_dist_dof :: real
  noise_amount :: real
  lens_dist :: real
  prev_vp :: mat4
  r_ssao :: ssao

subsection \<open>The graphics API\<close>

datatype blend_factor = GL_ZERO | GL_ONE | GL_SRC_ALPHA | GL_ONE_MINUS_SRC_ALPHA
datatype depth_func = GL_LESS | GL_LEQUAL
datatype face_order = GL_CW | GL_CCW

datatype fbo_name = IlluminationFbo | BlurredFbo | GBuffersFbo | DecalsFbo | ShadowFbo nat
  | AtlasFbo | SSAOFbo | BloomFbo | IrrFbo | ReflectionsFbo | PingFbo | PongFbo

datatype tex = TexWhite | TexBlack | TexGreen | TexNamed string | TexShadowDepth nat
  | TexAtlasDepth | TexGBuffer nat | TexGBufferDepth | TexSSAO nat | TexCubemap nat
  | TexProbes | TexPing | TexPong | TexIllum | TexIllumDepth | TexBlurred | TexBloom
  | TexDecals nat | TexNone

datatype uval = UBool bool | UInt int | UFloat real | UVec3 vec3 | UVec4 "real \<times> real \<times> real \<times> real"
  | UMat mat4 | UTex tex int
  | UIntArr "int list" | UFloatArr "real list" | UVec3Arr "vec3 list" | UMatArr "mat4 list"

record gl =
  blend :: bool
  blend_src :: blend_factor
  blend_dst :: blend_factor
  depth_test :: bool
  depth_fn :: depth_func
  cull_face :: bool
  front_face :: face_order
  color_mask :: bool
  scissor_test :: bool
  scissor_rect :: "int \<times> int \<times> int \<times> int"
  viewport :: "int \<times> int \<times> int \<times> int"
  bound_fbo :: "fbo_name option"
  program :: "string option"
  fbo_buffers :: "fbo_name \<Rightarrow> nat list option"
  uniforms :: "string \<Rightarrow> string \<rightharpoonup> uval"

datatype primitive = PMesh mesh | PQuad | PSphere | PCube | PToViewport tex

datatype gl_event = Draw primitive gl | Clear bool bool gl | Copy tex tex
  | AttachTex fbo_name tex nat | GenMipmaps tex

datatype error = NullDeref string | BadCast nat | ArrayOverflow nat

record world =
  w_scene :: scene
  rnd :: renderer
  gls :: gl
  trace :: "gl_event list"
  quality :: eQuality
  win_w :: int
  win_h :: int
  shader_ok :: "string \<Rightarrow> bool"

text \<open>\<open>Renderer::Renderer()\<close> and \<open>SSAO::SSAO(64, true)\<close>. The constructor leaves
  \<open>shadow_count\<close>, \<open>grid\<close> and \<open>directional_light\<close> uninitialised: they are
  the arguments. The vectors start empty and \<open>prev_vp\<close> is \<open>Matrix44()\<close>.\<close>

definition renderer_new :: "int \<Rightarrow> nat option \<Rightarrow> nat option \<Rightarrow> renderer" where
  "renderer_new sc gd dl =
     \<lparr>render_mode = DEFERRED, light_mode = MULTI, light_eq = DIRECT_BURLEY, pcf = False,
      depth_viewport = False, dithering = False, show_gbuffers = False, show_omr = False,
      activate_ssao = True, hdr_active = True, activate_irr = False, irr_3lerp = False,
      reflections = False, show_probes = False, volumetric = False,
      show_reflection_probes = False, depth_light = 0, shadow_count = sc, hdr_scale = 1,
      hdr_average_lum = 2.5, hdr_white_balance = 10, hdr_gamma = 2.2, air_density = 0.002,
      calls = [], lights = [], reflection_probes = [], grid = gd, directional_light = dl,
      probes_texture = None, atlas = None, gbuffers_ready = False,
      reflections_calculated = False, blur_iterations = 10, bloom_th = 1, bloom_soft_th = 0.5,
      focal_dist = 500, min_dist_dof = 100, max_dist_dof = 500, noise_amount = 0.5,
      lens_dist = 0.5, prev_vp = mat_identity,
      r_ssao = \<lparr>ssao_samples = 64, ssao_intensity = 1, ssao_plus = True, ssao_bias = 0.005,
                ssao_blur = True\<rparr>\<rparr>"

text \<open>The OpenGL default state (a fresh context) with no uniform set.\<close>

definition gl_init :: gl where
  "gl_init =
     \<lparr>blend = False, blend_src = GL_ONE, blend_dst = GL_ZERO, depth_test = False,
      depth_fn = GL_LESS, cull_face = False, front_face = GL_CCW, color_mask = True,
      scissor_test = False, scissor_rect = (0, 0, 0, 0), viewport = (0, 0, 0, 0),
      bound_fbo = None, program = None, fbo_buffers = (\<lambda>_. None),
      uniforms = (\<lambda>_. Map.empty)\<rparr>"

subsection \<open>Primitive graphics calls\<close>

definition set_uniform :: "string \<Rightarrow> string \<Rightarrow> uval \<Rightarrow> world \<Rightarrow> world" where
  "set_uniform sh u v w =
     w\<lparr>gls := (gls w)\<lparr>uniforms := (uniforms (gls w))(sh := (uniforms (gls w) sh)(u \<mapsto> v))\<rparr>\<rparr>"

definition enable_shader :: "string \<Rightarrow> world \<Rightarrow> world" where
  "enable_shader sh w = w\<lparr>gls := (gls w)\<lparr>program := Some sh\<rparr>\<rparr>"

definition disable_shader :: "world \<Rightarrow> world" where
  "disable_shader w = w\<lparr>gls := (gls w)\<lparr>program := None\<rparr>\<rparr>"

definition gl_blend :: "bool \<Rightarrow> world \<Rightarrow> world" where
  "gl_blend b w = w\<lparr>gls := (gls w)\<lparr>blend := b\<rparr>\<rparr>"

definition gl_blend_func :: "blend_factor \<Rightarrow> blend_factor \<Rightarrow> world \<Rightarrow> world" where
  "gl_blend_func s d w = w\<lparr>gls := (gls w)\<lparr>blend_src := s, blend_dst := d\<rparr>\<rparr>"

definition gl_depth_test :: "bool \<Rightarrow> world \<Rightarrow> world" where
  "gl_depth_test b w = w\<lparr>gls := (gls w)\<lparr>depth_test := b\<rparr>\<rparr>"

definition gl_depth_func :: "depth_func \<Rightarrow> world \<Rightarrow> world" where
  "gl_depth_func f w = w\<lparr>gls := (gls w)\<lparr>depth_fn := f\<rparr>\<rparr>"

definition gl_cull :: "bool \<Rightarrow> world \<Rightarrow> world" where
  "gl_cull b w = w\<lparr>gls := (gls w)\<lparr>cull_face := b\<rparr>\<rparr>"

definition gl_front_face :: "face_order \<Rightarrow> world \<Rightarrow> world" where
  "gl_front_face f w = w\<lparr>gls := (gls w)\<lparr>front_face := f\<rparr>\<rparr>"

definition gl_color_mask :: "bool \<Rightarrow> world \<Rightarrow> world" where
  "gl_color_mask b w = w\<lparr>gls := (gls w)\<lparr>color_mask := b\<rparr>\<rparr>"

definition gl_scissor_test :: "bool \<Rightarrow> world \<Rightarrow> world" where
  "gl_scissor_test b w = w\<lparr>gls := (gls w)\<lparr>scissor_test := b\<rparr>\<rparr>"

definition gl_scissor :: "int \<times> int \<times> int \<times> int \<Rightarrow> world \<Rightarrow> world" where
  "gl_scissor r w = w\<lparr>gls := (gls w)\<lparr>scissor_rect := r\<rparr>\<rparr>"

definition gl_viewport :: "int \<times> int \<times> int \<times> int \<Rightarrow> world \<Rightarrow> world" where
  "gl_viewport r w = w\<lparr>gls := (gls w)\<lparr>viewport := r\<rparr>\<rparr>"

definition bind_fbo :: "fbo_name \<Rightarrow> world \<Rightarrow> world" where
  "bind_fbo f w = w\<lparr>gls := (gls w)\<lparr>bound_fbo := Some f\<rparr>\<rparr>"

definition unbind_fbo :: "world \<Rightarrow> world" where
  "unbind_fbo w = w\<lparr>gls := (gls w)\<lparr>bound_fbo := None\<rparr>\<rparr>"

text \<open>\<open>FBO::enableSingleBuffer(i)\<close> (\<open>Some [i]\<close>) and \<open>FBO::enableAllBuffers()\<close>
  (\<open>None\<close>): the colour attachments the bound FBO draws into, kept with the FBO.\<close>

definition gl_draw_buffers :: "nat list option \<Rightarrow> world \<Rightarrow> world" where
  "gl_draw_buffers bs w =
     (case bound_fbo (gls w) of
        None \<Rightarrow> w
      | Some f \<Rightarrow> w\<lparr>gls := (gls w)\<lparr>fbo_buffers := (fbo_buffers (gls w))(f := bs)\<rparr>\<rparr>)"

definition draw :: "primitive \<Rightarrow> world \<Rightarrow> world" where
  "draw p w = w\<lparr>trace := trace w @ [Draw p (gls w)]\<rparr>"

definition gl_clear :: "bool \<Rightarrow> bool \<Rightarrow> world \<Rightarrow> world" where
  "gl_clear c d w = w\<lparr>trace := trace w @ [Clear c d (gls w)]\<rparr>"

definition copy_tex :: "tex \<Rightarrow> tex \<Rightarrow> world \<Rightarrow> world" where
  "copy_tex a b w = w\<lparr>trace := trace w @ [Copy a b]\<rparr>"

text \<open>The light entity behind an index of the renderer's lists (\<open>(LightEntity* )ent\<close>),
  and the write-back through that pointer.\<close>

definition get_light :: "world \<Rightarrow> nat \<Rightarrow> light_entity option" where
  "get_light w i =
     (if i < length (entities (w_scene w))
      then (case entities (w_scene w) ! i of ELight l \<Rightarrow> Some l | _ \<Rightarrow> None) else None)"

definition put_light :: "nat \<Rightarrow> light_entity \<Rightarrow> world \<Rightarrow> world" where
  "put_light i l w =
     w\<lparr>w_scene := (w_scene w)\<lparr>entities := (entities (w_scene w))[i := ELight l]\<rparr>\<rparr>"

text \<open>A sequence of state changes, run in list order.\<close>

definition run :: "(world \<Rightarrow> world) list \<Rightarrow> world \<Rightarrow> world" where
  "run fs w = fold (\<lambda>f. f) fs w"

text \<open>The uniform a draw saw: the value in the map of the program enabled at the draw.\<close>

definition draw_uniform :: "gl \<Rightarrow> string \<Rightarrow> uval option" where
  "draw_uniform g u = (case program g of None \<Rightarrow> None | Some sh \<Rightarrow> uniforms g sh u)"

text \<open>The draws of a trace, in order.\<close>

fun draws :: "gl_event list \<Rightarrow> (primitive \<times> gl) list" where
  "draws [] = []"
| "draws (Draw p g # es) = (p, g) # draws es"
| "draws (_ # es) = draws es"

text \<open>A state change that touches only the uniform values of the programs.\<close>

definition uniforms_only :: "world \<Rightarrow> world \<Rightarrow> bool" where
  "uniforms_only w w' \<longleftrightarrow> (\<exists>U. w' = w\<lparr>gls := (gls w)\<lparr>uniforms := U\<rparr>\<rparr>)"

lemmas gl_ops_defs = set_uniform_def enable_shader_def disable_shader_def gl_blend_def
  gl_blend_func_def gl_depth_test_def gl_depth_func_def gl_cull_def gl_front_face_def
  gl_color_mask_def gl_scissor_test_def gl_scissor_def gl_viewport_def bind_fbo_def
  unbind_fbo_def gl_draw_buffers_def

declare gl_ops_defs [model_defs] draw_def [model_defs] gl_clear_def [model_defs]
  copy_tex_def [model_defs] max_lights_def [model_defs]

subsection \<open>Trace lemmas\<close>

lemma run_simps [simp]: "run [] w = w" "run (f # fs) w = run fs (f w)"
  by (simp_all add: run_def)

lemma run_append [simp]: "run (fs @ gs) w = run gs (run fs w)"
  by (simp add: run_def)

lemma ex_uniforms_self [simp]: "\<exists>U. w = w\<lparr>gls := (gls w)\<lparr>uniforms := U\<rparr>\<rparr>"
  by (rule exI [of _ "uniforms (gls w)"]) simp

lemma uniforms_only_refl [simp]: "uniforms_only w w"
  unfolding uniforms_only_def by simp

lemma uniforms_only_set_uniform [simp]: "uniforms_only w (set_uniform sh u v w)"
  unfolding uniforms_only_def set_uniform_def by blast

lemma uniforms_only_trans:
  "uniforms_only w w1 \<Longrightarrow> uniforms_only w1 w2 \<Longrightarrow> uniforms_only w w2"
  unfolding uniforms_only_def by auto

lemma uniforms_only_run:
  "(\<And>f w. f \<in> set fs \<Longrightarrow> uniforms_only w (f w)) \<Longrightarrow> uniforms_only w (run fs w)"
  by (induction fs arbitrary: w) (auto intro: uniforms_only_trans)

lemma uniforms_only_D:
  assumes "uniforms_only w w'"
  shows "trace w' = trace w" "rnd w' = rnd w" "w_scene w' = w_scene w" "shader_ok w' = shader_ok w"
    "program (gls w') = program (gls w)" "blend (gls w') = blend (gls w)"
    "blend_src (gls w') = blend_src (gls w)" "blend_dst (gls w') = blend_dst (gls w)"
    "depth_test (gls w') = depth_test (gls w)" "depth_fn (gls w') = depth_fn (gls w)"
    "get_light w' = get_light w"
  using assms unfolding uniforms_only_def get_light_def by (auto simp: fun_eq_iff)

lemma get_light_eq: "w_scene w' = w_scene w \<Longrightarrow> get_light w' = get_light w"
  by (simp add: get_light_def fun_eq_iff)

lemma get_put_light [simp]:
  "get_light (put_light i l w) j =
     (if j = i \<and> i < length (entities (w_scene w)) then Some l else get_light w j)"
  by (auto simp: get_light_def put_light_def)

lemma draws_append [simp, trace_simps]: "draws (xs @ ys) = draws xs @ draws ys"
  by (induction xs rule: draws.induct) auto

lemma trace_gl_ops [simp, trace_simps]:
  "trace (set_uniform sh u v w) = trace w" "trace (enable_shader sh w) = trace w"
  "trace (disable_shader w) = trace w" "trace (gl_blend b w) = trace w"
  "trace (gl_blend_func s d w) = trace w" "trace (gl_depth_test b w) = trace w"
  "trace (gl_depth_func f w) = trace w" "trace (gl_cull b w) = trace w"
  "trace (gl_front_face fo w) = trace w" "trace (gl_color_mask b w) = trace w"
  "trace (gl_scissor_test b w) = trace w" "trace (gl_scissor r w) = trace w"
  "trace (gl_viewport r w) = trace w" "trace (bind_fbo fb w) = trace w"
  "trace (unbind_fbo w) = trace w"
  by (simp_all add: gl_ops_defs)

lemma trace_draw [simp, trace_simps]: "trace (draw p w) = trace w @ [Draw p (gls w)]"
  by (simp add: draw_def)

lemma trace_clear [simp, trace_simps]: "trace (gl_clear c d w) = trace w @ [Clear c d (gls w)]"
  by (simp add: gl_clear_def)

lemma trace_copy [simp, trace_simps]: "trace (copy_tex a b w) = trace w @ [Copy a b]"
  by (simp add: copy_tex_def)

lemma rnd_gl_ops [simp]:
  "rnd (set_uniform sh u v w) = rnd w" "rnd (enable_shader sh w) = rnd w"
  "rnd (disable_shader w) = rnd w" "rnd (gl_blend b w) = rnd w"
  "rnd (gl_blend_func s d w) = rnd w" "rnd (gl_depth_test b w) = rnd w"
  "rnd (gl_depth_func f w) = rnd w" "rnd (gl_cull b w) = rnd w"
  "rnd (gl_front_face fo w) = rnd w" "rnd (gl_color_mask b w) = rnd w"
  "rnd (gl_scissor_test b w) = rnd w" "rnd (gl_scissor r w) = rnd w"
  "rnd (gl_viewport r w) = rnd w" "rnd (bind_fbo fb w) = rnd w"
  "rnd (unbind_fbo w) = rnd w" "rnd (draw p w) = rnd w" "rnd (gl_clear cc cd w) = rnd w"
  "rnd (copy_tex ta tb w) = rnd w"
  by (simp_all add: gl_ops_defs draw_def gl_clear_def copy_tex_def)

lemma shader_ok_gl_ops [simp]:
  "shader_ok (set_uniform sh u v w) = shader_ok w" "shader_ok (enable_shader sh w) = shader_ok w"
  "shader_ok (disable_shader w) = shader_ok w" "shader_ok (gl_blend b w) = shader_ok w"
  "shader_ok (gl_blend_func s d w) = shader_ok w" "shader_ok (gl_depth_test b w) = shader_ok w"
  "shader_ok (gl_depth_func f w) = shader_ok w" "shader_ok (gl_cull b w) = shader_ok w"
  "shader_ok (gl_front_face fo w) = shader_ok w" "shader_ok (gl_color_mask b w) = shader_ok w"
  "shader_ok (gl_scissor_test b w) = shader_ok w" "shader_ok (gl_scissor r w) = shader_ok w"
  "shader_ok (gl_viewport r w) = shader_ok w" "shader_ok (bind_fbo fb w) = shader_ok w"
  "shader_ok (unbind_fbo w) = shader_ok w" "shader_ok (draw p w) = shader_ok w"
  "shader_ok (gl_clear cc cd w) = shader_ok w" "shader_ok (copy_tex ta tb w) = shader_ok w"
  "shader_ok (put_light i l w) = shader_ok w"
  by (simp_all add: gl_ops_defs draw_def gl_clear_def copy_tex_def put_light_def)

lemma gl_draw_buffers_frame [simp, trace_simps]:
  "trace (gl_draw_buffers bs w) = trace w" "rnd (gl_draw_buffers bs w) = rnd w"
  "shader_ok (gl_draw_buffers bs w) = shader_ok w" "w_scene (gl_draw_buffers bs w) = w_scene w"
  by (simp_all add: gl_draw_buffers_def split: option.splits)

lemma get_light_cong: "w_scene w' = w_scene w \<Longrightarrow> get_light w' i = get_light w i"
  by (simp add: get_light_def)

lemma scene_gl_ops [simp]:
  "w_scene (set_uniform sh u v w) = w_scene w" "w_scene (enable_shader sh w) = w_scene w"
  "w_scene (disable_shader w) = w_scene w" "w_scene (gl_blend b w) = w_scene w"
  "w_scene (gl_blend_func s d w) = w_scene w" "w_scene (gl_depth_test b w) = w_scene w"
  "w_scene (gl_depth_func f w) = w_scene w" "w_scene (gl_cull b w) = w_scene w"
  "w_scene (gl_front_face fo w) = w_scene w" "w_scene (gl_color_mask b w) = w_scene w"
  "w_scene (gl_scissor_test b w) = w_scene w" "w_scene (gl_scissor r w) = w_scene w"
  "w_scene (gl_viewport r w) = w_scene w" "w_scene (bind_fbo fb w) = w_scene w"
  "w_scene (unbind_fbo w) = w_scene w" "w_scene (draw p w) = w_scene w"
  "w_scene (gl_clear cc cd w) = w_scene w" "w_scene (copy_tex ta tb w) = w_scene w"
  by (simp_all add: gl_ops_defs draw_def gl_clear_def copy_tex_def)

end
