(* ===== verification/Traversal.thy ===== *)
theory Traversal
  imports RendererState
begin

text \<open>
  Scene traversal (\<open>src/src/renderer.cpp\<close>: \<open>Renderer::getCallsFromPrefab\<close>,
  \<open>Renderer::getCallsFromNode\<close>, \<open>Renderer::fetchSceneEntities\<close>). A prefab's node tree
  is walked in pre-order; a visible node with both a mesh and a material yields a
  \<open>render_call\<close> whose model is the node's global matrix (\<open>Node::getGlobalMatrix(true)\<close>:
  the local matrix times the parent's cached global matrix, which the pre-order walk has
  just computed) times the prefab entity's model; an invisible node prunes its subtree.
  The call's camera distance and nearest reflection probe (the first probe of minimal
  distance among the probes fetched so far, scanned with a strict \<open><\<close> from
  \<open>FLT_MAX\<close>) are computed when the call is made. \<open>fetchSceneEntities\<close> walks the
  entity vector once, collecting calls, reflection probes, the grid and the lights, and
  sorts the calls at the end.
\<close>

definition flt_max :: real where
  "flt_max = 340282346638528859811704183484516925440"

text \<open>\<open>Node::getGlobalMatrix(true)\<close> given the parent's cached global matrix.\<close>

definition node_global :: "services \<Rightarrow> mat4 option \<Rightarrow> mat4 \<Rightarrow> mat4" where
  "node_global svc pg loc = (case pg of None \<Rightarrow> loc | Some g \<Rightarrow> mat_mul svc loc g)"

text \<open>The position of the reflection probe with entity index \<open>i\<close>.\<close>

definition probe_pos :: "entity list \<Rightarrow> nat \<Rightarrow> vec3" where
  "probe_pos es i = get_translation (entity_model (es ! i))"

text \<open>The loop of \<open>getCallsFromNode\<close> over \<open>reflection_probes\<close>.\<close>

fun probe_scan :: "entity list \<Rightarrow> vec3 \<Rightarrow> nat list \<Rightarrow> real \<Rightarrow> nat option \<Rightarrow> nat option" where
  "probe_scan es pos [] d best = best"
| "probe_scan es pos (i # is) d best =
     (let dp = vdistance (probe_pos es i) pos
      in if dp < d then probe_scan es pos is dp (Some i) else probe_scan es pos is d best)"

definition nearest_probe :: "entity list \<Rightarrow> nat list \<Rightarrow> vec3 \<Rightarrow> nat option" where
  "nearest_probe es rps pos = probe_scan es pos rps flt_max None"

text \<open>The body of \<open>if (node->mesh && node->material)\<close>.\<close>

definition make_call ::
  "services \<Rightarrow> entity list \<Rightarrow> nat list \<Rightarrow> camera option \<Rightarrow> mat4 \<Rightarrow> mesh \<Rightarrow> material \<Rightarrow> render_call"
where
  "make_call svc es rps cam nm me ma =
     (let c = render_call_new me ma nm;
          c1 = (case cam of None \<Rightarrow> c
                | Some k \<Rightarrow> c\<lparr>cam_dist := vdistance (box_center svc nm me) (eye k)\<rparr>)
      in c1\<lparr>rc_probe := nearest_probe es rps (get_translation (rc_model c1))\<rparr>)"

text \<open>\<open>getCallsFromNode(prefab_model, node, camera)\<close>: the calls it appends.\<close>

fun node_calls ::
  "services \<Rightarrow> entity list \<Rightarrow> nat list \<Rightarrow> camera option \<Rightarrow> mat4 \<Rightarrow> mat4 option \<Rightarrow> node \<Rightarrow> render_call list"
where
  "node_calls svc es rps cam pm pg (Node vis loc me ma ch) =
     (if \<not> vis then []
      else let g = node_global svc pg loc; nm = mat_mul svc g pm
           in (case (me, ma) of (Some mesh, Some mat) \<Rightarrow> [make_call svc es rps cam nm mesh mat]
               | _ \<Rightarrow> [])
              @ concat (map (node_calls svc es rps cam pm (Some g)) ch))"

text \<open>\<open>getCallsFromPrefab(model, prefab, camera)\<close>: the root node has no parent.\<close>

definition prefab_calls ::
  "services \<Rightarrow> entity list \<Rightarrow> nat list \<Rightarrow> camera option \<Rightarrow> mat4 \<Rightarrow> node \<Rightarrow> render_call list"
where
  "prefab_calls svc es rps cam pm rt = node_calls svc es rps cam pm None rt"

text \<open>One iteration of the entity loop of \<open>fetchSceneEntities\<close>.\<close>

definition fetch_light ::
  "services \<Rightarrow> camera \<Rightarrow> nat \<Rightarrow> light_entity \<Rightarrow> renderer \<Rightarrow> renderer"
where
  "fetch_light svc cam i l r =
     (if light_type l = DIRECTIONAL
      then (if render_mode r = DEFERRED then r\<lparr>directional_light := Some i\<rparr>
            else r\<lparr>lights := lights r @ [i]\<rparr>)\<lparr>shadow_count := shadow_count r + 1\<rparr>
      else if light_bounding svc cam l
      then r\<lparr>shadow_count := (if light_type l \<noteq> POINT then shadow_count r + 1 else shadow_count r),
             lights := lights r @ [i]\<rparr>
      else r)"

definition fetch_entity ::
  "services \<Rightarrow> camera \<Rightarrow> bool \<Rightarrow> bool \<Rightarrow> bool \<Rightarrow> bool \<Rightarrow> entity list \<Rightarrow> renderer \<Rightarrow> nat \<Rightarrow> renderer"
where
  "fetch_entity svc cam fp fl fpr fg es r i =
     (let e = es ! i in
      if \<not> entity_visible e then r
      else let r1 = (case e of EPrefab pe \<Rightarrow>
                       (if fp then (case prefab pe of None \<Rightarrow> r
                          | Some rt \<Rightarrow> r\<lparr>calls := calls r @
                               prefab_calls svc es (reflection_probes r) (Some cam) (model pe) rt\<rparr>)
                        else r)
                     | _ \<Rightarrow> r);
               r2 = (if fpr \<and> entity_type e = REFLECTION_PROBE
                     then r1\<lparr>reflection_probes := reflection_probes r1 @ [i]\<rparr> else r1);
               r3 = (if fg \<and> entity_type e = IRRADIANCE_GRID then r2\<lparr>grid := Some i\<rparr> else r2)
           in case e of ELight l \<Rightarrow> (if fl then fetch_light svc cam i l r3 else r3) | _ \<Rightarrow> r3)"

definition fetch_scene_entities ::
  "services \<Rightarrow> camera \<Rightarrow> bool \<Rightarrow> bool \<Rightarrow> bool \<Rightarrow> bool \<Rightarrow> entity list \<Rightarrow> renderer \<Rightarrow> renderer"
where
  "fetch_scene_entities svc cam fp fl fpr fg es r =
     (let r0 = (if fp then r\<lparr>calls := []\<rparr> else r);
          r1 = (if fl then r0\<lparr>directional_light := None, shadow_count := 0, lights := []\<rparr> else r0);
          r2 = (if fpr then r1\<lparr>reflection_probes := []\<rparr> else r1);
          r3 = foldl (fetch_entity svc cam fp fl fpr fg es) r2 [0..<length es]
      in if fp then r3\<lparr>calls := rc_sort (calls r3)\<rparr> else r3)"

text \<open>A chain of nodes, each the only child of the one before; only the last carries
  a mesh and a material. Used to state how the traversal composes matrices.\<close>

fun chain :: "mat4 \<Rightarrow> mat4 list \<Rightarrow> mesh \<Rightarrow> material \<Rightarrow> node" where
  "chain l [] me ma = Node True l (Some me) (Some ma) []"
| "chain l (l' # ls) me ma = Node True l None None [chain l' ls me ma]"

text \<open>The entity-index invariant of the renderer's per-frame lists: every index of
  \<open>lights\<close> is a light entity (in deferred mode never a directional one), every index
  of \<open>reflection_probes\<close> a reflection probe, and \<open>directional_light\<close> a directional
  light.\<close>

definition is_light_at :: "entity list \<Rightarrow> nat \<Rightarrow> bool" where
  "is_light_at es i = (i < length es \<and> entity_type (es ! i) = LIGHT)"

definition light_type_at :: "entity list \<Rightarrow> nat \<Rightarrow> eLightType option" where
  "light_type_at es i = (case es ! i of ELight l \<Rightarrow> Some (light_type l) | _ \<Rightarrow> None)"

definition refs_ok :: "entity list \<Rightarrow> renderer \<Rightarrow> bool" where
  "refs_ok es r =
     (list_all (is_light_at es) (lights r) \<and>
      (render_mode r = DEFERRED \<longrightarrow> list_all (\<lambda>i. light_type_at es i \<noteq> Some DIRECTIONAL) (lights r)) \<and>
      list_all (\<lambda>i. i < length es \<and> entity_type (es ! i) = REFLECTION_PROBE) (reflection_probes r) \<and>
      (case directional_light r of None \<Rightarrow> True
       | Some i \<Rightarrow> i < length es \<and> light_type_at es i = Some DIRECTIONAL))"

text \<open>The lights \<open>fetchSceneEntities\<close> counts in \<open>shadow_count\<close>.\<close>

definition counts_for_shadow :: "services \<Rightarrow> camera \<Rightarrow> entity \<Rightarrow> bool" where
  "counts_for_shadow svc cam e =
     (case e of ELight l \<Rightarrow> visible l \<and>
        (light_type l = DIRECTIONAL \<or> (light_type l \<noteq> POINT \<and> light_bounding svc cam l))
      | _ \<Rightarrow> False)"

text \<open>Test fixtures: a prefab entity whose root node draws one mesh, and a reflection
  probe, both at the origin.\<close>

definition demo_prefab :: prefab_entity where
  "demo_prefab =
     \<lparr>name = ''box'', model = mat_identity, visible = True, filename = ''box.gltf'',
      prefab = Some (Node True mat_identity (Some \<lparr>mesh_id = 0, num_vertices = 36\<rparr>)
        (Some \<lparr>mat_id = 0, alpha_mode = NO_ALPHA, alpha_cutoff = 0, two_sided = False,
               color_texture = None, mat_color = (1, 1, 1, 1), emissive_factor = vzero,
                     metallic_factor = 0, roughness_factor = 1, emissive_texture = None,
                     metallic_roughness_texture = None, normal_texture = None\<rparr>) [])\<rparr>"

definition demo_probe :: reflection_probe where
  "demo_probe = \<lparr>name = ''probe'', model = mat_identity, visible = True, cubemap = ''cube''\<rparr>"

declare flt_max_def [model_defs] node_global_def [model_defs] probe_pos_def [model_defs]
  nearest_probe_def [model_defs] make_call_def [model_defs] prefab_calls_def [model_defs]
  fetch_light_def [model_defs] fetch_entity_def [model_defs] fetch_scene_entities_def [model_defs]

subsection \<open>Nearest reflection probe\<close>

lemma probe_scan_result:
  "(probe_scan es pos is d best = best \<and> (\<forall>j \<in> set is. d \<le> vdistance (probe_pos es j) pos)) \<or>
   (\<exists>i \<in> set is. probe_scan es pos is d best = Some i \<and> vdistance (probe_pos es i) pos < d \<and>
      (\<forall>j \<in> set is. vdistance (probe_pos es i) pos \<le> vdistance (probe_pos es j) pos))"
proof (induction "is" arbitrary: d best)
  case Nil
  then show ?case by simp
next
  case (Cons k ks)
  let ?dk = "vdistance (probe_pos es k) pos"
  show ?case
  proof (cases "?dk < d")
    case True
    from Cons.IH [of ?dk "Some k"] True show ?thesis by force
  next
    case False
    from Cons.IH [of d best] False show ?thesis by force
  qed
qed

subsection \<open>Node traversal\<close>

lemma node_calls_invisible [simp]: "node_calls svc es rps cam pm pg (Node False l me ma ch) = []"
  by simp

lemma node_calls_chain:
  "map rc_model (node_calls svc es rps cam pm pg (chain l ls me ma)) =
     [mat_mul svc (foldl (\<lambda>g l'. mat_mul svc l' g) (node_global svc pg l) ls) pm]"
proof (induction ls arbitrary: l pg)
  case Nil
  then show ?case by (simp add: make_call_def render_call_new_def Let_def split: option.splits)
next
  case (Cons l' ls)
  have "node_global svc (Some (node_global svc pg l)) l' = mat_mul svc l' (node_global svc pg l)"
    by (simp add: node_global_def)
  with Cons.IH [of "Some (node_global svc pg l)" l'] show ?case by (simp add: Let_def)
qed

subsection \<open>Entity fetch\<close>

lemma refs_ok_fetch_light:
  "refs_ok es r \<Longrightarrow> i < length es \<Longrightarrow> es ! i = ELight l \<Longrightarrow> refs_ok es (fetch_light svc cam i l r)"
  by (auto simp: refs_ok_def fetch_light_def is_light_at_def light_type_at_def)

lemma refs_ok_calls [simp]: "refs_ok es (r\<lparr>calls := cs\<rparr>) = refs_ok es r"
  by (simp add: refs_ok_def)

lemma refs_ok_grid [simp]: "refs_ok es (r\<lparr>grid := gd\<rparr>) = refs_ok es r"
  by (simp add: refs_ok_def)

lemma refs_ok_add_probe:
  "refs_ok es r \<Longrightarrow> i < length es \<Longrightarrow> entity_type (es ! i) = REFLECTION_PROBE \<Longrightarrow>
   refs_ok es (r\<lparr>reflection_probes := reflection_probes r @ [i]\<rparr>)"
  by (simp add: refs_ok_def)

lemma refs_ok_fetch_entity:
  assumes "refs_ok es r" and "i < length es"
  shows "refs_ok es (fetch_entity svc cam fp fl fpr fg es r i)"
  using assms refs_ok_fetch_light [OF assms] refs_ok_add_probe [OF assms]
  by (cases "es ! i") (auto simp: fetch_entity_def Let_def split: option.splits)

lemma refs_ok_foldl:
  "refs_ok es r \<Longrightarrow> \<forall>i \<in> set is. i < length es \<Longrightarrow>
   refs_ok es (foldl (fetch_entity svc cam fp fl fpr fg es) r is)"
  by (induction "is" arbitrary: r) (auto simp: refs_ok_fetch_entity)

lemma shadow_count_fetch_entity:
  "shadow_count (fetch_entity svc cam fp True fpr fg es r i) =
     shadow_count r + (if counts_for_shadow svc cam (es ! i) then 1 else 0)"
  by (cases "es ! i")
     (auto simp: fetch_entity_def fetch_light_def counts_for_shadow_def Let_def split: option.splits)

lemma shadow_count_foldl:
  "shadow_count (foldl (fetch_entity svc cam fp True fpr fg es) r is) =
     shadow_count r + int (length (filter (\<lambda>i. counts_for_shadow svc cam (es ! i)) is))"
  by (induction "is" arbitrary: r) (auto simp: shadow_count_fetch_entity)

lemma filter_nth_upt: "length (filter (\<lambda>i. P (xs ! i)) [0..<length xs]) = length (filter P xs)"
proof -
  have "filter P xs = map (\<lambda>i. xs ! i) (filter (\<lambda>i. P (xs ! i)) [0..<length xs])"
    by (subst map_nth [symmetric], subst filter_map) (simp add: comp_def)
  then show ?thesis by simp
qed

subsection \<open>Properties of the traversal\<close>

text \<open>C7: the nearest-probe scan of \<open>getCallsFromNode\<close> picks, among the reflection
  probes fetched so far, one of minimal distance to the call, whenever there is a probe
  closer than \<open>FLT_MAX\<close>.\<close>

theorem nearest_probe_closest:
  assumes "rps \<noteq> []" and "\<forall>j \<in> set rps. vdistance (probe_pos es j) pos < flt_max"
  shows "\<exists>i \<in> set rps. nearest_probe es rps pos = Some i \<and>
           (\<forall>j \<in> set rps. vdistance (probe_pos es i) pos \<le> vdistance (probe_pos es j) pos)"
proof -
  from assms obtain k where k: "k \<in> set rps" "vdistance (probe_pos es k) pos < flt_max"
    by (cases rps) auto
  from probe_scan_result [of es pos rps flt_max None] k show ?thesis
    by (auto simp: nearest_probe_def)
qed

theorem nearest_probe_closest_witness:
  "nearest_probe [EReflProbe demo_probe] [0] vzero = Some 0"
proof -
  have h: "\<forall>j \<in> set [0::nat]. vdistance (probe_pos [EReflProbe demo_probe] j) vzero < flt_max"
    by (simp add: probe_pos_def demo_probe_def mat_identity_def get_translation_def vzero_def
        vdistance_def vsub_def flt_max_def)
  show ?thesis using nearest_probe_closest [OF _ h] by simp
qed

text \<open>C8: \<open>getCallsFromPrefab\<close> composes the hierarchy: a mesh node at depth \<open>n\<close> under the
  prefab's root gets the model \<open>local\<^sub>n * \<dots> * local\<^sub>0 * prefab_model\<close>, each level
  multiplied onto its parent's global matrix (through \<open>getGlobalMatrix\<close>), and the
  prefab entity's model applied once, last.\<close>

theorem prefab_calls_compose:
  "map rc_model (prefab_calls svc es rps cam pm (chain l ls me ma)) =
     [mat_mul svc (foldl (\<lambda>g l'. mat_mul svc l' g) l ls) pm]"
  using node_calls_chain [of svc es rps cam pm None l ls me ma]
  by (simp add: prefab_calls_def node_global_def)

text \<open>C9: after \<open>fetchSceneEntities\<close> with lights and probes fetched, every index in
  \<open>lights\<close> names a light entity (never a directional one in deferred mode), every
  index in \<open>reflection_probes\<close> a reflection probe and \<open>directional_light\<close> a
  directional light.\<close>

theorem fetch_refs_ok: "refs_ok es (fetch_scene_entities svc cam fp True True fg es r)"
proof -
  let ?r2 = "(if fp then r\<lparr>calls := []\<rparr> else r)
              \<lparr>directional_light := None, shadow_count := 0, lights := []\<rparr>\<lparr>reflection_probes := []\<rparr>"
  have "refs_ok es ?r2" by (simp add: refs_ok_def)
  then have "refs_ok es (foldl (fetch_entity svc cam fp True True fg es) ?r2 [0..<length es])"
    by (rule refs_ok_foldl) simp
  then show ?thesis by (cases fp) (simp_all add: fetch_scene_entities_def Let_def)
qed

theorem fetch_refs_ok_witness:
  "refs_ok [EReflProbe demo_probe]
     (fetch_scene_entities demo_svc demo_camera True True True True [EReflProbe demo_probe]
        (renderer_new 0 None None)) \<and>
   reflection_probes (fetch_scene_entities demo_svc demo_camera True True True True
     [EReflProbe demo_probe] (renderer_new 0 None None)) = [0]"
  using fetch_refs_ok [of "[EReflProbe demo_probe]" demo_svc demo_camera True True
      "renderer_new 0 None None"]
  by (simp add: fetch_scene_entities_def fetch_entity_def demo_probe_def rc_sort_def
      renderer_new_def)

text \<open>C10: \<open>shadow_count\<close> after \<open>fetchSceneEntities\<close> is the number of visible
  directional lights plus visible spot lights inside the camera's bounds; whether a light
  casts shadows is not consulted.\<close>

theorem fetch_shadow_count:
  "shadow_count (fetch_scene_entities svc cam fp True fpr fg es r) =
     int (length (filter (counts_for_shadow svc cam) es))"
  by (simp add: fetch_scene_entities_def Let_def shadow_count_foldl filter_nth_upt)

text \<open>C11: the call list after \<open>fetchSceneEntities\<close> is sorted for
  \<open>RenderCall::operator <\<close>.\<close>

theorem fetch_calls_sorted: "rc_sorted (calls (fetch_scene_entities svc cam True fl fpr fg es r))"
  by (simp add: fetch_scene_entities_def Let_def rc_sorted_key sorted_rc_sort)


end
