(* ===== verification/Shadows.thy ===== *)
theory Shadows
  imports Traversal
begin

text \<open>
  Per-light shadow maps (\<open>src/src/renderer.cpp\<close>: \<open>Renderer::updateLight\<close>,
  \<open>Renderer::renderMeshWithMaterialShadow\<close>, \<open>Renderer::shadowMapping\<close>).
  \<open>updateLight\<close> points the light's camera along the light, then fits it: a spot light
  gets a perspective of twice its cone angle, a directional light an orthographic box of
  half-width \<open>area_size\<close> whose view translation is snapped to the shadow map's texel
  grid (\<open>round(x / grid) * grid\<close>, with C's \<open>round\<close>: halves away from zero).
  \<open>shadowMapping\<close> renders the depth of every call in the light's frustum into the
  light's own FBO; \<open>renderMeshWithMaterialShadow\<close> skips meshes without vertices,
  blended materials and a missing shader. The light's updated camera is written back to
  the scene entity (the C++ mutates it through its pointer).
\<close>

definition c_round :: "real \<Rightarrow> int" where
  "c_round x = (if 0 \<le> x then \<lfloor>x + 1 / 2\<rfloor> else - \<lfloor>- x + 1 / 2\<rfloor>)"

definition snap :: "real \<Rightarrow> real \<Rightarrow> real" where
  "snap g v = of_int (c_round (v / g)) * g"

definition update_light :: "services \<Rightarrow> int \<Rightarrow> light_entity \<Rightarrow> error + light_entity" where
  "update_light svc ww l =
     (let c1 = camera_look_at svc (l_camera l) (get_translation (model l))
                 (transform_point svc (model l) (0, 0, 1)) (rotate_vector svc (model l) (0, 1, 0));
          l1 = l\<lparr>l_camera := c1\<rparr>
      in case light_type l of
           POINT \<Rightarrow> Inr l1
         | SPOT \<Rightarrow> Inr (l1\<lparr>l_camera := camera_set_perspective svc c1 (2 * cone_angle l)
                      (of_int ww / of_int ww) 0.1 (max_distance l)\<rparr>)
         | DIRECTIONAL \<Rightarrow>
             (case shadow_fbo l of None \<Rightarrow> Inl (NullDeref ''shadow_fbo'')
              | Some f \<Rightarrow>
                  let c2 = camera_set_orthographic svc c1 (- area_size l) (area_size l)
                             (- area_size l) (area_size l) 0.1 (max_distance l);
                      g = (right c2 - left c2) / of_int (fbo_w f);
                      vm = (view_matrix c2)[12 := snap g (view_matrix c2 ! 12),
                                            13 := snap g (view_matrix c2 ! 13)]
                  in Inr (l1\<lparr>l_camera := c2\<lparr>view_matrix := vm,
                            viewprojection_matrix := mat_mul svc vm (projection_matrix c2)\<rparr>\<rparr>))
         | NO_LIGHT \<Rightarrow> Inr l1)"

definition render_mesh_with_material_shadow ::
  "mat4 \<Rightarrow> mesh \<Rightarrow> material \<Rightarrow> light_entity \<Rightarrow> world \<Rightarrow> world"
where
  "render_mesh_with_material_shadow m me ma l w =
     (if num_vertices me = 0 then w
      else let tex = (case color_texture ma of None \<Rightarrow> TexWhite | Some t \<Rightarrow> TexNamed t)
           in if \<not> shader_ok w ''shadowmap'' \<or> alpha_mode ma = BLEND then w
              else run [gl_cull (\<not> two_sided ma), enable_shader ''shadowmap'',
                 set_uniform ''shadowmap'' ''u_viewprojection'' (UMat (viewprojection_matrix (l_camera l))),
                 set_uniform ''shadowmap'' ''u_texture'' (UTex tex 0),
                 set_uniform ''shadowmap'' ''u_model'' (UMat m),
                 set_uniform ''shadowmap'' ''u_alpha_cutoff''
                   (UFloat (if alpha_mode ma = MASK then alpha_cutoff ma else 0)),
                 draw (PMesh me), disable_shader, gl_blend False, gl_depth_func GL_LESS] w)"

text \<open>The loop of \<open>shadowMapping\<close> over the calls, culled by the light camera.\<close>

definition shadow_calls :: "services \<Rightarrow> light_entity \<Rightarrow> render_call list \<Rightarrow> world \<Rightarrow> world" where
  "shadow_calls svc l cs w =
     fold (\<lambda>c w. if box_in_frustum svc (l_camera l) (rc_model c) (rc_mesh c)
                 then render_mesh_with_material_shadow (rc_model c) (rc_mesh c) (rc_material c) l w
                 else w) cs w"

definition shadow_mapping :: "services \<Rightarrow> nat \<Rightarrow> world \<Rightarrow> error + world" where
  "shadow_mapping svc i w =
     (case get_light w i of None \<Rightarrow> Inl (BadCast i)
      | Some l \<Rightarrow>
          (case update_light svc (win_w w) l of Inl e \<Rightarrow> Inl e
           | Inr l1 \<Rightarrow>
               (case shadow_fbo l1 of None \<Rightarrow> Inl (NullDeref ''shadow_fbo'')
                | Some f \<Rightarrow>
                    let w1 = run [bind_fbo (ShadowFbo i), gl_color_mask False, gl_clear False True]
                               (put_light i l1 w);
                        w2 = shadow_calls svc l1 (calls (rnd w)) w1
                    in Inr (run [unbind_fbo, gl_color_mask True] w2))))"

text \<open>The calls whose depth a light's shadow pass draws.\<close>

definition casts_into :: "services \<Rightarrow> camera \<Rightarrow> bool \<Rightarrow> render_call \<Rightarrow> bool" where
  "casts_into svc cam sh c =
     (box_in_frustum svc cam (rc_model c) (rc_mesh c) \<and> num_vertices (rc_mesh c) \<noteq> 0 \<and>
      sh \<and> alpha_mode (rc_material c) \<noteq> BLEND)"

text \<open>The contract of the matrix services: a view matrix has the 16 entries of a
  \<open>Matrix44\<close>.\<close>

definition svc_ok :: "services \<Rightarrow> bool" where
  "svc_ok svc = (\<forall>e c u. length (look_at svc e c u) = 16)"

text \<open>Test fixtures: a directional light with a 1024-texel shadow map, and a world whose
  scene holds it and whose call list holds one opaque call.\<close>

definition demo_dir_light :: light_entity where
  "demo_dir_light =
     \<lparr>name = ''sun'', model = mat_identity, visible = True, color = (1, 1, 1), intensity = 1,
      light_type = DIRECTIONAL, max_distance = 1000, cone_angle = 0, area_size = 512,
      spot_exp = 0, bias = 0.005, cast_shadows = True, uvs = vzero, l_camera = demo_camera,
      shadow_fbo = Some (depth_only_fbo 1024)\<rparr>"

definition demo_world :: world where
  "demo_world =
     \<lparr>w_scene = \<lparr>background_color = vzero, ambient_light = vzero, environment = None,
                 entities = [ELight demo_dir_light]\<rparr>,
      rnd = (renderer_new 0 None None)\<lparr>calls := [demo_call 0 NO_ALPHA 1]\<rparr>,
      gls = gl_init, trace = [], quality = MEDIUM, win_w = 1280, win_h = 720,
      shader_ok = (\<lambda>s. True)\<rparr>"

text \<open>The JSON of a point light that asks for shadows, and a world holding that light.\<close>

definition point_cast_json :: light_json where
  "point_cast_json =
     \<lparr>j_light_type = Some ''POINT'', j_color = None, j_max_dist = None, j_intensity = None,
      j_target = None, j_cone_angle = None, j_area_size = None, j_cone_exp = None,
      j_shadow_bias = None, j_cast_shadows = Some True\<rparr>"

definition demo_point_world :: world where
  "demo_point_world =
     demo_world\<lparr>w_scene := (w_scene demo_world)\<lparr>entities :=
       [ELight (light_configure demo_svc MEDIUM point_cast_json
                  (light_entity_new demo_dir_light demo_camera))]\<rparr>\<rparr>"

declare c_round_def [model_defs] snap_def [model_defs] update_light_def [model_defs]
  render_mesh_with_material_shadow_def [model_defs] shadow_calls_def [model_defs]
  shadow_mapping_def [model_defs]

subsection \<open>Texel snapping\<close>

lemma c_round_close: "\<bar>of_int (c_round x) - x\<bar> \<le> 1 / 2"
proof (cases "0 \<le> x")
  case True
  have e: "c_round x = \<lfloor>x + 1 / 2\<rfloor>" using True by (simp add: c_round_def)
  have "of_int \<lfloor>x + 1 / 2\<rfloor> \<le> x + 1 / 2" by (rule of_int_floor_le)
  moreover have "x + 1 / 2 < of_int \<lfloor>x + 1 / 2\<rfloor> + 1" by (rule real_of_int_floor_add_one_gt)
  ultimately show ?thesis unfolding e abs_le_iff by linarith
next
  case False
  have e: "real_of_int (c_round x) = - of_int \<lfloor>- x + 1 / 2\<rfloor>" using False by (simp add: c_round_def)
  have "of_int \<lfloor>- x + 1 / 2\<rfloor> \<le> - x + 1 / 2" by (rule of_int_floor_le)
  moreover have "- x + 1 / 2 < of_int \<lfloor>- x + 1 / 2\<rfloor> + 1" by (rule real_of_int_floor_add_one_gt)
  ultimately show ?thesis unfolding e abs_le_iff by linarith
qed

lemma snap_close: "0 < g \<Longrightarrow> \<bar>snap g v - v\<bar> \<le> g / 2"
proof -
  assume g: "0 < g"
  have "snap g v - v = g * (of_int (c_round (v / g)) - v / g)"
    using g by (simp add: snap_def algebra_simps)
  then have "\<bar>snap g v - v\<bar> = g * \<bar>of_int (c_round (v / g)) - v / g\<bar>"
    using g by (simp add: abs_mult)
  also have "\<dots> \<le> g * (1 / 2)"
    using g c_round_close [of "v / g"] by (intro mult_left_mono) auto
  finally show ?thesis by simp
qed

lemma snap_grid: "snap g v = of_int (c_round (v / g)) * g"
  by (simp add: snap_def)

subsection \<open>Frame lemmas of the shadow pass\<close>

lemma render_shadow_frame [simp]:
  "rnd (render_mesh_with_material_shadow m me ma l w) = rnd w"
  "w_scene (render_mesh_with_material_shadow m me ma l w) = w_scene w"
  "shader_ok (render_mesh_with_material_shadow m me ma l w) = shader_ok w"
  "color_mask (gls (render_mesh_with_material_shadow m me ma l w)) = color_mask (gls w)"
  "bound_fbo (gls (render_mesh_with_material_shadow m me ma l w)) = bound_fbo (gls w)"
  by (simp_all add: render_mesh_with_material_shadow_def Let_def gl_ops_defs draw_def)

lemma render_shadow_draws:
  "\<exists>G. trace (render_mesh_with_material_shadow m me ma l w) =
       trace w @ (if num_vertices me \<noteq> 0 \<and> shader_ok w ''shadowmap'' \<and> alpha_mode ma \<noteq> BLEND
                  then [Draw (PMesh me) G] else []) \<and>
       program G = Some ''shadowmap'' \<and> color_mask G = color_mask (gls w) \<and>
       bound_fbo G = bound_fbo (gls w)"
proof (cases "num_vertices me \<noteq> 0 \<and> shader_ok w ''shadowmap'' \<and> alpha_mode ma \<noteq> BLEND")
  case True
  then show ?thesis
    by (auto simp: render_mesh_with_material_shadow_def Let_def gl_ops_defs draw_def)
next
  case False
  then show ?thesis
    by (intro exI [of _ "(gls w)\<lparr>program := Some ''shadowmap''\<rparr>"])
       (auto simp: render_mesh_with_material_shadow_def Let_def)
qed

lemma shadow_calls_frame [simp]:
  "rnd (shadow_calls svc l cs w) = rnd w"
  "w_scene (shadow_calls svc l cs w) = w_scene w"
  "shader_ok (shadow_calls svc l cs w) = shader_ok w"
  "color_mask (gls (shadow_calls svc l cs w)) = color_mask (gls w)"
  "bound_fbo (gls (shadow_calls svc l cs w)) = bound_fbo (gls w)"
  by (induction cs arbitrary: w) (simp_all add: shadow_calls_def)

lemma shadow_calls_draws:
  "\<exists>new. trace (shadow_calls svc l cs w) = trace w @ new \<and>
     map fst (draws new) =
       map (\<lambda>c. PMesh (rc_mesh c)) (filter (casts_into svc (l_camera l) (shader_ok w ''shadowmap'')) cs) \<and>
     (\<forall>(p, g) \<in> set (draws new). program g = Some ''shadowmap'' \<and>
        color_mask g = color_mask (gls w) \<and> bound_fbo g = bound_fbo (gls w))"
proof (induction cs arbitrary: w)
  case Nil
  then show ?case by (simp add: shadow_calls_def)
next
  case (Cons c cs)
  let ?f = "\<lambda>c w. if box_in_frustum svc (l_camera l) (rc_model c) (rc_mesh c)
              then render_mesh_with_material_shadow (rc_model c) (rc_mesh c) (rc_material c) l w else w"
  let ?w1 = "?f c w"
  have step: "shadow_calls svc l (c # cs) w = shadow_calls svc l cs ?w1"
    by (simp add: shadow_calls_def)
  have f1: "shader_ok ?w1 = shader_ok w" "color_mask (gls ?w1) = color_mask (gls w)"
    "bound_fbo (gls ?w1) = bound_fbo (gls w)"
    by simp_all
  obtain G where G: "trace ?w1 = trace w @ (if casts_into svc (l_camera l) (shader_ok w ''shadowmap'') c
                      then [Draw (PMesh (rc_mesh c)) G] else [])"
    "program G = Some ''shadowmap''" "color_mask G = color_mask (gls w)"
    "bound_fbo G = bound_fbo (gls w)"
    using render_shadow_draws [of "rc_model c" "rc_mesh c" "rc_material c" l w]
    by (cases "box_in_frustum svc (l_camera l) (rc_model c) (rc_mesh c)") (auto simp: casts_into_def)
  obtain new where N: "trace (shadow_calls svc l cs ?w1) = trace ?w1 @ new"
    "map fst (draws new) =
       map (\<lambda>c. PMesh (rc_mesh c)) (filter (casts_into svc (l_camera l) (shader_ok ?w1 ''shadowmap'')) cs)"
    "\<forall>(p, g) \<in> set (draws new). program g = Some ''shadowmap'' \<and>
        color_mask g = color_mask (gls ?w1) \<and> bound_fbo g = bound_fbo (gls ?w1)"
    using Cons.IH [of ?w1] by blast
  show ?case
    using G N f1 by (simp add: step)
qed

lemma svc_ok_look_at: "svc_ok svc \<Longrightarrow> length (look_at svc e c u) = 16"
  unfolding svc_ok_def by blast

lemma update_light_directional:
  assumes "light_type l = DIRECTIONAL" and "shadow_fbo l = Some f"
  shows "update_light svc ww l = Inr (l\<lparr>l_camera :=
           (let c1 = camera_look_at svc (l_camera l) (get_translation (model l))
                       (transform_point svc (model l) (0, 0, 1)) (rotate_vector svc (model l) (0, 1, 0));
                c2 = camera_set_orthographic svc c1 (- area_size l) (area_size l)
                       (- area_size l) (area_size l) 0.1 (max_distance l);
                g = (right c2 - left c2) / of_int (fbo_w f);
                vm = (view_matrix c2)[12 := snap g (view_matrix c2 ! 12), 13 := snap g (view_matrix c2 ! 13)]
            in c2\<lparr>view_matrix := vm, viewprojection_matrix := mat_mul svc vm (projection_matrix c2)\<rparr>)\<rparr>)"
  using assms by (simp add: update_light_def Let_def)

subsection \<open>Properties of the shadow pass\<close>

text \<open>C13: \<open>shadowMapping\<close> appends to the trace exactly one depth draw per call that is
  in the light's frustum, has vertices and is not blended (none when the shadow shader is
  missing), in call order; every one of them uses the \<open>shadowmap\<close> program with colour
  writes off, into the light's own FBO.\<close>

theorem shadow_mapping_draws:
  assumes "shadow_mapping svc i w = Inr w'"
  shows "\<exists>l new. get_light w' i = Some l \<and> trace w' = trace w @ new \<and>
           map fst (draws new) = map (\<lambda>c. PMesh (rc_mesh c))
             (filter (casts_into svc (l_camera l) (shader_ok w ''shadowmap'')) (calls (rnd w))) \<and>
           (\<forall>(p, g) \<in> set (draws new). program g = Some ''shadowmap'' \<and> \<not> color_mask g \<and>
              bound_fbo g = Some (ShadowFbo i))"
proof -
  obtain l l1 f where l: "get_light w i = Some l" and l1: "update_light svc (win_w w) l = Inr l1"
    and f: "shadow_fbo l1 = Some f"
    using assms by (auto simp: shadow_mapping_def split: option.splits sum.splits)
  let ?w1 = "run [bind_fbo (ShadowFbo i), gl_color_mask False, gl_clear False True] (put_light i l1 w)"
  have w': "w' = run [unbind_fbo, gl_color_mask True] (shadow_calls svc l1 (calls (rnd w)) ?w1)"
    using assms l l1 f by (simp add: shadow_mapping_def)
  have i: "i < length (entities (w_scene w))"
    using l by (auto simp: get_light_def split: if_splits)
  have w1: "shader_ok ?w1 = shader_ok w" "\<not> color_mask (gls ?w1)"
    "bound_fbo (gls ?w1) = Some (ShadowFbo i)" "draws (trace ?w1) = draws (trace w)"
    "\<exists>e. trace ?w1 = trace w @ [e] \<and> draws [e] = []"
    by (simp_all add: gl_ops_defs put_light_def gl_clear_def)
  obtain e where e: "trace ?w1 = trace w @ [e]" "draws [e] = []" using w1(5) by blast
  obtain new where N: "trace (shadow_calls svc l1 (calls (rnd w)) ?w1) = trace ?w1 @ new"
    "map fst (draws new) = map (\<lambda>c. PMesh (rc_mesh c))
       (filter (casts_into svc (l_camera l1) (shader_ok ?w1 ''shadowmap'')) (calls (rnd ?w1)))"
    "\<forall>(p, g) \<in> set (draws new). program g = Some ''shadowmap'' \<and>
        color_mask g = color_mask (gls ?w1) \<and> bound_fbo g = bound_fbo (gls ?w1)"
    using shadow_calls_draws [of svc l1 "calls (rnd w)" ?w1] by (auto simp: put_light_def)
  have "w_scene w' = w_scene (put_light i l1 w)" by (simp add: w')
  then have "get_light w' i = Some l1"
    using i by (simp add: get_light_cong)
  moreover have "trace w' = trace w @ (e # new)"
    using N(1) e(1) by (simp add: w' gl_ops_defs)
  moreover have "draws (e # new) = draws new"
    using e(2) by (cases e) auto
  ultimately show ?thesis
    using N(2,3) w1(1-3) by (auto simp: put_light_def)
qed

theorem shadow_mapping_draws_witness:
  "\<exists>w'. shadow_mapping demo_svc 0 demo_world = Inr w' \<and>
     map fst (draws (trace w')) = [PMesh (rc_mesh (demo_call 0 NO_ALPHA 1))]"
proof -
  have "\<exists>w'. shadow_mapping demo_svc 0 demo_world = Inr w'"
    by (simp add: shadow_mapping_def get_light_def demo_world_def demo_dir_light_def
        update_light_def Let_def)
  then obtain w' where w': "shadow_mapping demo_svc 0 demo_world = Inr w'" ..
  from shadow_mapping_draws [OF w'] obtain l :: light_entity and new where
    "trace w' = trace demo_world @ new"
    "map fst (draws new) = map (\<lambda>c. PMesh (rc_mesh c))
       (filter (casts_into demo_svc (l_camera l) (shader_ok demo_world ''shadowmap''))
         (calls (rnd demo_world)))"
    by (elim exE conjE) blast
  then show ?thesis
    using w' by (auto simp: demo_world_def casts_into_def demo_svc_def demo_call_def)
qed

text \<open>C14: for a directional light with a positive area and a shadow map, \<open>updateLight\<close>
  succeeds and leaves the X and Y translation of the light camera's view matrix on the
  texel grid \<open>2 * area_size / shadow-map width\<close>, each within half a texel of the
  unsnapped value.\<close>

theorem update_light_snaps:
  assumes "svc_ok svc" and "light_type l = DIRECTIONAL" and "shadow_fbo l = Some f"
    and "0 < area_size l" and "0 < fbo_w f"
  shows "\<exists>l'. update_light svc ww l = Inr l' \<and>
           (let g = 2 * area_size l / of_int (fbo_w f); vm = view_matrix (l_camera l');
                v0 = look_at svc (get_translation (model l)) (transform_point svc (model l) (0, 0, 1))
                       (rotate_vector svc (model l) (0, 1, 0))
            in (\<exists>k1 k2 :: int. vm ! 12 = of_int k1 * g \<and> vm ! 13 = of_int k2 * g) \<and>
               \<bar>vm ! 12 - v0 ! 12\<bar> \<le> g / 2 \<and> \<bar>vm ! 13 - v0 ! 13\<bar> \<le> g / 2)"
proof -
  let ?v0 = "look_at svc (get_translation (model l)) (transform_point svc (model l) (0, 0, 1))
               (rotate_vector svc (model l) (0, 1, 0))"
  let ?g = "2 * area_size l / of_int (fbo_w f)"
  have len: "length ?v0 = 16" using assms(1) by (rule svc_ok_look_at)
  have g: "0 < ?g" using assms(4,5) by simp
  have gr: "(area_size l - - area_size l) / of_int (fbo_w f) = ?g" by simp
  obtain l' where l': "update_light svc ww l = Inr l'"
    and vm: "view_matrix (l_camera l') =
      ?v0[12 := snap ((area_size l - - area_size l) / of_int (fbo_w f)) (?v0 ! 12),
          13 := snap ((area_size l - - area_size l) / of_int (fbo_w f)) (?v0 ! 13)]"
    using update_light_directional [OF assms(2,3), of svc ww]
    by (simp add: Let_def camera_look_at_def camera_set_orthographic_def)
  have v12: "view_matrix (l_camera l') ! 12 = snap ?g (?v0 ! 12)"
    using len by (simp only: vm gr nth_list_update) simp
  have v13: "view_matrix (l_camera l') ! 13 = snap ?g (?v0 ! 13)"
    using len by (simp only: vm gr nth_list_update) simp
  have "\<exists>k1 k2 :: int. snap ?g (?v0 ! 12) = of_int k1 * ?g \<and> snap ?g (?v0 ! 13) = of_int k2 * ?g"
    by (auto simp only: snap_grid)
  then show ?thesis
    using l' v12 v13 snap_close [OF g, of "?v0 ! 12"] snap_close [OF g, of "?v0 ! 13"]
    by (auto simp: Let_def)
qed

theorem update_light_snaps_witness:
  "\<exists>l'. update_light demo_svc 1280 demo_dir_light = Inr l' \<and>
     (\<exists>k :: int. view_matrix (l_camera l') ! 12 = of_int k)"
proof -
  have h: "svc_ok demo_svc" by (simp add: svc_ok_def demo_svc_def mat_identity_def)
  show ?thesis
    using update_light_snaps [OF h, of demo_dir_light "depth_only_fbo 1024" 1280]
    by (simp add: demo_dir_light_def depth_only_fbo_def Let_def) metis
qed

text \<open>C15: a light configured as \<open>"POINT"\<close> with \<open>"cast_shadows": true\<close> casts shadows but
  owns no shadow FBO, and \<open>shadowMapping\<close> on it dereferences the null \<open>shadow_fbo\<close>.\<close>

theorem point_light_shadow_null:
  assumes "get_light w i = Some (light_configure svc q j (light_entity_new junk cam))"
    and "j_light_type j = Some ''POINT''" and "j_cast_shadows j = Some True"
  shows "cast_shadows (light_configure svc q j (light_entity_new junk cam)) \<and>
         shadow_mapping svc i w = Inl (NullDeref ''shadow_fbo'')"
proof -
  let ?l = "light_configure svc q j (light_entity_new junk cam)"
  have t: "light_type ?l = POINT"
    using assms(2) by (simp add: light_configure_type configure_light_type_type)
  have n: "shadow_fbo ?l = None"
    using assms(2) by (simp add: light_configure_fbo configure_light_type_fbo light_entity_new_def)
  have c: "cast_shadows ?l" using assms(3) by (simp add: light_configure_cast)
  have "update_light svc (win_w w) ?l = Inr (?l\<lparr>l_camera := camera_look_at svc (l_camera ?l)
      (get_translation (model ?l)) (transform_point svc (model ?l) (0, 0, 1))
      (rotate_vector svc (model ?l) (0, 1, 0))\<rparr>)"
    using t by (simp add: update_light_def Let_def)
  then show ?thesis using assms(1) n c by (simp add: shadow_mapping_def)
qed

theorem point_light_shadow_null_witness:
  "shadow_mapping demo_svc 0 demo_point_world = Inl (NullDeref ''shadow_fbo'')"
proof -
  have h: "get_light demo_point_world 0 =
      Some (light_configure demo_svc MEDIUM point_cast_json (light_entity_new demo_dir_light demo_camera))"
    by (simp add: get_light_def demo_point_world_def)
  show ?thesis
    using point_light_shadow_null [OF h] by (simp add: point_cast_json_def)
qed

end
