(* ===== verification/Lighting.thy ===== *)
theory Lighting
  imports Shadows
begin

text \<open>
  The forward lighting passes of \<open>src/renderer.cpp\<close>: \<open>Renderer::renderMeshWithMaterial\<close>
  (shader choice, material and camera uniforms, then one of three light branches),
  \<open>Renderer::renderMultiPass\<close> (one draw per light, later passes additive),
  \<open>Renderer::renderSinglePass\<close> (all lights packed into uniform arrays, one draw),
  \<open>LightEntity::uploadLightParams\<close> (\<open>src/scene.cpp\<close>), \<open>Renderer::renderSkybox\<close>
  and \<open>Renderer::renderCalls\<close>. Every operation returns \<open>error + world\<close>: a null
  dereference of the source is an \<open>Inl\<close> value.
\<close>

subsection \<open>Helpers\<close>

text \<open>\<open>Vector3(pow(x, g), pow(y, g), pow(z, g))\<close>: gamma linearisation of a colour.\<close>

definition gamma3 :: "real \<Rightarrow> vec3 \<Rightarrow> vec3" where
  "gamma3 g v = (case v of (x, y, z) \<Rightarrow> (x powr g, y powr g, z powr g))"

definition gamma4 :: "real \<Rightarrow> real \<times> real \<times> real \<times> real \<Rightarrow> real \<times> real \<times> real \<times> real" where
  "gamma4 g v = (case v of (x, y, z, a) \<Rightarrow> (x powr g, y powr g, z powr g, a))"

text \<open>A material texture, or the 1x1 fallback texture when it is absent.\<close>

definition tex_or :: "tex \<Rightarrow> string option \<Rightarrow> tex" where
  "tex_or d t = (case t of None \<Rightarrow> d | Some n \<Rightarrow> TexNamed n)"

text \<open>The irradiance grid behind the renderer's \<open>grid\<close> pointer.\<close>

definition get_grid :: "world \<Rightarrow> error + irradiance_grid" where
  "get_grid w =
     (case grid (rnd w) of
        None \<Rightarrow> Inl (NullDeref ''grid'')
      | Some i \<Rightarrow>
          if i < length (entities (w_scene w))
          then (case entities (w_scene w) ! i of EGrid gr \<Rightarrow> Inr gr | _ \<Rightarrow> Inl (BadCast i))
          else Inl (BadCast i))"

text \<open>The \<open>if (probes_texture)\<close> block shared by the three light branches.\<close>

definition irr_uniforms :: "string \<Rightarrow> world \<Rightarrow> error + world" where
  "irr_uniforms sh w =
     (case probes_texture (rnd w) of
        None \<Rightarrow> Inr w
      | Some _ \<Rightarrow>
          ebind (get_grid w) (\<lambda>gr. Inr (run
            [set_uniform sh ''u_invmodel_grid'' (UMat (inv_model gr)),
             set_uniform sh ''u_irr_dims'' (UVec3 (dim gr)),
             set_uniform sh ''u_trilinear'' (UBool (irr_3lerp (rnd w))),
             set_uniform sh ''u_texture_probes'' (UTex TexProbes 6)] w)))"

subsection \<open>\<open>LightEntity::uploadLightParams\<close>\<close>

text \<open>The shadow map of light \<open>i\<close> is the depth texture of its own FBO; a light that
  casts shadows without one (a \<open>POINT\<close> light) dereferences a null pointer.\<close>

definition upload_light_params ::
  "nat \<Rightarrow> light_entity \<Rightarrow> bool \<Rightarrow> real \<Rightarrow> string \<Rightarrow> world \<Rightarrow> error + world"
where
  "upload_light_params i l lin g sh w =
     (if cast_shadows l \<and> shadow_fbo l = None then Inl (NullDeref ''shadow_fbo'')
      else Inr (run
        ((if cast_shadows l then
            [set_uniform sh ''shadowmap'' (UTex (TexShadowDepth i) 8),
             set_uniform sh ''u_shadow_viewproj'' (UMat (viewprojection_matrix (l_camera l))),
             set_uniform sh ''u_shadow_bias'' (UFloat (bias l))]
          else []) @
         [set_uniform sh ''u_light_color'' (UVec3 (if lin then gamma3 g (color l) else color l)),
          set_uniform sh ''u_light_cutoff'' (UFloat (cos (cone_angle l * pi / 180))),
          set_uniform sh ''u_light_exp'' (UFloat (spot_exp l)),
          set_uniform sh ''u_light_vector'' (UVec3 (mat_front (model l))),
          set_uniform sh ''u_shadows'' (UBool (cast_shadows l)),
          set_uniform sh ''u_light_position'' (UVec3 (get_translation (model l))),
          set_uniform sh ''u_light_maxdist'' (UFloat (max_distance l)),
          set_uniform sh ''u_light_type'' (UInt (light_type_code (light_type l))),
          set_uniform sh ''u_light_intensity'' (UFloat (intensity l))]) w))"

subsection \<open>\<open>Renderer::renderMultiPass\<close>\<close>

text \<open>The \<open>if (i != 0)\<close> block: blending on, ambient, irradiance, reflections and
  emission switched off for every pass after the first.\<close>

definition later_pass :: "material \<Rightarrow> string \<Rightarrow> eRenderMode \<Rightarrow> (world \<Rightarrow> world) list" where
  "later_pass ma sh pl =
     (if alpha_mode ma = BLEND then [gl_blend_func GL_SRC_ALPHA GL_ONE] else [gl_blend True]) @
     [set_uniform sh ''u_ambient_light'' (UVec3 vzero),
      set_uniform sh ''u_irr'' (UBool False),
      set_uniform sh ''u_reflections'' (UBool False)] @
     (if pl = DEFERRED
      then [set_uniform sh ''u_emissive'' (UBool False), gl_blend True, gl_blend_func GL_ONE GL_ONE]
      else [set_uniform sh ''u_emissive'' (UVec3 vzero)])"

text \<open>The loop over \<open>lights\<close>; \<open>k\<close> is the loop counter \<open>i\<close> of the source.\<close>

fun multi_pass_lights ::
  "mesh \<Rightarrow> material \<Rightarrow> string \<Rightarrow> eRenderMode \<Rightarrow> nat \<Rightarrow> nat list \<Rightarrow> world \<Rightarrow> error + world"
where
  "multi_pass_lights me ma sh pl k [] w = Inr w"
| "multi_pass_lights me ma sh pl k (i # is) w =
     (case get_light w i of
        None \<Rightarrow> Inl (BadCast i)
      | Some l \<Rightarrow>
          ebind (upload_light_params i l True (hdr_gamma (rnd w)) sh
                   (if k = 0 then w else run (later_pass ma sh pl) w))
            (\<lambda>w'. multi_pass_lights me ma sh pl (Suc k) is (draw (PMesh me) w')))"

definition render_multi_pass :: "mesh \<Rightarrow> material \<Rightarrow> string \<Rightarrow> eRenderMode \<Rightarrow> world \<Rightarrow> error + world" where
  "render_multi_pass me ma sh pl w =
     ebind (irr_uniforms sh (run [gl_depth_test True, gl_depth_func GL_LEQUAL,
                                  set_uniform sh ''u_pcf'' (UBool (pcf (rnd w)))] w))
       (\<lambda>w1. multi_pass_lights me ma sh pl 0 (lights (rnd w))
               (set_uniform sh ''u_irr'' (UBool (activate_irr (rnd w))) w1))"

subsection \<open>\<open>Renderer::renderSinglePass\<close>\<close>

text \<open>The lights behind the renderer's \<open>lights\<close> pointers, in order.\<close>

fun fetch_lights :: "world \<Rightarrow> nat list \<Rightarrow> error + light_entity list" where
  "fetch_lights w [] = Inr []"
| "fetch_lights w (i # is) =
     (case get_light w i of
        None \<Rightarrow> Inl (BadCast i)
      | Some l \<Rightarrow> ebind (fetch_lights w is) (\<lambda>ls. Inr (l # ls)))"

text \<open>The arrays have \<open>max_lights\<close> slots; filling slot \<open>max_lights\<close> or later writes past
  the end of a stack array, which is the \<open>ArrayOverflow\<close> error. The entries past
  \<open>u_num_lights\<close> are uninitialised stack memory that the shader does not read: the
  uploaded arrays are the filled prefix.\<close>

definition render_single_pass :: "string \<Rightarrow> mesh \<Rightarrow> world \<Rightarrow> error + world" where
  "render_single_pass sh me w =
     (let r = rnd w; n = length (lights r) in
      if max_lights < n then Inl (ArrayOverflow n)
      else ebind (fetch_lights w (lights r)) (\<lambda>ls.
           ebind (irr_uniforms sh w) (\<lambda>w1.
           if shadow_count r \<noteq> 0 \<and> atlas r = None then Inl (NullDeref ''atlas'')
           else Inr (run
             [set_uniform sh ''u_irr'' (UBool (activate_irr r)),
              set_uniform sh ''u_shadow_viewproj'' (UMatArr (map (\<lambda>l. viewprojection_matrix (l_camera l)) ls)),
              set_uniform sh ''u_light_position'' (UVec3Arr (map (\<lambda>l. mat4_point (model l) vzero) ls)),
              set_uniform sh ''u_light_color'' (UVec3Arr (map (\<lambda>l. gamma3 (hdr_gamma r) (color l)) ls)),
              set_uniform sh ''u_light_vector'' (UVec3Arr (map (\<lambda>l. mat_front (model l)) ls)),
              set_uniform sh ''u_light_uvs'' (UVec3Arr (map uvs ls)),
              set_uniform sh ''u_light_maxdist'' (UFloatArr (map max_distance ls)),
              set_uniform sh ''u_light_type'' (UIntArr (map (\<lambda>l. light_type_code (light_type l)) ls)),
              set_uniform sh ''u_light_intensity'' (UFloatArr (map intensity ls)),
              set_uniform sh ''u_light_cutoff'' (UFloatArr (map (\<lambda>l. cos (cone_angle l * pi / 180)) ls)),
              set_uniform sh ''u_light_exp'' (UFloatArr (map spot_exp ls)),
              set_uniform sh ''u_shadows'' (UIntArr (map (\<lambda>l. if cast_shadows l then 1 else 0) ls)),
              set_uniform sh ''u_shadow_bias'' (UFloatArr (map bias ls)),
              set_uniform sh ''u_num_lights'' (UInt (int n)),
              set_uniform sh ''u_shadow_count'' (UInt (shadow_count r)),
              set_uniform sh ''u_pcf'' (UBool (pcf r)),
              set_uniform sh ''u_texture_atlas''
                (UTex (if shadow_count r \<noteq> 0 then TexAtlasDepth else TexBlack) 8),
              draw (PMesh me)] w1))))"

subsection \<open>\<open>Renderer::renderMeshWithMaterial\<close>\<close>

text \<open>The \<open>switch (pipeline)\<close>: the shader name, if any. \<open>Shader::Get\<close> of a shader that
  did not load is \<open>NULL\<close>, which the model reads from \<open>shader_ok\<close>.\<close>

definition choose_shader :: "eRenderMode \<Rightarrow> eLightMode \<Rightarrow> string option" where
  "choose_shader pl lm =
     (case pl of
        FORWARD \<Rightarrow> (if lm = MULTI then Some ''light_multi''
                    else if lm = SINGLE then Some ''light_single'' else None)
      | DEFERRED \<Rightarrow> Some ''gbuffers''
      | DEFERRED_ALPHA \<Rightarrow> Some ''light_multi'')"

text \<open>The uniform uploads from \<open>u_viewprojection\<close> to \<open>u_alpha_cutoff\<close>.\<close>

definition material_uniforms ::
  "camera \<Rightarrow> eRenderMode \<Rightarrow> render_call \<Rightarrow> string \<Rightarrow> world \<Rightarrow> (world \<Rightarrow> world) list"
where
  "material_uniforms cam pl c sh w =
     (let ma = rc_material c; r = rnd w; g = hdr_gamma r in
      [set_uniform sh ''u_viewprojection'' (UMat (viewprojection_matrix cam)),
       set_uniform sh ''u_camera_position'' (UVec3 (eye cam)),
       set_uniform sh ''u_viewmatrix'' (UMat (view_matrix cam)),
       set_uniform sh ''u_model'' (UMat (rc_model c)),
       set_uniform sh ''u_color'' (UVec4 (gamma4 g (mat_color ma))),
       set_uniform sh ''u_emissive'' (UVec3 (gamma3 g (emissive_factor ma))),
       set_uniform sh ''u_ambient_light'' (UVec3 (gamma3 g (ambient_light (w_scene w)))),
       set_uniform sh ''u_light_eq'' (UInt (light_eq_code (light_eq r))),
       set_uniform sh ''u_gamma'' (UFloat g),
       set_uniform sh ''u_metallic'' (UFloat (metallic_factor ma)),
       set_uniform sh ''u_roughness'' (UFloat (roughness_factor ma)),
       set_uniform sh ''u_texture'' (UTex (tex_or TexWhite (color_texture ma)) 0),
       set_uniform sh ''u_texture_em'' (UTex (tex_or TexWhite (emissive_texture ma)) 1),
       set_uniform sh ''u_texture_metallic_roughness''
         (UTex (tex_or TexGreen (metallic_roughness_texture ma)) 2),
       set_uniform sh ''u_texture_normals'' (UTex (tex_or TexBlack (normal_texture ma)) 3)] @
      (case rc_probe c of
         None \<Rightarrow> []
       | Some p \<Rightarrow> [set_uniform sh ''u_environment_texture'' (UTex (TexCubemap p) 13)]) @
      [set_uniform sh ''u_deferred'' (UBool (pl = DEFERRED_ALPHA))] @
      (if pl = DEFERRED_ALPHA
       then set_uniform sh ''u_ao'' (UBool (activate_ssao r)) #
            (if activate_ssao r then [set_uniform sh ''u_ao_texture'' (UTex (TexSSAO 0) 5)] else [])
       else []) @
      [set_uniform sh ''u_alpha_cutoff'' (UFloat (if alpha_mode ma = MASK then alpha_cutoff ma else 0))])"

text \<open>\<open>if (reflections) shader->setTexture(..., call.probe->cubemap, 11)\<close>: a call without
  a reflection probe dereferences a null pointer.\<close>

definition reflection_uniforms :: "render_call \<Rightarrow> string \<Rightarrow> world \<Rightarrow> error + world" where
  "reflection_uniforms c sh w =
     (if reflections (rnd w) then
        (case rc_probe c of
           None \<Rightarrow> Inl (NullDeref ''probe'')
         | Some p \<Rightarrow> Inr (run [set_uniform sh ''u_environment_texture'' (UTex (TexCubemap p) 11),
                               set_uniform sh ''u_reflections'' (UBool True)] w))
      else Inr (set_uniform sh ''u_reflections'' (UBool False) w))"

text \<open>The blending of the multi-pass branch.\<close>

definition blend_setup :: "material \<Rightarrow> (world \<Rightarrow> world) list" where
  "blend_setup ma =
     (if alpha_mode ma = BLEND then [gl_blend True, gl_blend_func GL_SRC_ALPHA GL_ONE_MINUS_SRC_ALPHA]
      else [gl_blend False, gl_blend_func GL_SRC_ALPHA GL_ONE])"

text \<open>The three branches after the uniforms: multi-pass (forward multi or the deferred
  alpha overlay), single-pass, and the geometry-buffer pass.\<close>

definition light_pass :: "eRenderMode \<Rightarrow> render_call \<Rightarrow> string \<Rightarrow> world \<Rightarrow> error + world" where
  "light_pass pl c sh w =
     (let me = rc_mesh c; ma = rc_material c; r = rnd w in
      if pl = FORWARD \<and> light_mode r = MULTI \<or> pl = DEFERRED_ALPHA then
        (if lights r = [] then
           Inr (run (blend_setup ma @
                  [set_uniform sh ''u_light_type'' (UInt (light_type_code NO_LIGHT)),
                   set_uniform sh ''u_light_eq'' (UInt (light_eq_code NO_EQ)),
                   draw (PMesh me)]) w)
         else render_multi_pass me ma sh pl (run (blend_setup ma) w))
      else if pl = FORWARD \<and> light_mode r = SINGLE then
        render_single_pass sh me
          (run (if alpha_mode ma = BLEND
                then [gl_blend True, gl_blend_func GL_SRC_ALPHA GL_ONE_MINUS_SRC_ALPHA] else []) w)
      else
        ebind (irr_uniforms sh w) (\<lambda>w1. Inr (run
          (set_uniform sh ''u_irr'' (UBool (probes_texture r \<noteq> None)) #
           (if dithering r \<or> alpha_mode ma = NO_ALPHA then [draw (PMesh me)] else [])) w1)))"

definition render_mesh_with_material ::
  "camera \<Rightarrow> eRenderMode \<Rightarrow> render_call \<Rightarrow> world \<Rightarrow> error + world"
where
  "render_mesh_with_material cam pl c w =
     (if num_vertices (rc_mesh c) = 0 then Inr w
      else let w1 = gl_cull (\<not> two_sided (rc_material c)) w in
        case choose_shader pl (light_mode (rnd w)) of
          None \<Rightarrow> Inr w1
        | Some sh \<Rightarrow>
            if \<not> shader_ok w sh then Inr w1
            else ebind (reflection_uniforms c sh
                          (run (enable_shader sh # material_uniforms cam pl c sh w1) w1))
                   (\<lambda>w2. ebind (light_pass pl c sh w2)
                   (\<lambda>w3. Inr (run [disable_shader, gl_blend False, gl_depth_func GL_LESS] w3))))"

subsection \<open>\<open>Renderer::renderSkybox\<close> and \<open>Renderer::renderCalls\<close>\<close>

text \<open>The skybox shader is used without a null check.\<close>

definition render_skybox :: "services \<Rightarrow> string \<Rightarrow> camera \<Rightarrow> world \<Rightarrow> error + world" where
  "render_skybox svc e cam w =
     (if \<not> shader_ok w ''skybox'' then Inl (NullDeref ''skybox'')
      else Inr (run
        [enable_shader ''skybox'',
         set_uniform ''skybox'' ''u_model''
           (UMat (scale svc (set_translation svc mat_identity (eye cam)) (2, 2, 2))),
         set_uniform ''skybox'' ''u_viewprojection'' (UMat (viewprojection_matrix cam)),
         set_uniform ''skybox'' ''u_camera_position'' (UVec3 (eye cam)),
         set_uniform ''skybox'' ''u_texture'' (UTex (TexNamed e) 0),
         gl_blend False, gl_cull False, gl_depth_test False, draw PSphere,
         gl_cull True, gl_depth_test True] w))"

definition render_calls ::
  "services \<Rightarrow> camera \<Rightarrow> eRenderMode \<Rightarrow> render_call list \<Rightarrow> world \<Rightarrow> error + world"
where
  "render_calls svc cam pl cs w =
     ebind (case environment (w_scene w) of
              None \<Rightarrow> Inr (gl_clear True True w)
            | Some e \<Rightarrow> render_skybox svc e cam (gl_clear True True w))
       (fold_err (\<lambda>c w. if box_in_frustum svc cam (rc_model c) (rc_mesh c)
                        then render_mesh_with_material cam pl c w else Inr w) cs)"

subsection \<open>Demonstration worlds\<close>

text \<open>The one-light world of \<open>Shadows\<close> with a chosen light mode, light list and
  reflection switch.\<close>

definition demo_lit_world :: "eLightMode \<Rightarrow> nat list \<Rightarrow> bool \<Rightarrow> world" where
  "demo_lit_world lm ls rf =
     demo_world\<lparr>rnd := (rnd demo_world)\<lparr>light_mode := lm, lights := ls, reflections := rf\<rparr>\<rparr>"

text \<open>The render state every pass of \<open>renderMultiPass\<close> runs in.\<close>

definition mp_inv :: "material \<Rightarrow> string \<Rightarrow> gl \<Rightarrow> bool" where
  "mp_inv ma sh g \<longleftrightarrow> program g = Some sh \<and> depth_test g \<and> depth_fn g = GL_LEQUAL \<and>
     blend_src g = GL_SRC_ALPHA \<and> (alpha_mode ma = BLEND \<longrightarrow> blend g) \<and>
     (alpha_mode ma \<noteq> BLEND \<longrightarrow> blend_dst g = GL_ONE)"

subsection \<open>Lemmas\<close>

lemma upload_light_params_Inr:
  assumes "upload_light_params i l lin g sh w = Inr w'"
  shows "uniforms_only w w' \<and>
     uniforms (gls w') sh ''u_light_type'' = Some (UInt (light_type_code (light_type l))) \<and>
     uniforms (gls w') sh ''u_ambient_light'' = uniforms (gls w) sh ''u_ambient_light'' \<and>
     uniforms (gls w') sh ''u_emissive'' = uniforms (gls w) sh ''u_emissive''"
  using assms unfolding upload_light_params_def
  by (cases "cast_shadows l") (auto simp: set_uniform_def uniforms_only_def split: if_splits)

lemma irr_uniforms_Inr:
  "irr_uniforms sh w = Inr w' \<Longrightarrow> uniforms_only w w' \<and>
     uniforms (gls w') sh ''u_ambient_light'' = uniforms (gls w) sh ''u_ambient_light'' \<and>
     uniforms (gls w') sh ''u_emissive'' = uniforms (gls w) sh ''u_emissive''"
  unfolding irr_uniforms_def
  by (auto simp: set_uniform_def ebind_def uniforms_only_def split: option.splits sum.splits)

lemma mp_inv_uniforms_only: "uniforms_only w w' \<Longrightarrow> mp_inv ma sh (gls w') = mp_inv ma sh (gls w)"
  by (simp add: mp_inv_def uniforms_only_D)

lemma later_pass_run:
  assumes "mp_inv ma sh (gls w)" "pl \<noteq> DEFERRED"
  defines "w1 \<equiv> run (later_pass ma sh pl) w"
  shows "mp_inv ma sh (gls w1) \<and> blend (gls w1) \<and> blend_dst (gls w1) = GL_ONE \<and>
    uniforms (gls w1) sh ''u_ambient_light'' = Some (UVec3 vzero) \<and>
    uniforms (gls w1) sh ''u_emissive'' = Some (UVec3 vzero) \<and>
    trace w1 = trace w \<and> rnd w1 = rnd w \<and> get_light w1 = get_light w"
  using assms unfolding w1_def later_pass_def
  by (auto simp: gl_ops_defs mp_inv_def get_light_def)

lemma draw_program: "gls (draw p w) = gls w" "get_light (draw p w) = get_light w"
  by (simp_all add: draw_def get_light_def fun_eq_iff)

lemma multi_pass_lights_draws:
  "multi_pass_lights me ma sh pl k is w = Inr w' \<Longrightarrow> mp_inv ma sh (gls w) \<Longrightarrow> pl \<noteq> DEFERRED \<Longrightarrow>
   \<exists>ds. draws (trace w') = draws (trace w) @ ds \<and> length ds = length is \<and>
     (\<forall>j<length ds. fst (ds ! j) = PMesh me \<and> mp_inv ma sh (snd (ds ! j)) \<and>
        (\<exists>l. get_light w (is ! j) = Some l \<and>
             draw_uniform (snd (ds ! j)) ''u_light_type'' = Some (UInt (light_type_code (light_type l)))) \<and>
        (k + j = 0 \<longrightarrow> blend (snd (ds ! j)) = blend (gls w) \<and> blend_dst (snd (ds ! j)) = blend_dst (gls w) \<and>
           draw_uniform (snd (ds ! j)) ''u_ambient_light'' = uniforms (gls w) sh ''u_ambient_light'' \<and>
           draw_uniform (snd (ds ! j)) ''u_emissive'' = uniforms (gls w) sh ''u_emissive'') \<and>
        (0 < k + j \<longrightarrow> blend (snd (ds ! j)) \<and> blend_dst (snd (ds ! j)) = GL_ONE \<and>
           draw_uniform (snd (ds ! j)) ''u_ambient_light'' = Some (UVec3 vzero) \<and>
           draw_uniform (snd (ds ! j)) ''u_emissive'' = Some (UVec3 vzero)))"
proof (induction me ma sh pl k "is" w arbitrary: w' rule: multi_pass_lights.induct)
  case (1 me ma sh pl k w)
  then show ?case by simp
next
  case (2 me ma sh pl k i "is" w)
  obtain l where l: "get_light w i = Some l"
    using "2.prems"(1) by (auto split: option.splits)
  define w0 where "w0 = (if k = 0 then w else run (later_pass ma sh pl) w)"
  have w0: "mp_inv ma sh (gls w0) \<and> trace w0 = trace w \<and> rnd w0 = rnd w \<and> get_light w0 = get_light w"
    using later_pass_run [OF "2.prems"(2,3)] "2.prems"(2) unfolding w0_def by simp
  obtain w1 where up: "upload_light_params i l True (hdr_gamma (rnd w)) sh w0 = Inr w1"
    and rest: "multi_pass_lights me ma sh pl (Suc k) is (draw (PMesh me) w1) = Inr w'"
    using "2.prems"(1) l unfolding w0_def by (auto simp: ebind_Inr_iff)
  note u = upload_light_params_Inr [OF up]
  have inv1: "mp_inv ma sh (gls w1)" and tr1: "trace w1 = trace w" and gl1: "get_light w1 = get_light w"
    using u w0 mp_inv_uniforms_only [of w0 w1] uniforms_only_D [of w0 w1] by auto
  obtain ds where ds: "draws (trace w') = draws (trace (draw (PMesh me) w1)) @ ds"
    "length ds = length is"
    "\<forall>j<length ds. fst (ds ! j) = PMesh me \<and> mp_inv ma sh (snd (ds ! j)) \<and>
        (\<exists>l. get_light (draw (PMesh me) w1) (is ! j) = Some l \<and>
             draw_uniform (snd (ds ! j)) ''u_light_type'' = Some (UInt (light_type_code (light_type l)))) \<and>
        (0 < Suc k + j \<longrightarrow> blend (snd (ds ! j)) \<and> blend_dst (snd (ds ! j)) = GL_ONE \<and>
           draw_uniform (snd (ds ! j)) ''u_ambient_light'' = Some (UVec3 vzero) \<and>
           draw_uniform (snd (ds ! j)) ''u_emissive'' = Some (UVec3 vzero))"
    using "2.IH" [OF l rest] inv1 "2.prems"(3) draw_program by (auto simp: ebind_def)
  have prog: "program (gls w1) = Some sh" using inv1 by (simp add: mp_inv_def)
  have first: "blend (gls w1) = blend (gls w0) \<and> blend_dst (gls w1) = blend_dst (gls w0)"
    using u uniforms_only_D [of w0 w1] by simp
  have later: "0 < k \<Longrightarrow> blend (gls w1) \<and> blend_dst (gls w1) = GL_ONE \<and>
      uniforms (gls w1) sh ''u_ambient_light'' = Some (UVec3 vzero) \<and>
      uniforms (gls w1) sh ''u_emissive'' = Some (UVec3 vzero)"
    using u first later_pass_run [OF "2.prems"(2,3)] unfolding w0_def by simp
  show ?case
    apply (rule exI [of _ "(PMesh me, gls w1) # ds"])
    apply (intro conjI)
    subgoal using ds(1) tr1 by (simp add: draw_def)
    subgoal using ds(2) by simp
    apply (rule allI, rule impI)
    subgoal premises jl for j
    proof (cases j)
      case 0
      then show ?thesis using l u inv1 prog first later w0_def
        by (auto simp: draw_uniform_def)
    next
      case (Suc j')
      then show ?thesis using ds(3) jl by (auto simp: draw_program gl1)
    qed
    done
qed

lemma material_uniforms_only: "uniforms_only w0 (run (material_uniforms cam pl c sh w) w0)"
  by (rule uniforms_only_run) (auto simp: material_uniforms_def Let_def split: option.splits if_splits)

lemma material_uniforms_values:
  "uniforms (gls (run (material_uniforms cam pl c sh w) w0)) sh ''u_ambient_light'' =
     Some (UVec3 (gamma3 (hdr_gamma (rnd w)) (ambient_light (w_scene w))))"
  "uniforms (gls (run (material_uniforms cam pl c sh w) w0)) sh ''u_emissive'' =
     Some (UVec3 (gamma3 (hdr_gamma (rnd w)) (emissive_factor (rc_material c))))"
  unfolding material_uniforms_def Let_def
  by (cases "rc_probe c"; cases "pl = DEFERRED_ALPHA"; cases "activate_ssao (rnd w)"; simp add: set_uniform_def)+

lemma material_uniforms_frame [simp]:
  "rnd (run (material_uniforms cam pl c sh w) w0) = rnd w0"
  "w_scene (run (material_uniforms cam pl c sh w) w0) = w_scene w0"
  "trace (run (material_uniforms cam pl c sh w) w0) = trace w0"
  using uniforms_only_D [OF material_uniforms_only] by simp_all

lemma reflection_uniforms_Inr:
  "reflection_uniforms c sh w = Inr w' \<Longrightarrow> uniforms_only w w' \<and>
     uniforms (gls w') sh ''u_ambient_light'' = uniforms (gls w) sh ''u_ambient_light'' \<and>
     uniforms (gls w') sh ''u_emissive'' = uniforms (gls w) sh ''u_emissive''"
  unfolding reflection_uniforms_def
  by (auto simp: set_uniform_def uniforms_only_def split: if_splits option.splits)

lemma blend_setup_frame [simp]:
  "w_scene (run (blend_setup ma) w) = w_scene w"
  "rnd (run (blend_setup ma) w) = rnd w" "trace (run (blend_setup ma) w) = trace w"
  "uniforms (gls (run (blend_setup ma) w)) = uniforms (gls w)"
  "program (gls (run (blend_setup ma) w)) = program (gls w)"
  by (simp_all add: blend_setup_def gl_ops_defs)

lemma render_mesh_prefix:
  assumes ok: "render_mesh_with_material cam pl c w = Inr w'"
    and ch: "choose_shader pl (light_mode (rnd w)) = Some sh" and sh: "shader_ok w sh"
    and v: "0 < num_vertices (rc_mesh c)"
  obtains w2 w3 where "light_pass pl c sh w2 = Inr w3"
    "w' = run [disable_shader, gl_blend False, gl_depth_func GL_LESS] w3"
    "rnd w2 = rnd w" "trace w2 = trace w" "w_scene w2 = w_scene w" "shader_ok w2 = shader_ok w"
    "program (gls w2) = Some sh"
    "uniforms (gls w2) sh ''u_ambient_light'' =
       Some (UVec3 (gamma3 (hdr_gamma (rnd w)) (ambient_light (w_scene w))))"
    "uniforms (gls w2) sh ''u_emissive'' =
       Some (UVec3 (gamma3 (hdr_gamma (rnd w)) (emissive_factor (rc_material c))))"
proof -
  define w1 where "w1 = gl_cull (\<not> two_sided (rc_material c)) w"
  define wm where "wm = run (material_uniforms cam pl c sh w1) (enable_shader sh w1)"
  obtain w2 w3 where r: "reflection_uniforms c sh wm = Inr w2"
    and lp: "light_pass pl c sh w2 = Inr w3"
    and fin: "w' = run [disable_shader, gl_blend False, gl_depth_func GL_LESS] w3"
    using ok ch sh v unfolding render_mesh_with_material_def
    by (auto simp: Let_def w1_def wm_def ebind_Inr_iff)
  have um: "uniforms_only (enable_shader sh w1) wm" unfolding wm_def by (rule material_uniforms_only)
  note r2 = reflection_uniforms_Inr [OF r]
  have vals: "uniforms (gls wm) sh ''u_ambient_light'' =
       Some (UVec3 (gamma3 (hdr_gamma (rnd w)) (ambient_light (w_scene w))))"
    "uniforms (gls wm) sh ''u_emissive'' =
       Some (UVec3 (gamma3 (hdr_gamma (rnd w)) (emissive_factor (rc_material c))))"
    unfolding wm_def using material_uniforms_values [of cam pl c sh w1 "enable_shader sh w1"]
    by (simp_all add: w1_def gl_ops_defs)
  show ?thesis
    by (rule that [OF lp fin]) (use uniforms_only_D [OF um] uniforms_only_D [OF conjunct1 [OF r2]] r2 vals
      in \<open>simp_all add: w1_def gl_ops_defs\<close>)
qed

lemma forward_multi_setup:
  assumes ok: "render_mesh_with_material cam FORWARD c w = Inr w'"
    and m: "light_mode (rnd w) = MULTI" and sh: "shader_ok w ''light_multi''"
    and v: "0 < num_vertices (rc_mesh c)" and ne: "lights (rnd w) \<noteq> []"
  obtains w5 w3 where
    "multi_pass_lights (rc_mesh c) (rc_material c) ''light_multi'' FORWARD 0 (lights (rnd w)) w5 = Inr w3"
    "trace w' = trace w3" "trace w5 = trace w" "get_light w5 = get_light w"
    "mp_inv (rc_material c) ''light_multi'' (gls w5)"
    "blend (gls w5) = (alpha_mode (rc_material c) = BLEND)"
    "uniforms (gls w5) ''light_multi'' ''u_ambient_light'' =
       Some (UVec3 (gamma3 (hdr_gamma (rnd w)) (ambient_light (w_scene w))))"
    "uniforms (gls w5) ''light_multi'' ''u_emissive'' =
       Some (UVec3 (gamma3 (hdr_gamma (rnd w)) (emissive_factor (rc_material c))))"
proof -
  define sh where "sh = ''light_multi''"
  have ch: "choose_shader FORWARD (light_mode (rnd w)) = Some sh" using m by (simp add: choose_shader_def sh_def)
  obtain w2 w3 where p: "light_pass FORWARD c sh w2 = Inr w3"
    "w' = run [disable_shader, gl_blend False, gl_depth_func GL_LESS] w3"
    "rnd w2 = rnd w" "trace w2 = trace w" "w_scene w2 = w_scene w" "shader_ok w2 = shader_ok w"
    "program (gls w2) = Some sh"
    "uniforms (gls w2) sh ''u_ambient_light'' =
       Some (UVec3 (gamma3 (hdr_gamma (rnd w)) (ambient_light (w_scene w))))"
    "uniforms (gls w2) sh ''u_emissive'' =
       Some (UVec3 (gamma3 (hdr_gamma (rnd w)) (emissive_factor (rc_material c))))"
    using render_mesh_prefix [OF ok ch sh [folded sh_def] v] by blast
  define wb where "wb = run [gl_depth_test True, gl_depth_func GL_LEQUAL,
        set_uniform sh ''u_pcf'' (UBool (pcf (rnd w)))] (run (blend_setup (rc_material c)) w2)"
  obtain w4 where irr: "irr_uniforms sh wb = Inr w4"
    and mp: "multi_pass_lights (rc_mesh c) (rc_material c) sh FORWARD 0 (lights (rnd w))
               (set_uniform sh ''u_irr'' (UBool (activate_irr (rnd w))) w4) = Inr w3"
    using p(1,3) m ne unfolding light_pass_def render_multi_pass_def
    by (auto simp: Let_def wb_def ebind_Inr_iff)
  note i4 = irr_uniforms_Inr [OF irr]
  let ?w5 = "set_uniform sh ''u_irr'' (UBool (activate_irr (rnd w))) w4"
  have u5: "uniforms_only wb ?w5"
    using uniforms_only_trans [OF conjunct1 [OF i4] uniforms_only_set_uniform] .
  have wb: "trace wb = trace w" "w_scene wb = w_scene w" "mp_inv (rc_material c) sh (gls wb)"
    "blend (gls wb) = (alpha_mode (rc_material c) = BLEND)"
    "uniforms (gls wb) sh ''u_ambient_light'' = uniforms (gls w2) sh ''u_ambient_light''"
    "uniforms (gls wb) sh ''u_emissive'' = uniforms (gls w2) sh ''u_emissive''"
    using p unfolding wb_def blend_setup_def
    by (auto simp: gl_ops_defs mp_inv_def)
  show ?thesis
  proof (rule that [of ?w5 w3])
    show "multi_pass_lights (rc_mesh c) (rc_material c) ''light_multi'' FORWARD 0 (lights (rnd w)) ?w5 = Inr w3"
      using mp sh_def by simp
    show "trace w' = trace w3" using p(2) by simp
    show "trace ?w5 = trace w" "get_light ?w5 = get_light w"
      "mp_inv (rc_material c) ''light_multi'' (gls ?w5)"
      "blend (gls ?w5) = (alpha_mode (rc_material c) = BLEND)"
      using wb uniforms_only_D [OF u5] mp_inv_uniforms_only [OF u5] sh_def
        get_light_eq [of ?w5 w]
      by simp_all
    show "uniforms (gls ?w5) ''light_multi'' ''u_ambient_light'' =
       Some (UVec3 (gamma3 (hdr_gamma (rnd w)) (ambient_light (w_scene w))))"
      "uniforms (gls ?w5) ''light_multi'' ''u_emissive'' =
       Some (UVec3 (gamma3 (hdr_gamma (rnd w)) (emissive_factor (rc_material c))))"
      using i4 wb p sh_def by (simp_all add: set_uniform_def)
  qed
qed

text \<open>C20: in forward multi-pass mode with at least one light, a successful
  renderMeshWithMaterial draws the mesh once per light, in the order of \<open>lights\<close>, each
  draw with depth test on, depth function \<open>LEQUAL\<close> and that light's type; the first
  draw carries the ambient and emissive terms with the material's blending, every later draw
  has them zeroed and additive blending \<open>(SRC_ALPHA, ONE)\<close> on.\<close>

theorem forward_multi_pass:
  assumes "render_mesh_with_material cam FORWARD c w = Inr w'"
    and "light_mode (rnd w) = MULTI" and "shader_ok w ''light_multi''"
    and "0 < num_vertices (rc_mesh c)" and "lights (rnd w) \<noteq> []"
  shows "\<exists>ds. draws (trace w') = draws (trace w) @ ds \<and> length ds = length (lights (rnd w)) \<and>
    (\<forall>j<length ds. fst (ds ! j) = PMesh (rc_mesh c) \<and>
       depth_test (snd (ds ! j)) \<and> depth_fn (snd (ds ! j)) = GL_LEQUAL \<and>
       (\<exists>l. get_light w (lights (rnd w) ! j) = Some l \<and>
            draw_uniform (snd (ds ! j)) ''u_light_type'' = Some (UInt (light_type_code (light_type l)))) \<and>
       (j = 0 \<longrightarrow> blend (snd (ds ! j)) = (alpha_mode (rc_material c) = BLEND) \<and>
          draw_uniform (snd (ds ! j)) ''u_ambient_light'' =
            Some (UVec3 (gamma3 (hdr_gamma (rnd w)) (ambient_light (w_scene w)))) \<and>
          draw_uniform (snd (ds ! j)) ''u_emissive'' =
            Some (UVec3 (gamma3 (hdr_gamma (rnd w)) (emissive_factor (rc_material c))))) \<and>
       (0 < j \<longrightarrow> blend (snd (ds ! j)) \<and> blend_src (snd (ds ! j)) = GL_SRC_ALPHA \<and>
          blend_dst (snd (ds ! j)) = GL_ONE \<and>
          draw_uniform (snd (ds ! j)) ''u_ambient_light'' = Some (UVec3 vzero) \<and>
          draw_uniform (snd (ds ! j)) ''u_emissive'' = Some (UVec3 vzero)))"
proof -
  obtain w5 w3 where s: "multi_pass_lights (rc_mesh c) (rc_material c) ''light_multi'' FORWARD 0 (lights (rnd w)) w5 = Inr w3"
    "trace w' = trace w3" "trace w5 = trace w" "get_light w5 = get_light w"
    "mp_inv (rc_material c) ''light_multi'' (gls w5)"
    "blend (gls w5) = (alpha_mode (rc_material c) = BLEND)"
    "uniforms (gls w5) ''light_multi'' ''u_ambient_light'' =
       Some (UVec3 (gamma3 (hdr_gamma (rnd w)) (ambient_light (w_scene w))))"
    "uniforms (gls w5) ''light_multi'' ''u_emissive'' =
       Some (UVec3 (gamma3 (hdr_gamma (rnd w)) (emissive_factor (rc_material c))))"
    using forward_multi_setup [OF assms] by blast
  from multi_pass_lights_draws [OF s(1) s(5)] s(2-4,6-8) show ?thesis
    by (auto simp: mp_inv_def)
qed

lemma fetch_lights_Inr: "fetch_lights w is = Inr ls \<Longrightarrow> map Some ls = map (get_light w) is"
  by (induction w "is" arbitrary: ls rule: fetch_lights.induct)
     (auto simp: ebind_Inr_iff split: option.splits)

lemma render_single_pass_Inr:
  assumes "render_single_pass sh me w = Inr w'" "program (gls w) = Some sh"
  shows "\<exists>ls g. map Some ls = map (get_light w) (lights (rnd w)) \<and>
     length (lights (rnd w)) \<le> max_lights \<and>
     draws (trace w') = draws (trace w) @ [(PMesh me, g)] \<and>
     draw_uniform g ''u_num_lights'' = Some (UInt (int (length (lights (rnd w))))) \<and>
     draw_uniform g ''u_light_type'' = Some (UIntArr (map (\<lambda>l. light_type_code (light_type l)) ls)) \<and>
     draw_uniform g ''u_texture_atlas'' =
       Some (UTex (if shadow_count (rnd w) \<noteq> 0 then TexAtlasDepth else TexBlack) 8)"
proof -
  obtain ls w1 where f: "fetch_lights w (lights (rnd w)) = Inr ls" and i: "irr_uniforms sh w = Inr w1"
    and n: "length (lights (rnd w)) \<le> max_lights"
    using assms(1) unfolding render_single_pass_def by (auto simp: Let_def ebind_Inr_iff split: if_splits)
  note u = uniforms_only_D [OF conjunct1 [OF irr_uniforms_Inr [OF i]]]
  show ?thesis
    using assms f i n u fetch_lights_Inr [OF f] unfolding render_single_pass_def
    by (auto simp: Let_def set_uniform_def draw_uniform_def draw_def split: if_splits)
qed

text \<open>C21: with no lights in multi-pass mode, renderMeshWithMaterial still draws the mesh
  exactly once, with \<open>u_light_type = NO_LIGHT\<close>, \<open>u_light_eq = NO_EQ\<close> and the
  gamma-linearised ambient light: the surface is lit by ambient and emission only.\<close>
theorem forward_no_lights:
  assumes "render_mesh_with_material cam FORWARD c w = Inr w'"
    and "light_mode (rnd w) = MULTI" and "shader_ok w ''light_multi''"
    and "0 < num_vertices (rc_mesh c)" and "lights (rnd w) = []"
  shows "\<exists>g. draws (trace w') = draws (trace w) @ [(PMesh (rc_mesh c), g)] \<and>
    draw_uniform g ''u_light_type'' = Some (UInt (light_type_code NO_LIGHT)) \<and>
    draw_uniform g ''u_light_eq'' = Some (UInt (light_eq_code NO_EQ)) \<and>
    draw_uniform g ''u_ambient_light'' =
      Some (UVec3 (gamma3 (hdr_gamma (rnd w)) (ambient_light (w_scene w))))"
proof -
  have ch: "choose_shader FORWARD (light_mode (rnd w)) = Some ''light_multi''"
    using assms(2) by (simp add: choose_shader_def)
  obtain w2 w3 where p: "light_pass FORWARD c ''light_multi'' w2 = Inr w3"
    "w' = run [disable_shader, gl_blend False, gl_depth_func GL_LESS] w3"
    "rnd w2 = rnd w" "trace w2 = trace w" "program (gls w2) = Some ''light_multi''"
    "uniforms (gls w2) ''light_multi'' ''u_ambient_light'' =
       Some (UVec3 (gamma3 (hdr_gamma (rnd w)) (ambient_light (w_scene w))))"
    using render_mesh_prefix [OF assms(1) ch assms(3,4)] by blast
  then show ?thesis using assms(2,5)
    by (auto simp: light_pass_def Let_def draw_uniform_def set_uniform_def draw_def)
qed

text \<open>C22: in single-pass mode a successful renderMeshWithMaterial submits exactly one draw,
  in which \<open>u_num_lights\<close> is the number of lights, \<open>u_light_type\<close> the array of their
  types in order, and the atlas sampler the atlas depth texture, or the black texture when no
  light casts shadows; it succeeds only with at most \<open>max_lights\<close> lights.\<close>
theorem forward_single_pass:
  assumes "render_mesh_with_material cam FORWARD c w = Inr w'"
    and "light_mode (rnd w) = SINGLE" and "shader_ok w ''light_single''"
    and "0 < num_vertices (rc_mesh c)"
  shows "\<exists>ls g. map Some ls = map (get_light w) (lights (rnd w)) \<and>
     length (lights (rnd w)) \<le> max_lights \<and>
     draws (trace w') = draws (trace w) @ [(PMesh (rc_mesh c), g)] \<and>
     draw_uniform g ''u_num_lights'' = Some (UInt (int (length (lights (rnd w))))) \<and>
     draw_uniform g ''u_light_type'' = Some (UIntArr (map (\<lambda>l. light_type_code (light_type l)) ls)) \<and>
     draw_uniform g ''u_texture_atlas'' =
       Some (UTex (if shadow_count (rnd w) \<noteq> 0 then TexAtlasDepth else TexBlack) 8)"
proof -
  have ch: "choose_shader FORWARD (light_mode (rnd w)) = Some ''light_single''"
    using assms(2) by (simp add: choose_shader_def)
  obtain w2 w3 where p: "light_pass FORWARD c ''light_single'' w2 = Inr w3"
    "w' = run [disable_shader, gl_blend False, gl_depth_func GL_LESS] w3"
    "rnd w2 = rnd w" "trace w2 = trace w" "w_scene w2 = w_scene w"
    "program (gls w2) = Some ''light_single''"
    using render_mesh_prefix [OF assms(1) ch assms(3,4)] by blast
  define wb where "wb = run (if alpha_mode (rc_material c) = BLEND
      then [gl_blend True, gl_blend_func GL_SRC_ALPHA GL_ONE_MINUS_SRC_ALPHA] else []) w2"
  have sp: "render_single_pass ''light_single'' (rc_mesh c) wb = Inr w3"
    using p(1,3) assms(2) unfolding light_pass_def wb_def by (simp add: Let_def)
  have wb: "program (gls wb) = Some ''light_single''" "rnd wb = rnd w" "trace wb = trace w"
    "get_light wb = get_light w"
    using p get_light_eq [of wb w] unfolding wb_def by (simp_all add: gl_ops_defs)
  show ?thesis using render_single_pass_Inr [OF sp wb(1)] wb p(2) by simp
qed

text \<open>C23: in single-pass mode with more than \<open>max_lights\<close> lights, renderSinglePass
  writes past the end of its fixed-size uniform arrays instead of truncating.\<close>
theorem single_pass_overflow:
  assumes "light_mode (rnd w) = SINGLE" and "shader_ok w ''light_single''"
    and "0 < num_vertices (rc_mesh c)" and "\<not> reflections (rnd w)"
    and "max_lights < length (lights (rnd w))"
  shows "render_mesh_with_material cam FORWARD c w = Inl (ArrayOverflow (length (lights (rnd w))))"
  using assms
  by (simp add: render_mesh_with_material_def choose_shader_def reflection_uniforms_def
      light_pass_def render_single_pass_def Let_def gl_ops_defs)

text \<open>C24: with reflections enabled, rendering a call that has no reflection probe
  dereferences the null \<open>call.probe\<close> pointer.\<close>
theorem reflections_without_probe:
  assumes "choose_shader pl (light_mode (rnd w)) = Some sh" and "shader_ok w sh"
    and "0 < num_vertices (rc_mesh c)" and "reflections (rnd w)" and "rc_probe c = None"
  shows "render_mesh_with_material cam pl c w = Inl (NullDeref ''probe'')"
  using assms
  by (simp add: render_mesh_with_material_def reflection_uniforms_def Let_def gl_ops_defs)

lemma multi_pass_lights_mesh:
  "multi_pass_lights me ma sh pl k is w = Inr w' \<Longrightarrow>
   \<exists>ds. draws (trace w') = draws (trace w) @ ds \<and> fst ` set ds \<subseteq> {PMesh me}"
proof (induction me ma sh pl k "is" w arbitrary: w' rule: multi_pass_lights.induct)
  case (1 me ma sh pl k w)
  then show ?case by simp
next
  case (2 me ma sh pl k i "is" w)
  obtain l w1 where l: "get_light w i = Some l"
    and up: "upload_light_params i l True (hdr_gamma (rnd w)) sh
               (if k = 0 then w else run (later_pass ma sh pl) w) = Inr w1"
    and rest: "multi_pass_lights me ma sh pl (Suc k) is (draw (PMesh me) w1) = Inr w'"
    using "2.prems" by (auto simp: ebind_Inr_iff split: option.splits)
  have "trace w1 = trace w"
    using uniforms_only_D(1) [OF conjunct1 [OF upload_light_params_Inr [OF up]]]
    by (simp add: later_pass_def gl_ops_defs)
  with "2.IH" [OF l rest] show ?case by (auto simp: draw_def)
qed

lemma light_pass_mesh:
  assumes "light_pass pl c sh w = Inr w'"
  shows "\<exists>ds. draws (trace w') = draws (trace w) @ ds \<and> fst ` set ds \<subseteq> {PMesh (rc_mesh c)}"
proof -
  have irr: "irr_uniforms sh w0 = Inr w1 \<Longrightarrow> trace w1 = trace w0" for w0 w1
    using uniforms_only_D(1) [OF conjunct1 [OF irr_uniforms_Inr]] by blast
  show ?thesis
  proof (cases "pl = FORWARD \<and> light_mode (rnd w) = MULTI \<or> pl = DEFERRED_ALPHA")
    case True
    then show ?thesis using assms multi_pass_lights_mesh irr
      by (fastforce simp: light_pass_def render_multi_pass_def Let_def ebind_Inr_iff blend_setup_def
          gl_ops_defs split: if_splits)
  next
    case False
    then show ?thesis using assms irr
      by (auto simp: light_pass_def render_single_pass_def Let_def ebind_Inr_iff gl_ops_defs
          split: if_splits)
  qed
qed

lemma render_mesh_mesh:
  "render_mesh_with_material cam pl c w = Inr w' \<Longrightarrow>
   \<exists>ds. draws (trace w') = draws (trace w) @ ds \<and> fst ` set ds \<subseteq> {PMesh (rc_mesh c)}"
proof (cases "0 < num_vertices (rc_mesh c) \<and> choose_shader pl (light_mode (rnd w)) \<noteq> None \<and>
              shader_ok w (the (choose_shader pl (light_mode (rnd w))))")
  case True
  assume ok: "render_mesh_with_material cam pl c w = Inr w'"
  then obtain sh where ch: "choose_shader pl (light_mode (rnd w)) = Some sh" "shader_ok w sh"
    "0 < num_vertices (rc_mesh c)" using True by auto
  obtain w2 w3 where "light_pass pl c sh w2 = Inr w3"
    "w' = run [disable_shader, gl_blend False, gl_depth_func GL_LESS] w3" "trace w2 = trace w"
    using render_mesh_prefix [OF ok ch(1,2,3)] by blast
  then show ?thesis using light_pass_mesh by fastforce
next
  case False
  assume "render_mesh_with_material cam pl c w = Inr w'"
  with False show ?thesis
    by (auto simp: render_mesh_with_material_def Let_def gl_ops_defs split: option.splits if_splits)
qed

lemma fold_err_calls_mesh:
  "fold_err (\<lambda>c w. if box_in_frustum svc cam (rc_model c) (rc_mesh c)
                    then render_mesh_with_material cam pl c w else Inr w) cs w = Inr w' \<Longrightarrow>
   \<exists>ds. draws (trace w') = draws (trace w) @ ds \<and>
     (\<forall>d\<in>set ds. \<exists>c\<in>set cs. fst d = PMesh (rc_mesh c) \<and> box_in_frustum svc cam (rc_model c) (rc_mesh c))"
proof (induction cs arbitrary: w)
  case Nil
  then show ?case by simp
next
  case (Cons c cs)
  then obtain w1 where s: "(if box_in_frustum svc cam (rc_model c) (rc_mesh c)
                    then render_mesh_with_material cam pl c w else Inr w) = Inr w1"
    and r: "fold_err (\<lambda>c w. if box_in_frustum svc cam (rc_model c) (rc_mesh c)
                    then render_mesh_with_material cam pl c w else Inr w) cs w1 = Inr w'"
    by (auto simp: ebind_Inr_iff)
  obtain ds1 where d1: "draws (trace w1) = draws (trace w) @ ds1"
    "\<forall>d\<in>set ds1. fst d = PMesh (rc_mesh c) \<and> box_in_frustum svc cam (rc_model c) (rc_mesh c)"
    using s render_mesh_mesh [of cam pl c w w1] by (cases "box_in_frustum svc cam (rc_model c) (rc_mesh c)") auto
  obtain ds2 where d2: "draws (trace w') = draws (trace w1) @ ds2"
    "\<forall>d\<in>set ds2. \<exists>c\<in>set cs. fst d = PMesh (rc_mesh c) \<and> box_in_frustum svc cam (rc_model c) (rc_mesh c)"
    using Cons.IH [OF r] by blast
  show ?case
    by (rule exI [of _ "ds1 @ ds2"]) (use d1 d2 in auto)
qed

text \<open>C25: renderCalls draws the skybox sphere when the scene has an environment, and
  otherwise only meshes of calls whose world bounding box passes the camera frustum test.\<close>
theorem render_calls_culled:
  assumes "render_calls svc cam pl cs w = Inr w'"
  shows "\<exists>sky ds. draws (trace w') = draws (trace w) @ sky @ ds \<and>
    map fst sky = (case environment (w_scene w) of None \<Rightarrow> [] | Some _ \<Rightarrow> [PSphere]) \<and>
    (\<forall>d\<in>set ds. \<exists>c\<in>set cs. fst d = PMesh (rc_mesh c) \<and> box_in_frustum svc cam (rc_model c) (rc_mesh c))"
proof -
  obtain w1 where w1: "(case environment (w_scene w) of None \<Rightarrow> Inr (gl_clear True True w)
            | Some e \<Rightarrow> render_skybox svc e cam (gl_clear True True w)) = Inr w1"
    and r: "fold_err (\<lambda>c w. if box_in_frustum svc cam (rc_model c) (rc_mesh c)
                    then render_mesh_with_material cam pl c w else Inr w) cs w1 = Inr w'"
    using assms unfolding render_calls_def by (auto simp: ebind_Inr_iff)
  have "\<exists>sky. draws (trace w1) = draws (trace w) @ sky \<and>
      map fst sky = (case environment (w_scene w) of None \<Rightarrow> [] | Some _ \<Rightarrow> [PSphere])"
    using w1 by (auto simp: render_skybox_def gl_ops_defs split: option.splits if_splits)
  then show ?thesis using fold_err_calls_mesh [OF r] by fastforce
qed

text \<open>Unfolding a frame of the demonstration worlds.\<close>

lemmas lit_eval = render_mesh_with_material_def choose_shader_def reflection_uniforms_def
  light_pass_def render_multi_pass_def render_single_pass_def irr_uniforms_def
  upload_light_params_def get_light_def demo_lit_world_def demo_world_def renderer_new_def
  demo_dir_light_def demo_call_def max_lights_def Let_def

theorem forward_multi_pass_witness:
  "\<exists>w'. render_mesh_with_material demo_camera FORWARD (demo_call 0 NO_ALPHA 1)
           (demo_lit_world MULTI [0] False) = Inr w' \<and>
     length (draws (trace w')) = 1 \<and>
     draw_uniform (snd (hd (draws (trace w')))) ''u_light_type'' = Some (UInt 2)"
proof -
  have "\<exists>w'. render_mesh_with_material demo_camera FORWARD (demo_call 0 NO_ALPHA 1)
           (demo_lit_world MULTI [0] False) = Inr w'"
    by (simp add: lit_eval)
  then obtain w' where w': "render_mesh_with_material demo_camera FORWARD (demo_call 0 NO_ALPHA 1)
           (demo_lit_world MULTI [0] False) = Inr w'" ..
  have h: "light_mode (rnd (demo_lit_world MULTI [0] False)) = MULTI"
    "shader_ok (demo_lit_world MULTI [0] False) ''light_multi''"
    "0 < num_vertices (rc_mesh (demo_call 0 NO_ALPHA 1))"
    "lights (rnd (demo_lit_world MULTI [0] False)) \<noteq> []"
    by (simp_all add: lit_eval)
  have t: "trace (demo_lit_world MULTI [0] False) = []"
    "get_light (demo_lit_world MULTI [0] False) 0 = Some demo_dir_light"
    by (simp_all add: lit_eval)
  show ?thesis
    using forward_multi_pass [OF w' h] w' t
    by (auto simp: lit_eval)
qed

theorem forward_no_lights_witness:
  "\<exists>w'. render_mesh_with_material demo_camera FORWARD (demo_call 0 NO_ALPHA 1)
           (demo_lit_world MULTI [] False) = Inr w' \<and>
     map fst (draws (trace w')) = [PMesh (rc_mesh (demo_call 0 NO_ALPHA 1))] \<and>
     draw_uniform (snd (hd (draws (trace w')))) ''u_light_type'' = Some (UInt 3)"
proof -
  have "\<exists>w'. render_mesh_with_material demo_camera FORWARD (demo_call 0 NO_ALPHA 1)
           (demo_lit_world MULTI [] False) = Inr w'"
    by (simp add: lit_eval)
  then obtain w' where w': "render_mesh_with_material demo_camera FORWARD (demo_call 0 NO_ALPHA 1)
           (demo_lit_world MULTI [] False) = Inr w'" ..
  have h: "light_mode (rnd (demo_lit_world MULTI [] False)) = MULTI"
    "shader_ok (demo_lit_world MULTI [] False) ''light_multi''"
    "0 < num_vertices (rc_mesh (demo_call 0 NO_ALPHA 1))"
    "lights (rnd (demo_lit_world MULTI [] False)) = []"
    "trace (demo_lit_world MULTI [] False) = []"
    by (simp_all add: lit_eval)
  show ?thesis
    using forward_no_lights [OF w' h(1-4)] w' h(5) by auto
qed

theorem forward_single_pass_witness:
  "\<exists>w'. render_mesh_with_material demo_camera FORWARD (demo_call 0 NO_ALPHA 1)
           (demo_lit_world SINGLE [0] False) = Inr w' \<and>
     length (draws (trace w')) = 1 \<and>
     draw_uniform (snd (hd (draws (trace w')))) ''u_num_lights'' = Some (UInt 1)"
proof -
  have "\<exists>w'. render_mesh_with_material demo_camera FORWARD (demo_call 0 NO_ALPHA 1)
           (demo_lit_world SINGLE [0] False) = Inr w'"
    by (simp add: lit_eval)
  then obtain w' where w': "render_mesh_with_material demo_camera FORWARD (demo_call 0 NO_ALPHA 1)
           (demo_lit_world SINGLE [0] False) = Inr w'" ..
  have h: "light_mode (rnd (demo_lit_world SINGLE [0] False)) = SINGLE"
    "shader_ok (demo_lit_world SINGLE [0] False) ''light_single''"
    "0 < num_vertices (rc_mesh (demo_call 0 NO_ALPHA 1))"
    "trace (demo_lit_world SINGLE [0] False) = []"
    "lights (rnd (demo_lit_world SINGLE [0] False)) = [0]"
    by (simp_all add: lit_eval)
  show ?thesis
    using forward_single_pass [OF w' h(1-3)] w' h(4,5) by auto
qed

theorem single_pass_overflow_witness:
  "render_mesh_with_material demo_camera FORWARD (demo_call 0 NO_ALPHA 1)
     (demo_lit_world SINGLE (replicate 101 0) False) = Inl (ArrayOverflow 101)"
proof -
  have h: "light_mode (rnd (demo_lit_world SINGLE (replicate 101 0) False)) = SINGLE"
    "shader_ok (demo_lit_world SINGLE (replicate 101 0) False) ''light_single''"
    "0 < num_vertices (rc_mesh (demo_call 0 NO_ALPHA 1))"
    "\<not> reflections (rnd (demo_lit_world SINGLE (replicate 101 0) False))"
    "max_lights < length (lights (rnd (demo_lit_world SINGLE (replicate 101 0) False)))"
    "length (lights (rnd (demo_lit_world SINGLE (replicate 101 0) False))) = 101"
    by (simp_all add: lit_eval)
  show ?thesis using single_pass_overflow [OF h(1-5)] h(6) by simp
qed

theorem reflections_without_probe_witness:
  "render_mesh_with_material demo_camera FORWARD (demo_call 0 NO_ALPHA 1)
     (demo_lit_world MULTI [0] True) = Inl (NullDeref ''probe'')"
proof -
  have h: "choose_shader FORWARD (light_mode (rnd (demo_lit_world MULTI [0] True))) = Some ''light_multi''"
    "shader_ok (demo_lit_world MULTI [0] True) ''light_multi''"
    "0 < num_vertices (rc_mesh (demo_call 0 NO_ALPHA 1))"
    "reflections (rnd (demo_lit_world MULTI [0] True))" "rc_probe (demo_call 0 NO_ALPHA 1) = None"
    by (simp_all add: lit_eval)
  show ?thesis using reflections_without_probe [OF h] .
qed

theorem render_calls_culled_witness:
  "\<exists>w'. render_calls demo_svc demo_camera FORWARD [demo_call 0 NO_ALPHA 1]
           (demo_lit_world MULTI [0] False) = Inr w' \<and>
     fst ` set (draws (trace w')) \<subseteq> {PMesh (rc_mesh (demo_call 0 NO_ALPHA 1))}"
proof -
  have "\<exists>w'. render_calls demo_svc demo_camera FORWARD [demo_call 0 NO_ALPHA 1]
           (demo_lit_world MULTI [0] False) = Inr w'"
    by (simp add: render_calls_def demo_svc_def lit_eval)
  then obtain w' where w': "render_calls demo_svc demo_camera FORWARD [demo_call 0 NO_ALPHA 1]
           (demo_lit_world MULTI [0] False) = Inr w'" ..
  have h: "trace (demo_lit_world MULTI [0] False) = []"
    "environment (w_scene (demo_lit_world MULTI [0] False)) = None"
    by (simp_all add: lit_eval)
  show ?thesis using render_calls_culled [OF w'] w' h by fastforce
qed

end
