(* ===== verification/Probes.thy ===== *)
theory Probes
  imports Lighting
begin

text \<open>
  The irradiance probe grid: \<open>IrradianceGrid::configure\<close>, \<open>updateGrid\<close> and
  \<open>updateProbe\<close> (\<open>src/scene.cpp\<close>), and the bake and debug passes of
  \<open>src/renderer.cpp\<close>: \<open>Renderer::updateProbes\<close>, \<open>Renderer::extractProbe\<close> and
  \<open>Renderer::renderProbes\<close>. The spherical-harmonics projection of the six read-back
  views (\<open>FloatImage::fromTexture\<close>, \<open>computeSH\<close>) is image processing outside the
  model: the bake takes it as a function \<open>shf\<close> of the probe position.
\<close>

subsection \<open>Grid configuration\<close>

text \<open>The JSON object of a grid: each key present or absent.\<close>

record grid_json =
  j_dim :: "vec3 option"
  j_probe_scale :: "real option"

text \<open>The number of iterations of \<open>for (int k = 0; k < d; ++k)\<close> with a float bound.\<close>

definition grid_count :: "real \<Rightarrow> nat" where
  "grid_count d = nat \<lceil>d\<rceil>"

text \<open>\<open>IrradianceGrid::updateProbe\<close>: the probe is moved to the grid's model applied to its
  local position and scaled by \<open>probe_scale\<close>.\<close>

definition grid_update_probe :: "services \<Rightarrow> irradiance_grid \<Rightarrow> probe_entity \<Rightarrow> probe_entity" where
  "grid_update_probe svc g p =
     (let ps = of_int (probe_scale g) in
      p\<lparr>model := scale svc (set_translation svc (model p) (mat4_point (model g) (p_local p))) (ps, ps, ps)\<rparr>)"

text \<open>\<open>IrradianceGrid::updateGrid\<close>.\<close>

definition update_grid :: "services \<Rightarrow> irradiance_grid \<Rightarrow> irradiance_grid" where
  "update_grid svc g = g\<lparr>inv_model := inverse svc (model g)\<rparr>"

text \<open>\<open>new ProbeEntity()\<close> at grid position \<open>(i, j, k)\<close>: local position
  \<open>(i/dim.x, j/dim.y, k/dim.z)\<close> and index \<open>i + dim.x * (j + dim.y * k)\<close>, computed in
  float and truncated into the \<open>int\<close> field.\<close>

definition new_grid_probe :: "vec3 \<Rightarrow> nat \<Rightarrow> nat \<Rightarrow> nat \<Rightarrow> probe_entity" where
  "new_grid_probe dm i j k =
     (case dm of (dx, dy, dz) \<Rightarrow>
        \<lparr>name = [], model = mat_identity, visible = True,
         p_local = (real i / dx, real j / dy, real k / dz),
         p_index = float_to_int (real i + dx * (real j + dy * real k)), p_sh = []\<rparr>)"

definition grid_configure :: "services \<Rightarrow> grid_json \<Rightarrow> irradiance_grid \<Rightarrow> irradiance_grid" where
  "grid_configure svc jj g =
     (let dm = (case j_dim jj of None \<Rightarrow> vzero | Some v \<Rightarrow> v);
          g1 = g\<lparr>dim := dm,
                 probe_scale := float_to_int (case j_probe_scale jj of None \<Rightarrow> 5 | Some s \<Rightarrow> s)\<rparr>
      in case dm of (dx, dy, dz) \<Rightarrow>
        g1\<lparr>probes := probes g1 @
          concat (map (\<lambda>k. concat (map (\<lambda>j. map (\<lambda>i. grid_update_probe svc g1 (new_grid_probe dm i j k))
              [0..<grid_count dx]) [0..<grid_count dy])) [0..<grid_count dz])\<rparr>)"

subsection \<open>Probe bake\<close>

text \<open>The six cubemap face directions (front, up) of the framework's
  \<open>cubemapFaceNormals[i][2]\<close> and \<open>[i][1]\<close>.\<close>

definition cube_faces :: "(vec3 \<times> vec3) list" where
  "cube_faces =
     [((1, 0, 0), (0, -1, 0)), ((-1, 0, 0), (0, -1, 0)), ((0, 1, 0), (0, 0, 1)),
      ((0, -1, 0), (0, 0, -1)), ((0, 0, 1), (0, -1, 0)), ((0, 0, -1), (0, -1, 0))]"

definition vadd :: "vec3 \<Rightarrow> vec3 \<Rightarrow> vec3" where
  "vadd a b = (case a of (ax, ay, az) \<Rightarrow> case b of (bx, by, bz) \<Rightarrow> (ax + bx, ay + by, az + bz))"

text \<open>The write-back through the renderer's \<open>grid\<close> pointer.\<close>

definition put_grid :: "nat \<Rightarrow> irradiance_grid \<Rightarrow> world \<Rightarrow> world" where
  "put_grid i g w = w\<lparr>w_scene := (w_scene w)\<lparr>entities := (entities (w_scene w))[i := EGrid g]\<rparr>\<rparr>"

text \<open>\<open>Renderer::extractProbe\<close>: for each face, a 90 degree square camera at the probe
  looks along the face direction and the calls are rendered forward into the irradiance
  FBO. \<open>c0\<close> is the default-constructed \<open>Camera cam\<close>.\<close>

definition extract_probe ::
  "services \<Rightarrow> camera \<Rightarrow> render_call list \<Rightarrow> probe_entity \<Rightarrow> world \<Rightarrow> error + world"
where
  "extract_probe svc c0 cs p w =
     (let e = get_translation (model p); c1 = camera_set_perspective svc c0 90 1 0.1 1000 in
      fold_err (\<lambda>fu w. ebind (render_calls svc (camera_look_at svc c1 e (vadd e (fst fu)) (snd fu))
                                FORWARD cs (bind_fbo IrrFbo w))
                         (\<lambda>w1. Inr (unbind_fbo w1))) cube_faces w)"

text \<open>The probe loop of \<open>updateProbes\<close>, over the probe positions \<open>is\<close>: update the
  probe in place, render its six views, store its coefficients.\<close>

fun probe_loop ::
  "services \<Rightarrow> camera \<Rightarrow> (vec3 \<Rightarrow> real list) \<Rightarrow> nat \<Rightarrow> nat list \<Rightarrow> world \<Rightarrow> error + world"
where
  "probe_loop svc c0 shf gi [] w = Inr w"
| "probe_loop svc c0 shf gi (i # is) w =
     ebind (get_grid w) (\<lambda>g.
       let p1 = grid_update_probe svc g (probes g ! i);
           w1 = put_grid gi (g\<lparr>probes := (probes g)[i := p1]\<rparr>) w
       in ebind (extract_probe svc c0 (calls (rnd w1)) p1 w1) (\<lambda>w2.
          ebind (get_grid w2) (\<lambda>g2.
            probe_loop svc c0 shf gi is
              (put_grid gi (g2\<lparr>probes := (probes g2)[i := p1\<lparr>p_sh := shf (get_translation (model p1))\<rparr>]\<rparr>) w2))))"

text \<open>\<open>Renderer::updateProbes\<close>. The probe texture has one row per probe and is created
  once; the upload reads as many rows as the texture has, past the end of the coefficient
  array when the grid has fewer probes than at creation.\<close>

definition update_probes :: "services \<Rightarrow> camera \<Rightarrow> (vec3 \<Rightarrow> real list) \<Rightarrow> world \<Rightarrow> error + world" where
  "update_probes svc c0 shf w =
     (case grid (rnd w) of
        None \<Rightarrow> Inr w
      | Some gi \<Rightarrow> ebind (get_grid w) (\<lambda>g0.
          let g = update_grid svc g0; n = length (probes g);
              w1 = put_grid gi g w;
              w2 = (if probes_texture (rnd w1) = None
                    then w1\<lparr>rnd := (rnd w1)\<lparr>probes_texture := Some n\<rparr>\<rparr> else w1)
          in ebind (probe_loop svc c0 shf gi [0..<n] w2) (\<lambda>w3.
               case probes_texture (rnd w3) of
                 Some rows \<Rightarrow> if n < rows then Inl (ArrayOverflow rows) else Inr w3
               | None \<Rightarrow> Inr w3)))"

text \<open>\<open>Renderer::renderProbes\<close>: one sphere per probe with its coefficients. The probe
  shader is used without a null check.\<close>

definition render_probes :: "camera \<Rightarrow> world \<Rightarrow> error + world" where
  "render_probes cam w =
     (case grid (rnd w) of
        None \<Rightarrow> Inr w
      | Some _ \<Rightarrow> ebind (get_grid w) (\<lambda>g.
          if \<not> shader_ok w ''probe'' then Inl (NullDeref ''probe'')
          else Inr (run ([gl_cull True, gl_blend False, gl_depth_test True, enable_shader ''probe''] @
            concat (map (\<lambda>p. [set_uniform ''probe'' ''u_viewprojection'' (UMat (viewprojection_matrix cam)),
                              set_uniform ''probe'' ''u_camera_position'' (UVec3 (eye cam)),
                              set_uniform ''probe'' ''u_model'' (UMat (model p)),
                              set_uniform ''probe'' ''u_coeffs'' (UFloatArr (p_sh p)),
                              draw PSphere]) (probes g))) w)))"

text \<open>A grid entity with no probes yet.\<close>

definition demo_grid :: irradiance_grid where
  "demo_grid = \<lparr>name = ''grid'', model = mat_identity, visible = True, probes = [],
     inv_model = mat_identity, dim = vzero, probe_scale = 1\<rparr>"

text \<open>A world whose scene holds the sun of \<open>Shadows\<close> and a one-probe grid, with no calls.\<close>

definition demo_grid_world :: world where
  "demo_grid_world =
     demo_world\<lparr>w_scene := (w_scene demo_world)\<lparr>entities := [ELight demo_dir_light,
        EGrid (demo_grid\<lparr>probes := [new_grid_probe (1, 1, 1) 0 0 0]\<rparr>)]\<rparr>,
       rnd := (rnd demo_world)\<lparr>calls := [], grid := Some 1\<rparr>\<rparr>"

subsection \<open>Fixtures and proof-level definitions\<close>

definition frame_eq :: "world \<Rightarrow> world \<Rightarrow> bool" where
  "frame_eq w w' \<longleftrightarrow> w_scene w' = w_scene w \<and> rnd w' = rnd w \<and> shader_ok w' = shader_ok w"

text \<open>The probe a bake leaves at a position: moved, then given its coefficients.\<close>

definition baked_probe :: "services \<Rightarrow> (vec3 \<Rightarrow> real list) \<Rightarrow> irradiance_grid \<Rightarrow> probe_entity \<Rightarrow> probe_entity" where
  "baked_probe svc shf g p =
     (grid_update_probe svc g p)\<lparr>p_sh := shf (get_translation (model (grid_update_probe svc g p)))\<rparr>"

definition probe_body :: "camera \<Rightarrow> probe_entity \<Rightarrow> (world \<Rightarrow> world) list" where
  "probe_body cam p =
     [set_uniform ''probe'' ''u_viewprojection'' (UMat (viewprojection_matrix cam)),
      set_uniform ''probe'' ''u_camera_position'' (UVec3 (eye cam)),
      set_uniform ''probe'' ''u_model'' (UMat (model p)),
      set_uniform ''probe'' ''u_coeffs'' (UFloatArr (p_sh p)), draw PSphere]"

subsection \<open>Lemmas\<close>


lemma grid_count_nat [simp]: "grid_count (real a) = a"
  by (simp add: grid_count_def)

lemma float_to_int_nat [simp]: "float_to_int (real n) = int n"
  by (simp add: float_to_int_def)

lemma nth_grid_list:
  assumes "n < a * b * c"
  shows "concat (map (\<lambda>k. concat (map (\<lambda>j. map (\<lambda>i. f i j k) [0..<a]) [0..<b])) [0..<c]) ! n =
           f (n mod a) (n div a mod b) (n div (a * b))"
proof -
  have ab: "0 < a * b" using assms by (cases "a * b") auto
  have c: "n div (a * b) < c"
    using assms ab by (metis div_less_iff_less_mult mult.assoc mult.commute)
  have a: "0 < a" using ab by simp
  have inner: "\<And>k. length (concat (map (\<lambda>j. map (\<lambda>i. f i j k) [0..<a]) [0..<b])) = a * b"
    by (simp add: length_concat_map_const)
  have "concat (map (\<lambda>k. concat (map (\<lambda>j. map (\<lambda>i. f i j k) [0..<a]) [0..<b])) [0..<c]) ! n =
        concat (map (\<lambda>k. concat (map (\<lambda>j. map (\<lambda>i. f i j k) [0..<a]) [0..<b])) [0..<c]) !
          (n div (a * b) * (a * b) + n mod (a * b))" by (simp only: div_mult_mod_eq)
  also have "\<dots> =
        concat (map (\<lambda>j. map (\<lambda>i. f i j (n div (a * b))) [0..<a]) [0..<b]) ! (n mod (a * b))"
    using nth_concat_map_const [of "[0..<c]" "\<lambda>k. concat (map (\<lambda>j. map (\<lambda>i. f i j k) [0..<a]) [0..<b])"
        "a * b" "n div (a * b)" "n mod (a * b)"] inner c ab
    by simp
  also have "\<dots> = concat (map (\<lambda>j. map (\<lambda>i. f i j (n div (a * b))) [0..<a]) [0..<b]) !
                    (n mod (a * b) div a * a + n mod (a * b) mod a)"
    by simp
  also have "\<dots> = f (n mod (a * b) mod a) (n mod (a * b) div a) (n div (a * b))"
    using nth_concat_map_const [of "[0..<b]" "\<lambda>j. map (\<lambda>i. f i j (n div (a * b))) [0..<a]" a
        "n mod (a * b) div a" "n mod (a * b) mod a"] a ab
    by (simp add: less_mult_imp_div_less mult.commute)
  also have "n mod (a * b) mod a = n mod a" by (simp add: mod_mod_cancel)
  also have "n mod (a * b) div a = n div a mod b"
    using a by (simp add: mod_mult2_eq)
  finally show ?thesis .
qed

lemma grid_index_decode:
  "n mod a + a * (n div a mod b + b * (n div (a * b))) = (n::nat)"
proof -
  have "n div a mod b + b * (n div (a * b)) = n div a"
    by (simp add: div_mult2_eq mult.commute)
  then show ?thesis by simp
qed

lemma grid_configure_probes:
  assumes "j_dim jj = Some (real a, real b, real c)"
  shows "drop (length (probes g)) (probes (grid_configure svc jj g)) =
    concat (map (\<lambda>k. concat (map (\<lambda>j. map (\<lambda>i.
      grid_update_probe svc (g\<lparr>dim := (real a, real b, real c),
        probe_scale := float_to_int (case j_probe_scale jj of None \<Rightarrow> 5 | Some s \<Rightarrow> s)\<rparr>)
        (new_grid_probe (real a, real b, real c) i j k)) [0..<a]) [0..<b])) [0..<c])"
  using assms by (simp add: grid_configure_def Let_def)

text \<open>C30: a grid configured with whole-number dimensions \<open>a x b x c\<close> gets exactly
  \<open>a * b * c\<close> new probes, and the probe at list position \<open>n\<close> stores \<open>n\<close> as its index and
  the grid coordinates decoded from \<open>n\<close> (\<open>n mod a\<close>, \<open>n div a mod b\<close>, \<open>n div (a*b)\<close>)
  as its local position: index and position round-trip, as the comment "indexes already
  ordered" and the probe texture rows assume.\<close>
theorem grid_probe_index_roundtrip:
  assumes "j_dim jj = Some (real a, real b, real c)"
    and "ps = drop (length (probes g)) (probes (grid_configure svc jj g))"
  shows "length ps = a * b * c \<and>
    (\<forall>n < a * b * c. nat (p_index (ps ! n)) = n \<and>
       p_local (ps ! n) = (real (n mod a) / real a, real (n div a mod b) / real b,
                          real (n div (a * b)) / real c))"
proof -
  have l: "length ps = a * b * c"
    using assms by (simp add: grid_configure_probes length_concat_map_const grid_update_probe_def)
  have "nat (p_index (ps ! n)) = n \<and>
       p_local (ps ! n) = (real (n mod a) / real a, real (n div a mod b) / real b,
                          real (n div (a * b)) / real c)" if n: "n < a * b * c" for n
  proof -
    have i: "real (n mod a) + real a * (real (n div a mod b) + real b * real (n div (a * b))) = real n"
      using grid_index_decode [of n a b] by (metis of_nat_add of_nat_mult)
    define g1 where "g1 = g\<lparr>dim := (real a, real b, real c),
        probe_scale := float_to_int (case j_probe_scale jj of None \<Rightarrow> 5 | Some s \<Rightarrow> s)\<rparr>"
    have e: "ps ! n = grid_update_probe svc g1
        (new_grid_probe (real a, real b, real c) (n mod a) (n div a mod b) (n div (a * b)))"
      using nth_grid_list [OF n, of "\<lambda>i j k. grid_update_probe svc g1 (new_grid_probe (real a, real b, real c) i j k)"]
        assms grid_configure_probes [OF assms(1), of g svc] unfolding g1_def by simp
    show ?thesis
      using e i by (simp add: grid_update_probe_def new_grid_probe_def Let_def)
  qed
  with l show ?thesis by blast
qed

text \<open>With a fractional dimension the float loop bounds and the truncated float index
  disagree: dimensions \<open>(2.5, 2, 1)\<close> give six probes with indices 0, 1, 2, 2, 3, 4, so two
  probes share a texture row and the positions no longer match the indices.\<close>
theorem grid_fractional_dim_indices:
  "map p_index (probes (grid_configure demo_svc \<lparr>j_dim = Some (5 / 2, 2, 1), j_probe_scale = None\<rparr> demo_grid)) =
     [0, 1, 2, 2, 3, 4]"
proof -
  have c: "grid_count (5 / 2) = 3" "grid_count 2 = 2" "grid_count 1 = 1"
    by (simp_all add: grid_count_def ceiling_eq_iff)
  show ?thesis
    by (simp add: grid_configure_def c upt_rec grid_update_probe_def new_grid_probe_def demo_grid_def
        float_to_int_def floor_eq_iff)
qed

subsection \<open>Rendering passes leave the scene and the renderer alone\<close>

lemma frame_eq_refl [simp]: "frame_eq w w"
  by (simp add: frame_eq_def)

lemma frame_eq_trans: "frame_eq w w1 \<Longrightarrow> frame_eq w1 w2 \<Longrightarrow> frame_eq w w2"
  by (simp add: frame_eq_def)

lemma frame_eq_uniforms_only: "uniforms_only w w' \<Longrightarrow> frame_eq w w'"
  by (simp add: frame_eq_def uniforms_only_D)

lemma frame_eq_gl_ops [simp]:
  "frame_eq w (set_uniform sh u v w)" "frame_eq w (enable_shader sh w)" "frame_eq w (disable_shader w)"
  "frame_eq w (gl_blend b w)" "frame_eq w (gl_blend_func bs bd w)" "frame_eq w (gl_depth_test b w)"
  "frame_eq w (gl_depth_func f w)" "frame_eq w (gl_cull b w)" "frame_eq w (gl_front_face fo w)"
  "frame_eq w (gl_color_mask b w)" "frame_eq w (gl_scissor_test b w)" "frame_eq w (gl_scissor rr w)"
  "frame_eq w (gl_viewport rr w)" "frame_eq w (bind_fbo fb w)" "frame_eq w (unbind_fbo w)"
  "frame_eq w (draw p w)" "frame_eq w (gl_clear cc cd w)"
  by (simp_all add: frame_eq_def gl_ops_defs draw_def gl_clear_def)

lemma frame_eq_run:
  "(\<And>f w. f \<in> set fs \<Longrightarrow> frame_eq w (f w)) \<Longrightarrow> frame_eq w (run fs w)"
  by (induction fs arbitrary: w) (auto intro: frame_eq_trans)

lemma irr_uniforms_frame: "irr_uniforms sh w = Inr w' \<Longrightarrow> frame_eq w w'"
  using frame_eq_uniforms_only irr_uniforms_Inr by blast

lemma multi_pass_lights_frame:
  "multi_pass_lights me ma sh pl k is w = Inr w' \<Longrightarrow> frame_eq w w'"
proof (induction me ma sh pl k "is" w arbitrary: w' rule: multi_pass_lights.induct)
  case (1 me ma sh pl k w)
  then show ?case by simp
next
  case (2 me ma sh pl k i "is" w)
  obtain l w1 where l: "get_light w i = Some l"
    and up: "upload_light_params i l True (hdr_gamma (rnd w)) sh
               (if k = 0 then w else run (later_pass ma sh pl) w) = Inr w1"
    and rest: "multi_pass_lights me ma sh pl (Suc k) is (draw (PMesh me) w1) = Inr w'"
    using "2.prems" by (auto simp: ebind_Inr_iff split: option.splits)
  have "frame_eq w (if k = 0 then w else run (later_pass ma sh pl) w)"
    by (simp add: later_pass_def frame_eq_def gl_ops_defs)
  then have "frame_eq w (draw (PMesh me) w1)"
    using frame_eq_uniforms_only [OF conjunct1 [OF upload_light_params_Inr [OF up]]]
    by (meson frame_eq_gl_ops(16) frame_eq_trans)
  with "2.IH" [OF l rest] show ?case by (rule frame_eq_trans [rotated])
qed

lemma light_pass_frame:
  assumes "light_pass pl c sh w = Inr w'"
  shows "frame_eq w w'"
proof (cases "pl = FORWARD \<and> light_mode (rnd w) = MULTI \<or> pl = DEFERRED_ALPHA")
  case True
  then show ?thesis using assms multi_pass_lights_frame irr_uniforms_frame
    by (fastforce simp: light_pass_def render_multi_pass_def Let_def ebind_Inr_iff blend_setup_def
        frame_eq_def gl_ops_defs draw_def split: if_splits)
next
  case False
  then show ?thesis using assms irr_uniforms_frame
    by (auto simp: light_pass_def render_single_pass_def Let_def ebind_Inr_iff gl_ops_defs
        frame_eq_def draw_def split: if_splits)
qed

lemma render_mesh_frame:
  assumes "render_mesh_with_material cam pl c w = Inr w'"
  shows "frame_eq w w'"
proof (cases "0 < num_vertices (rc_mesh c) \<and> choose_shader pl (light_mode (rnd w)) \<noteq> None \<and>
              shader_ok w (the (choose_shader pl (light_mode (rnd w))))")
  case True
  then obtain sh where ch: "choose_shader pl (light_mode (rnd w)) = Some sh" "shader_ok w sh"
    "0 < num_vertices (rc_mesh c)" by auto
  obtain w2 w3 where p: "light_pass pl c sh w2 = Inr w3"
    "w' = run [disable_shader, gl_blend False, gl_depth_func GL_LESS] w3"
    "rnd w2 = rnd w" "w_scene w2 = w_scene w" "shader_ok w2 = shader_ok w"
    using render_mesh_prefix [OF assms ch] by blast
  have "frame_eq w w2" using p(3-5) by (simp add: frame_eq_def)
  moreover have "frame_eq w2 w3" by (rule light_pass_frame [OF p(1)])
  moreover have "frame_eq w3 w'" unfolding p(2) by (rule frame_eq_run) auto
  ultimately show ?thesis by (blast intro: frame_eq_trans)
next
  case False
  with assms show ?thesis
    by (auto simp: render_mesh_with_material_def Let_def gl_ops_defs frame_eq_def
        split: option.splits if_splits)
qed

lemma render_calls_frame:
  assumes "render_calls svc cam pl cs w = Inr w'"
  shows "frame_eq w w'"
proof -
  have loop: "fold_err (\<lambda>c w. if box_in_frustum svc cam (rc_model c) (rc_mesh c)
                    then render_mesh_with_material cam pl c w else Inr w) cs w0 = Inr w1 \<Longrightarrow>
              frame_eq w0 w1" for w0 w1
  proof (induction cs arbitrary: w0)
    case Nil
    then show ?case by simp
  next
    case (Cons c cs)
    then show ?case
      by (auto simp: ebind_Inr_iff split: if_splits intro: frame_eq_trans render_mesh_frame)
  qed
  obtain w1 where w1: "(case environment (w_scene w) of None \<Rightarrow> Inr (gl_clear True True w)
            | Some e \<Rightarrow> render_skybox svc e cam (gl_clear True True w)) = Inr w1"
    and r: "fold_err (\<lambda>c w. if box_in_frustum svc cam (rc_model c) (rc_mesh c)
                    then render_mesh_with_material cam pl c w else Inr w) cs w1 = Inr w'"
    using assms unfolding render_calls_def by (auto simp: ebind_Inr_iff)
  have "frame_eq w w1"
    using w1 by (auto simp: render_skybox_def gl_ops_defs gl_clear_def draw_def frame_eq_def
        split: option.splits if_splits)
  with loop [OF r] show ?thesis by (blast intro: frame_eq_trans)
qed

lemma extract_probe_frame: "extract_probe svc c0 cs p w = Inr w' \<Longrightarrow> frame_eq w w'"
proof -
  have "fold_err (\<lambda>fu w. ebind (render_calls svc (f fu) FORWARD cs (bind_fbo IrrFbo w))
                         (\<lambda>w1. Inr (unbind_fbo w1))) fs w0 = Inr w1 \<Longrightarrow> frame_eq w0 w1"
    for f fs w0 w1
  proof (induction fs arbitrary: w0)
    case Nil
    then show ?case by simp
  next
    case (Cons fu fs)
    then obtain w2 where "render_calls svc (f fu) FORWARD cs (bind_fbo IrrFbo w0) = Inr w2"
      "fold_err (\<lambda>fu w. ebind (render_calls svc (f fu) FORWARD cs (bind_fbo IrrFbo w))
                         (\<lambda>w1. Inr (unbind_fbo w1))) fs (unbind_fbo w2) = Inr w1"
      by (auto simp: ebind_Inr_iff)
    then show ?case using Cons.IH render_calls_frame
      by (meson frame_eq_gl_ops(14,15) frame_eq_trans)
  qed
  from this [where f = "\<lambda>fu. camera_look_at svc (camera_set_perspective svc c0 90 1 0.1 1000)
      (get_translation (model p)) (vadd (get_translation (model p)) (fst fu)) (snd fu)"]
  show "extract_probe svc c0 cs p w = Inr w' \<Longrightarrow> frame_eq w w'"
    unfolding extract_probe_def Let_def .
qed

lemma get_grid_put_grid:
  "get_grid w = Inr g \<Longrightarrow> grid (rnd w) = Some gi \<Longrightarrow> get_grid (put_grid gi g' w) = Inr g'"
  by (auto simp: get_grid_def put_grid_def split: if_splits entity.splits)

lemma get_grid_frame:
  assumes "frame_eq w w'" shows "get_grid w' = get_grid w"
proof -
  from assms have "w_scene w' = w_scene w" "rnd w' = rnd w" by (simp_all add: frame_eq_def)
  then show ?thesis unfolding get_grid_def by (metis (no_types))
qed

lemma put_grid_frame [simp]:
  "rnd (put_grid gi g w) = rnd w" "shader_ok (put_grid gi g w) = shader_ok w"
  by (simp_all add: put_grid_def)

lemma grid_update_probe_probes [simp]:
  "grid_update_probe svc (g\<lparr>probes := ps\<rparr>) = grid_update_probe svc g"
  by (simp add: grid_update_probe_def fun_eq_iff)

lemma baked_probe_probes [simp]: "baked_probe svc shf (g\<lparr>probes := ps\<rparr>) = baked_probe svc shf g"
  by (simp add: baked_probe_def fun_eq_iff)

lemma probe_loop_spec:
  "probe_loop svc c0 shf gi is w = Inr w' \<Longrightarrow> grid (rnd w) = Some gi \<Longrightarrow> get_grid w = Inr g \<Longrightarrow>
   distinct is \<Longrightarrow> (\<forall>i\<in>set is. i < length (probes g)) \<Longrightarrow>
   rnd w' = rnd w \<and>
   get_grid w' = Inr (g\<lparr>probes := map (\<lambda>k. if k \<in> set is then baked_probe svc shf g (probes g ! k)
                                            else probes g ! k) [0..<length (probes g)]\<rparr>)"
proof (induction "is" arbitrary: w g)
  case Nil
  then show ?case by (simp add: map_nth)
next
  case (Cons i "is")
  define p1 where "p1 = grid_update_probe svc g (probes g ! i)"
  define w1 where "w1 = put_grid gi (g\<lparr>probes := (probes g)[i := p1]\<rparr>) w"
  have g1: "get_grid w1 = Inr (g\<lparr>probes := (probes g)[i := p1]\<rparr>)"
    unfolding w1_def by (rule get_grid_put_grid [OF Cons.prems(3,2)])
  from Cons.prems(1) Cons.prems(3) obtain w2 where ex: "extract_probe svc c0 (calls (rnd w1)) p1 w1 = Inr w2"
    and rest0: "ebind (get_grid w2) (\<lambda>g2. probe_loop svc c0 shf gi is
       (put_grid gi (g2\<lparr>probes := (probes g2)[i := p1\<lparr>p_sh := shf (get_translation (model p1))\<rparr>]\<rparr>) w2)) = Inr w'"
    unfolding p1_def w1_def by (auto simp: ebind_Inr_iff Let_def)
  note fr = extract_probe_frame [OF ex]
  have g2: "get_grid w2 = Inr (g\<lparr>probes := (probes g)[i := p1]\<rparr>)"
    using get_grid_frame [OF fr] g1 by simp
  define g' where "g' = g\<lparr>probes := (probes g)[i := baked_probe svc shf g (probes g ! i)]\<rparr>"
  have eq: "g\<lparr>probes := (probes g)[i := p1]\<rparr>\<lparr>probes := (probes g)[i := p1, i := p1\<lparr>p_sh := shf (get_translation (model p1))\<rparr>]\<rparr> = g'"
    by (simp add: g'_def baked_probe_def p1_def)
  define w3 where "w3 = put_grid gi g' w2"
  have rest: "probe_loop svc c0 shf gi is w3 = Inr w'"
    using rest0 g2 eq unfolding w3_def by simp
  have r3: "rnd w3 = rnd w" using fr unfolding w3_def w1_def by (simp add: frame_eq_def)
  have gw3: "get_grid w3 = Inr g'"
    unfolding w3_def using get_grid_put_grid [OF g2] fr Cons.prems(2)
    by (simp add: frame_eq_def w1_def)
  have i: "i < length (probes g)" "i \<notin> set is" using Cons.prems(4,5) by auto
  have ih: "rnd w' = rnd w3 \<and> get_grid w' = Inr (g'\<lparr>probes := map (\<lambda>k. if k \<in> set is
        then baked_probe svc shf g' (probes g' ! k) else probes g' ! k) [0..<length (probes g')]\<rparr>)"
    using Cons.IH [OF rest _ gw3] Cons.prems(4,5) r3 Cons.prems(2) by (simp add: g'_def)
  show ?case
    using ih r3 i unfolding g'_def
    by (auto simp: nth_list_update intro!: map_cong)
qed

lemma render_probes_loop:
  "program (gls w) = Some ''probe'' \<Longrightarrow>
   \<exists>ds. draws (trace (run (concat (map (probe_body cam) ps)) w)) = draws (trace w) @ ds \<and>
     length ds = length ps \<and>
     (\<forall>k<length ds. fst (ds ! k) = PSphere \<and>
        draw_uniform (snd (ds ! k)) ''u_model'' = Some (UMat (model (ps ! k))) \<and>
        draw_uniform (snd (ds ! k)) ''u_coeffs'' = Some (UFloatArr (p_sh (ps ! k))))"
proof (induction ps arbitrary: w)
  case Nil
  then show ?case by simp
next
  case (Cons p ps)
  define w1 where "w1 = run (probe_body cam p) w"
  have e: "run (concat (map (probe_body cam) (p # ps))) w = run (concat (map (probe_body cam) ps)) w1"
    by (simp only: w1_def list.map concat.simps run_append)
  define g where "g = gls (run (butlast (probe_body cam p)) w)"
  have w1: "program (gls w1) = Some ''probe''" "draws (trace w1) = draws (trace w) @ [(PSphere, g)]"
    "draw_uniform g ''u_model'' = Some (UMat (model p))"
    "draw_uniform g ''u_coeffs'' = Some (UFloatArr (p_sh p))"
    using Cons.prems by (simp_all add: w1_def g_def probe_body_def gl_ops_defs draw_def draw_uniform_def)
  obtain ds where ds: "draws (trace (run (concat (map (probe_body cam) ps)) w1)) = draws (trace w1) @ ds"
    "length ds = length ps"
    "\<forall>k<length ds. fst (ds ! k) = PSphere \<and>
        draw_uniform (snd (ds ! k)) ''u_model'' = Some (UMat (model (ps ! k))) \<and>
        draw_uniform (snd (ds ! k)) ''u_coeffs'' = Some (UFloatArr (p_sh (ps ! k)))"
    using Cons.IH [OF w1(1)] by blast
  show ?case
    apply (rule exI [of _ "(PSphere, g) # ds"])
    using ds w1 unfolding e by (auto simp: nth_Cons')
qed

text \<open>C32: a successful updateProbes leaves in the scene the grid with its inverse model
  updated and every probe moved to its grid position and given the coefficients computed at
  that position, and a probe texture with at most one row per probe.\<close>
theorem update_probes_bakes:
  assumes "update_probes svc c0 shf w = Inr w'" and "get_grid w = Inr g0"
  shows "get_grid w' = Inr ((update_grid svc g0)\<lparr>probes := map (baked_probe svc shf (update_grid svc g0)) (probes g0)\<rparr>) \<and>
    (\<exists>rows. probes_texture (rnd w') = Some rows \<and> rows \<le> length (probes g0))"
proof -
  obtain gi where gi: "grid (rnd w) = Some gi"
    using assms(2) by (cases "grid (rnd w)") (auto simp: get_grid_def)
  define g where "g = update_grid svc g0"
  define w1 where "w1 = put_grid gi g w"
  define w2 where "w2 = (if probes_texture (rnd w1) = None
                    then w1\<lparr>rnd := (rnd w1)\<lparr>probes_texture := Some (length (probes g))\<rparr>\<rparr> else w1)"
  obtain w3 where loop: "probe_loop svc c0 shf gi [0..<length (probes g)] w2 = Inr w3"
    and fin: "(case probes_texture (rnd w3) of
                 Some rows \<Rightarrow> if length (probes g) < rows then Inl (ArrayOverflow rows) else Inr w3
               | None \<Rightarrow> Inr w3) = Inr w'"
    using assms gi unfolding update_probes_def g_def w1_def w2_def by (auto simp: ebind_Inr_iff Let_def)
  have g1: "get_grid w1 = Inr g" unfolding w1_def by (rule get_grid_put_grid [OF assms(2) gi])
  have g2: "get_grid w2 = Inr g" "grid (rnd w2) = Some gi"
    using g1 gi by (auto simp: w2_def w1_def get_grid_def)
  have t2: "\<exists>rows. probes_texture (rnd w2) = Some rows" by (auto simp: w2_def)
  note spec = probe_loop_spec [OF loop g2(2) g2(1)]
  have "get_grid w3 = Inr (g\<lparr>probes := map (baked_probe svc shf g) (probes g)\<rparr>)" "rnd w3 = rnd w2"
  proof -
    have m: "map (\<lambda>k. if k \<in> set [0..<length (probes g)] then baked_probe svc shf g (probes g ! k)
                    else probes g ! k) [0..<length (probes g)] = map (baked_probe svc shf g) (probes g)"
      by (rule nth_equalityI) auto
    show "get_grid w3 = Inr (g\<lparr>probes := map (baked_probe svc shf g) (probes g)\<rparr>)" "rnd w3 = rnd w2"
      using spec m by simp_all
  qed
  moreover have "w' = w3" "\<exists>rows. probes_texture (rnd w3) = Some rows \<and> rows \<le> length (probes g)"
    using fin t2 calculation(2) by (auto split: option.splits if_splits)
  ultimately show ?thesis by (simp add: g_def update_grid_def)
qed

text \<open>renderProbes draws one sphere per probe of the grid, in order, each with that probe's
  model matrix and its spherical-harmonics coefficients.\<close>
theorem render_probes_spheres:
  assumes "render_probes cam w = Inr w'" and "get_grid w = Inr g"
  shows "\<exists>ds. draws (trace w') = draws (trace w) @ ds \<and> length ds = length (probes g) \<and>
    (\<forall>k<length ds. fst (ds ! k) = PSphere \<and>
       draw_uniform (snd (ds ! k)) ''u_model'' = Some (UMat (model (probes g ! k))) \<and>
       draw_uniform (snd (ds ! k)) ''u_coeffs'' = Some (UFloatArr (p_sh (probes g ! k))))"
proof -
  obtain gi where gi: "grid (rnd w) = Some gi"
    using assms(2) by (cases "grid (rnd w)") (auto simp: get_grid_def)
  let ?w0 = "run [gl_cull True, gl_blend False, gl_depth_test True, enable_shader ''probe''] w"
  have w': "w' = run (concat (map (probe_body cam) (probes g))) ?w0"
    using assms gi unfolding render_probes_def probe_body_def by (auto split: if_splits)
  have "program (gls ?w0) = Some ''probe''" "trace ?w0 = trace w" by (simp_all add: gl_ops_defs)
  with render_probes_loop [of ?w0 cam "probes g"] show ?thesis unfolding w' by simp
qed

text \<open>C34: renderCalls changes neither the scene nor the renderer: the draw-call list and the
  light list are read, never written, by the forward pass.\<close>
theorem render_calls_read_only:
  assumes "render_calls svc cam pl cs w = Inr w'"
  shows "w_scene w' = w_scene w \<and> rnd w' = rnd w \<and> calls (rnd w') = calls (rnd w) \<and>
    lights (rnd w') = lights (rnd w)"
  using render_calls_frame [OF assms] by (simp add: frame_eq_def)

theorem grid_probe_index_roundtrip_witness:
  "length (probes (grid_configure demo_svc \<lparr>j_dim = Some (2, 1, 1), j_probe_scale = None\<rparr> demo_grid)) = 2 \<and>
   nat (p_index (probes (grid_configure demo_svc \<lparr>j_dim = Some (2, 1, 1), j_probe_scale = None\<rparr> demo_grid) ! 1)) = 1"
proof -
  have h: "j_dim \<lparr>j_dim = Some (2, 1, 1), j_probe_scale = None\<rparr> = Some (real 2, real 1, real 1)"
    by simp
  show ?thesis
    using grid_probe_index_roundtrip [OF h refl, of demo_grid demo_svc]
    by (simp add: demo_grid_def)
qed

lemma demo_grid_world_grid:
  "get_grid demo_grid_world = Inr (demo_grid\<lparr>probes := [new_grid_probe (1, 1, 1) 0 0 0]\<rparr>)"
  by (simp add: get_grid_def demo_grid_world_def demo_world_def renderer_new_def)

lemma demo_grid_world_facts:
  "grid (rnd demo_grid_world) = Some 1" "shader_ok demo_grid_world s" "trace demo_grid_world = []"
  by (simp_all add: demo_grid_world_def demo_world_def renderer_new_def)

theorem update_probes_bakes_witness:
  "\<exists>w'. update_probes demo_svc demo_camera (\<lambda>v. [1]) demo_grid_world = Inr w' \<and>
     (\<exists>g. get_grid w' = Inr g \<and> map p_sh (probes g) = [[1]])"
proof -
  have "\<exists>w'. update_probes demo_svc demo_camera (\<lambda>v. [1]) demo_grid_world = Inr w'"
    by (simp add: update_probes_def demo_grid_world_grid Let_def extract_probe_def cube_faces_def update_grid_def
        render_calls_def get_grid_def put_grid_def demo_grid_world_def demo_world_def renderer_new_def)
  then obtain w' where w': "update_probes demo_svc demo_camera (\<lambda>v. [1]) demo_grid_world = Inr w'" ..
  show ?thesis
    using update_probes_bakes [OF w' demo_grid_world_grid] w' by (simp add: baked_probe_def)
qed

theorem render_probes_spheres_witness:
  "\<exists>w'. render_probes demo_camera demo_grid_world = Inr w' \<and>
     map fst (draws (trace w')) = [PSphere]"
proof -
  have "\<exists>w'. render_probes demo_camera demo_grid_world = Inr w'"
    by (simp add: render_probes_def demo_grid_world_grid demo_grid_world_facts)
  then obtain w' where w': "render_probes demo_camera demo_grid_world = Inr w'" ..
  have t: "trace demo_grid_world = []" by (simp add: demo_grid_world_def demo_world_def)
  obtain ds where "draws (trace w') = ds" "length ds = 1" "\<forall>k<length ds. fst (ds ! k) = PSphere"
    using render_probes_spheres [OF w' demo_grid_world_grid] t by auto
  then have m: "map fst (draws (trace w')) = [PSphere]"
    by (cases ds) (auto simp: nth_Cons')
  show ?thesis by (rule exI [of _ w']) (simp add: w' m)
qed

theorem render_calls_read_only_witness:
  "\<exists>w'. render_calls demo_svc demo_camera FORWARD [demo_call 0 NO_ALPHA 1]
           (demo_lit_world MULTI [0] False) = Inr w' \<and>
     lights (rnd w') = [0]"
proof -
  have "\<exists>w'. render_calls demo_svc demo_camera FORWARD [demo_call 0 NO_ALPHA 1]
           (demo_lit_world MULTI [0] False) = Inr w'"
    by (simp add: render_calls_def demo_svc_def lit_eval)
  then obtain w' where w': "render_calls demo_svc demo_camera FORWARD [demo_call 0 NO_ALPHA 1]
           (demo_lit_world MULTI [0] False) = Inr w'" ..
  show ?thesis using render_calls_read_only [OF w'] w' by (simp add: demo_lit_world_def)
qed

end
