(* ===== verification/Deferred.thy ===== *)
theory Deferred
  imports Probes
begin

text \<open>
  The deferred pipeline of \<open>src/renderer.cpp\<close>: \<open>Renderer::renderGBuffers\<close> (geometry
  pass into four colour targets and depth, then the decal pass \<open>renderDecals\<close> on copies
  of the targets), \<open>SSAO::apply\<close>, \<open>Renderer::passDeferredUniforms\<close>, the lighting
  resolve of \<open>Renderer::renderDeferred\<close> (a full-screen quad with ambient light and the
  directional light, then \<open>renderMultiPassSphere\<close>: one light-volume sphere per light),
  the forward overlay of transparent calls, \<open>volumetricDirectional\<close> and the debug draws
  of the reflection probes (\<open>renderReflectionProbes\<close>). The random sample kernel of SSAO
  (\<open>generateSpherePoints\<close>) and texture filtering parameters are not part of the model.
\<close>

subsection \<open>Helpers\<close>

text \<open>The colour attachments of the SSAO FBO (\<open>SSAO::SSAO\<close>: the occlusion texture and
  its blurred copy).\<close>

definition fbo_attachments :: "fbo_name \<Rightarrow> tex list" where
  "fbo_attachments f =
     (case f of
        SSAOFbo \<Rightarrow> [TexSSAO 0, TexSSAO 1]
      | GBuffersFbo \<Rightarrow> [TexGBuffer 0, TexGBuffer 1, TexGBuffer 2, TexGBuffer 3, TexGBufferDepth]
      | DecalsFbo \<Rightarrow> [TexDecals 0, TexDecals 1, TexDecals 2]
      | _ \<Rightarrow> [])"

text \<open>\<open>Vector2(1.0 / w, 1.0 / h)\<close>: the inverse resolution.\<close>

definition inv_res :: "world \<Rightarrow> uval" where
  "inv_res w = UFloatArr [1 / real_of_int (win_w w), 1 / real_of_int (win_h w)]"

text \<open>The loop of \<open>renderCalls\<close> and \<open>renderGBuffers\<close> over the calls: the calls whose
  world bounding box passes the frustum test are rendered with the material.\<close>

definition draw_calls :: "services \<Rightarrow> camera \<Rightarrow> eRenderMode \<Rightarrow> render_call list \<Rightarrow> world \<Rightarrow> error + world" where
  "draw_calls svc cam pl cs w =
     fold_err (\<lambda>c w. if box_in_frustum svc cam (rc_model c) (rc_mesh c)
                    then render_mesh_with_material cam pl c w else Inr w) cs w"

subsection \<open>Geometry and decal passes\<close>

text \<open>\<open>Renderer::renderDecals\<close>: a cube per decal entity, with the decal's model and
  inverse model; a decal without an albedo texture hands a null texture to the shader.\<close>

text \<open>The body of its loop over the scene's entities.\<close>

definition decal_step :: "services \<Rightarrow> entity \<Rightarrow> world \<Rightarrow> error + world" where
  "decal_step svc e w =
     (case e of
        EDecal d \<Rightarrow>
          (case albedo d of
             None \<Rightarrow> Inl (NullDeref ''albedo'')
           | Some a \<Rightarrow> Inr (run [set_uniform ''decals'' ''u_model'' (UMat (model d)),
                set_uniform ''decals'' ''u_iModel'' (UMat (inverse svc (model d))),
                set_uniform ''decals'' ''u_decal_texture'' (UTex (TexNamed (''data/'' @ a)) 4),
                draw PCube] w))
      | _ \<Rightarrow> Inr w)"

definition render_decals :: "services \<Rightarrow> camera \<Rightarrow> world \<Rightarrow> error + world" where
  "render_decals svc cam w =
     (if \<not> shader_ok w ''decals'' then Inl (NullDeref ''decals'')
      else fold_err (decal_step svc) (entities (w_scene w))
           (run [enable_shader ''decals'',
                 set_uniform ''decals'' ''u_color_texture'' (UTex (TexGBuffer 0) 0),
                 set_uniform ''decals'' ''u_normal_texture'' (UTex (TexGBuffer 1) 1),
                 set_uniform ''decals'' ''u_extra_texture'' (UTex (TexGBuffer 2) 2),
                 set_uniform ''decals'' ''u_depth_texture'' (UTex TexGBufferDepth 3),
                 set_uniform ''decals'' ''u_inverse_viewprojection''
                   (UMat (inverse svc (viewprojection_matrix cam))),
                 set_uniform ''decals'' ''u_iRes'' (inv_res w),
                 set_uniform ''decals'' ''u_viewprojection'' (UMat (viewprojection_matrix cam)),
                 gl_depth_test False, gl_blend False] w))"

text \<open>The four clears of \<open>renderGBuffers\<close>: target 0 with colour and depth, then
  targets 1 to 3 with colour only, each enabled alone; the skybox is drawn between the
  first and the second clear.\<close>

definition gbuffer_clears :: "(world \<Rightarrow> world) list" where
  "gbuffer_clears =
     [gl_draw_buffers (Some [1]), gl_clear True False, gl_draw_buffers (Some [2]), gl_clear True False,
      gl_draw_buffers (Some [3]), gl_clear True False, gl_draw_buffers None]"

definition render_gbuffers :: "services \<Rightarrow> camera \<Rightarrow> render_call list \<Rightarrow> world \<Rightarrow> error + world" where
  "render_gbuffers svc cam cs w =
     (let w0 = w\<lparr>rnd := (rnd w)\<lparr>gbuffers_ready := True\<rparr>\<rparr>;
          w1 = run [bind_fbo GBuffersFbo, gl_draw_buffers (Some [0]), gl_clear True True] w0
      in ebind (case environment (w_scene w) of None \<Rightarrow> Inr w1 | Some e \<Rightarrow> render_skybox svc e cam w1)
         (\<lambda>w2. ebind (draw_calls svc cam (render_mode (rnd w)) cs (run gbuffer_clears w2))
         (\<lambda>w3. ebind (render_decals svc cam
                        (run [unbind_fbo, copy_tex (TexGBuffer 0) (TexDecals 0),
                              copy_tex (TexGBuffer 1) (TexDecals 1), copy_tex (TexGBuffer 2) (TexDecals 2),
                              bind_fbo DecalsFbo, copy_tex TexGBufferDepth TexNone] w3))
         (\<lambda>w4. Inr (run [unbind_fbo, copy_tex (TexDecals 0) (TexGBuffer 0),
                         copy_tex (TexDecals 1) (TexGBuffer 1), copy_tex (TexDecals 2) (TexGBuffer 2),
                         gl_depth_test False, gl_blend False] w4)))))"

subsection \<open>Ambient occlusion\<close>

text \<open>\<open>SSAO::apply\<close>: the occlusion quad into the SSAO FBO and, with blur on, a blur
  quad that samples the first attachment of the same FBO; the result is the texture the
  function returns.\<close>

definition ssao_apply :: "services \<Rightarrow> tex \<Rightarrow> tex \<Rightarrow> camera \<Rightarrow> world \<Rightarrow> error + (tex \<times> world)" where
  "ssao_apply svc nb db cam w =
     (let s = r_ssao (rnd w) in
      if \<not> shader_ok w ''ssao'' then Inl (NullDeref ''ssao'')
      else let w1 = run [bind_fbo SSAOFbo, enable_shader ''ssao'',
               set_uniform ''ssao'' ''u_inverse_viewprojection''
                 (UMat (inverse svc (viewprojection_matrix cam))),
               set_uniform ''ssao'' ''u_normal_texture'' (UTex nb 1),
               set_uniform ''ssao'' ''u_depth_texture'' (UTex db 4),
               set_uniform ''ssao'' ''u_iRes'' (inv_res w),
               set_uniform ''ssao'' ''u_viewprojection'' (UMat (viewprojection_matrix cam)),
               set_uniform ''ssao'' ''u_samples'' (UInt (ssao_samples s)),
               set_uniform ''ssao'' ''u_ssao_plus'' (UBool (ssao_plus s)),
               set_uniform ''ssao'' ''u_bias'' (UFloat (ssao_bias s)),
               draw PQuad] w
      in if ssao_blur s then
           (if \<not> shader_ok w ''ssao_blur'' then Inl (NullDeref ''ssao_blur'')
            else Inr (TexSSAO 1, run [enable_shader ''ssao_blur'',
                        set_uniform ''ssao_blur'' ''u_ssao'' (UTex (TexSSAO 0) 0),
                        draw PQuad, disable_shader, unbind_fbo] w1))
         else Inr (TexSSAO 0, unbind_fbo w1))"

subsection \<open>Lighting resolve\<close>

definition pass_deferred_uniforms ::
  "services \<Rightarrow> string \<Rightarrow> bool \<Rightarrow> camera \<Rightarrow> world \<Rightarrow> (world \<Rightarrow> world) list"
where
  "pass_deferred_uniforms svc sh first cam w =
     (let r = rnd w in
      [set_uniform sh ''u_color_texture'' (UTex (TexGBuffer 0) 0),
       set_uniform sh ''u_normal_texture'' (UTex (TexGBuffer 1) 1),
       set_uniform sh ''u_extra_texture'' (UTex (TexGBuffer 2) 2),
       set_uniform sh ''u_depth_texture'' (UTex TexGBufferDepth 4),
       set_uniform sh ''u_inverse_viewprojection'' (UMat (inverse svc (viewprojection_matrix cam))),
       set_uniform sh ''u_iRes'' (inv_res w)] @
      (if first then
         [set_uniform sh ''u_ambient_light'' (UVec3 (gamma3 (hdr_gamma r) (ambient_light (w_scene w)))),
          set_uniform sh ''u_emissive'' (UBool True), set_uniform sh ''u_back'' (UBool True),
          set_uniform sh ''u_ao'' (UBool (activate_ssao r)),
          set_uniform sh ''u_irr_texture'' (UTex (TexGBuffer 3) 11),
          set_uniform sh ''u_irr'' (UBool (activate_irr r))]
       else
         [set_uniform sh ''u_ambient_light'' (UVec3 vzero), set_uniform sh ''u_emissive'' (UBool False),
          set_uniform sh ''u_back'' (UBool False), set_uniform sh ''u_ao'' (UBool False)]) @
      [set_uniform sh ''u_light_eq'' (UInt (light_eq_code (light_eq r))),
       set_uniform sh ''u_camera_position'' (UVec3 (eye cam)),
       set_uniform sh ''u_gamma'' (UFloat (hdr_gamma r))])"

text \<open>The model of a light volume: the identity translated to the light and scaled by its
  \<open>max_distance\<close>.\<close>

definition light_volume :: "services \<Rightarrow> light_entity \<Rightarrow> mat4" where
  "light_volume svc l =
     scale svc (set_translation svc mat_identity (get_translation (model l)))
       (max_distance l, max_distance l, max_distance l)"

text \<open>\<open>Renderer::renderMultiPassSphere\<close>: additive blending, a sphere per light of
  \<open>lights\<close> with the light's parameters, drawn with clockwise front faces so that the back
  faces of the volume are rasterised.\<close>

text \<open>The body of its loop over \<open>lights\<close>.\<close>

definition sphere_light :: "services \<Rightarrow> string \<Rightarrow> camera \<Rightarrow> real \<Rightarrow> nat \<Rightarrow> world \<Rightarrow> error + world" where
  "sphere_light svc sh cam g i w =
     (case get_light w i of
        None \<Rightarrow> Inl (BadCast i)
      | Some l \<Rightarrow>
          ebind (upload_light_params i l True g sh
                  (run [set_uniform sh ''u_viewprojection'' (UMat (viewprojection_matrix cam)),
                        set_uniform sh ''u_model'' (UMat (light_volume svc l))] w))
            (\<lambda>w'. Inr (run [gl_front_face GL_CW, draw PSphere] w')))"

definition render_multi_pass_sphere :: "services \<Rightarrow> string \<Rightarrow> camera \<Rightarrow> world \<Rightarrow> error + world" where
  "render_multi_pass_sphere svc sh cam w =
     (let r = rnd w in
      ebind (fold_err (sphere_light svc sh cam (hdr_gamma r)) (lights r)
               (run [gl_blend True, gl_blend_func GL_ONE GL_ONE, gl_cull True,
                     set_uniform sh ''u_ambient_light'' (UVec3 vzero),
                     set_uniform sh ''u_emissive'' (UBool False), set_uniform sh ''u_back'' (UBool False),
                     set_uniform sh ''u_light_eq'' (UInt (light_eq_code (light_eq r))),
                     set_uniform sh ''u_camera_position'' (UVec3 (eye cam)),
                     set_uniform sh ''u_pcf'' (UBool (pcf r))] w))
        (\<lambda>w'. Inr (run [disable_shader, gl_depth_test False, gl_blend False, gl_front_face GL_CCW] w')))"

text \<open>\<open>Renderer::volumetricDirectional\<close>: a scattering quad for the directional light,
  then one for every point light; it dereferences \<open>directional_light\<close> unchecked.\<close>

definition volumetric_directional :: "services \<Rightarrow> camera \<Rightarrow> world \<Rightarrow> error + world" where
  "volumetric_directional svc cam w =
     (let r = rnd w in
      if \<not> shader_ok w ''volume'' then Inl (NullDeref ''volume'')
      else case directional_light r of
        None \<Rightarrow> Inl (NullDeref ''directional_light'')
      | Some d \<Rightarrow>
          (case get_light w d of
             None \<Rightarrow> Inl (BadCast d)
           | Some dl \<Rightarrow>
               ebind (upload_light_params d dl True (hdr_gamma r) ''volume''
                        (run [enable_shader ''volume'',
                              set_uniform ''volume'' ''u_camera_position'' (UVec3 (eye cam)),
                              set_uniform ''volume'' ''u_inverse_viewprojection''
                                (UMat (inverse svc (viewprojection_matrix cam))),
                              set_uniform ''volume'' ''u_air_density'' (UFloat (air_density r)),
                              set_uniform ''volume'' ''u_depth_texture'' (UTex TexIllumDepth 0),
                              set_uniform ''volume'' ''u_noise_texture''
                                (UTex (TexNamed ''data/textures/noise.png'') 1)] w))
                 (\<lambda>w1. fold_err (\<lambda>i w. case get_light w i of
                          None \<Rightarrow> Inl (BadCast i)
                        | Some l \<Rightarrow>
                            if light_type l = DIRECTIONAL \<or> light_type l = SPOT then Inr w
                            else ebind (upload_light_params i l True (hdr_gamma r) ''volume'' w)
                                   (\<lambda>w'. Inr (draw PQuad w')))
                        (lights r)
                        (run [gl_blend True, gl_blend_func GL_ONE GL_ONE_MINUS_SRC_ALPHA,
                              gl_depth_test False, draw PQuad] w1))))"

text \<open>The reflection probe behind an index of \<open>reflection_probes\<close>.\<close>

definition get_refl_probe :: "world \<Rightarrow> nat \<Rightarrow> error + reflection_probe" where
  "get_refl_probe w i =
     (if i < length (entities (w_scene w))
      then (case entities (w_scene w) ! i of EReflProbe p \<Rightarrow> Inr p | _ \<Rightarrow> Inl (BadCast i))
      else Inl (BadCast i))"

text \<open>\<open>Renderer::renderReflectionProbes\<close>: a sphere of radius 10 per reflection probe,
  textured with its cubemap.\<close>

definition render_reflection_probes :: "services \<Rightarrow> camera \<Rightarrow> world \<Rightarrow> error + world" where
  "render_reflection_probes svc cam w =
     (if \<not> shader_ok w ''reflection_probe'' then Inl (NullDeref ''reflection_probe'')
      else ebind (fold_err (\<lambda>i w. ebind (get_refl_probe w i) (\<lambda>p.
                      Inr (run [set_uniform ''reflection_probe'' ''u_model'' (UMat (scale svc (model p) (10, 10, 10))),
                                set_uniform ''reflection_probe'' ''u_texture'' (UTex (TexCubemap i) 0),
                                draw PSphere] w)))
                   (reflection_probes (rnd w))
                   (run [gl_blend False, gl_cull True, gl_depth_test False, enable_shader ''reflection_probe'',
                         set_uniform ''reflection_probe'' ''u_viewprojection'' (UMat (viewprojection_matrix cam)),
                         set_uniform ''reflection_probe'' ''u_camera_position'' (UVec3 (eye cam))] w))
             (\<lambda>w'. Inr (run [gl_cull True, gl_depth_test True] w')))"

text \<open>The lighting resolve of \<open>Renderer::renderDeferred\<close>: into the illumination FBO,
  the full-screen quad of \<open>deferred_multi\<close> with ambient light, occlusion and the
  directional light (or none), then the light volumes of \<open>deferred_ws\<close>.\<close>

definition deferred_resolve :: "services \<Rightarrow> camera \<Rightarrow> tex option \<Rightarrow> world \<Rightarrow> error + world" where
  "deferred_resolve svc cam ao w =
     (if \<not> shader_ok w ''deferred_multi'' then Inl (NullDeref ''deferred_multi'')
      else let r = rnd w;
               w1 = run ([bind_fbo IlluminationFbo, copy_tex TexGBufferDepth TexNone, gl_clear True False,
                          enable_shader ''deferred_multi''] @
                         pass_deferred_uniforms svc ''deferred_multi'' True cam w @
                         (case ao of
                            None \<Rightarrow> []
                          | Some t \<Rightarrow> [set_uniform ''deferred_multi'' ''u_ao_texture'' (UTex t 5),
                                       set_uniform ''deferred_multi'' ''u_ao_factor''
                                         (UFloat (ssao_intensity (r_ssao r)))])) w
      in ebind (case directional_light r of
                  None \<Rightarrow> Inr (set_uniform ''deferred_multi'' ''u_light_eq'' (UInt (light_eq_code NO_EQ)) w1)
                | Some d \<Rightarrow>
                    (case get_light w1 d of
                       None \<Rightarrow> Inl (BadCast d)
                     | Some dl \<Rightarrow> upload_light_params d dl True (hdr_gamma r) ''deferred_multi''
                                   (set_uniform ''deferred_multi'' ''u_pcf'' (UBool (pcf r)) w1)))
         (\<lambda>w2. let w3 = run [gl_depth_test False, gl_blend False, draw PQuad, disable_shader] w2 in
          if \<not> shader_ok w3 ''deferred_ws'' then Inl (NullDeref ''deferred_ws'')
          else render_multi_pass_sphere svc ''deferred_ws'' cam
                 (run (enable_shader ''deferred_ws'' # pass_deferred_uniforms svc ''deferred_ws'' False cam w3) w3)))"

text \<open>The alpha forward overlay: with dithering off, the directional light is pushed onto
  \<open>lights\<close> (and stays there) and the calls that are not opaque are drawn again with the
  forward multi-pass shader.\<close>

definition alpha_overlay :: "services \<Rightarrow> camera \<Rightarrow> render_call list \<Rightarrow> world \<Rightarrow> error + world" where
  "alpha_overlay svc cam cs w =
     (let r = rnd w in
      if dithering r then Inr w
      else fold_err (\<lambda>c w. if alpha_mode (rc_material c) = NO_ALPHA then Inr w
                           else if box_in_frustum svc cam (rc_model c) (rc_mesh c)
                           then render_mesh_with_material cam DEFERRED_ALPHA c w else Inr w) cs
             (case directional_light r of
                Some d \<Rightarrow> w\<lparr>rnd := r\<lparr>lights := lights r @ [d]\<rparr>\<rparr>
              | None \<Rightarrow> w))"

text \<open>The optional passes at the end of \<open>renderDeferred\<close> and the unbinding of the
  illumination FBO.\<close>

definition deferred_extras :: "services \<Rightarrow> camera \<Rightarrow> world \<Rightarrow> error + world" where
  "deferred_extras svc cam w =
     (let r = rnd w in
      ebind (if volumetric r then volumetric_directional svc cam w else Inr w) (\<lambda>w1.
      ebind (if show_probes r then render_probes cam w1 else Inr w1) (\<lambda>w2.
      ebind (if show_reflection_probes r then render_reflection_probes svc cam w2 else Inr w2) (\<lambda>w3.
      Inr (run [gl_blend False, gl_depth_test False, unbind_fbo] w3)))))"

text \<open>\<open>Renderer::renderDeferred\<close>: geometry and decals, optional occlusion, resolve,
  overlay, extras.\<close>

definition render_deferred :: "services \<Rightarrow> camera \<Rightarrow> render_call list \<Rightarrow> world \<Rightarrow> error + world" where
  "render_deferred svc cam cs w =
     ebind (render_gbuffers svc cam cs w) (\<lambda>w1.
     ebind (if activate_ssao (rnd w1)
            then ebind (ssao_apply svc (TexGBuffer 1) TexGBufferDepth cam w1) (\<lambda>(t, w'). Inr (Some t, w'))
            else Inr (None, w1)) (\<lambda>(ao, w2).
     ebind (deferred_resolve svc cam ao w2) (\<lambda>w3.
     ebind (alpha_overlay svc cam cs w3) (deferred_extras svc cam))))"

subsection \<open>Proof-level definitions and fixtures\<close>

text \<open>An event issued into FBO \<open>f\<close> with the draw buffers \<open>bs\<close>. Copies name their
  textures and carry no target; attaching a texture to an FBO or regenerating a texture's
  mipmaps changes what a target holds, so no pass that keeps its target issues one.\<close>

definition ev_in :: "fbo_name option \<Rightarrow> (fbo_name \<Rightarrow> nat list option) \<Rightarrow> gl_event \<Rightarrow> bool" where
  "ev_in f bs e = (case e of
      Draw _ g \<Rightarrow> bound_fbo g = f \<and> fbo_buffers g = bs
    | Clear _ _ g \<Rightarrow> bound_fbo g = f \<and> fbo_buffers g = bs
    | Copy _ _ \<Rightarrow> True
    | AttachTex _ _ _ \<Rightarrow> False
    | GenMipmaps _ \<Rightarrow> False)"

text \<open>A pass keeps its render target: it neither rebinds the FBO nor changes its draw
  buffers, and every event it issues goes to the target it started in.\<close>

definition keeps_target :: "world \<Rightarrow> world \<Rightarrow> bool" where
  "keeps_target w w' \<longleftrightarrow> bound_fbo (gls w') = bound_fbo (gls w) \<and>
     fbo_buffers (gls w') = fbo_buffers (gls w) \<and>
     (\<exists>t. trace w' = trace w @ t \<and> list_all (ev_in (bound_fbo (gls w)) (fbo_buffers (gls w))) t)"

text \<open>The state of every light-volume draw of \<open>renderMultiPassSphere\<close>.\<close>

definition sphere_state :: "string \<Rightarrow> gl \<Rightarrow> bool" where
  "sphere_state sh g \<longleftrightarrow> program g = Some sh \<and> blend g \<and> blend_src g = GL_ONE \<and>
     blend_dst g = GL_ONE \<and> cull_face g \<and> uniforms g sh ''u_ambient_light'' = Some (UVec3 vzero)"

text \<open>A decal with a texture, and the one-light world of \<open>Shadows\<close> in the deferred
  pipeline with that decal, a chosen directional light and volumetric switch.\<close>

definition demo_decal :: decal_entity where
  "demo_decal = \<lparr>name = ''decal'', model = mat_identity, visible = True, albedo = Some ''decal.png''\<rparr>"

definition demo_deferred_world :: "nat option \<Rightarrow> bool \<Rightarrow> world" where
  "demo_deferred_world dl vol =
     demo_world\<lparr>w_scene := (w_scene demo_world)\<lparr>entities := [ELight demo_dir_light, EDecal demo_decal]\<rparr>,
                rnd := (rnd demo_world)\<lparr>directional_light := dl, volumetric := vol\<rparr>\<rparr>"

subsection \<open>Lighting passes keep their render target\<close>

lemma run_rel:
  assumes refl: "\<And>s. R s s" and trans: "\<And>a b c. R a b \<Longrightarrow> R b c \<Longrightarrow> R a c"
    and step: "\<And>f s. f \<in> set fs \<Longrightarrow> R s (f s)"
  shows "R s (run fs s)"
  using step by (induction fs arbitrary: s) (auto intro: trans refl)

lemma keeps_target_refl [simp]: "keeps_target w w"
  by (auto simp: keeps_target_def)

lemma keeps_target_trans: "keeps_target w w1 \<Longrightarrow> keeps_target w1 w2 \<Longrightarrow> keeps_target w w2"
  unfolding keeps_target_def by (metis (no_types, lifting) append_assoc list_all_append)

lemma keeps_target_uniforms_only: "uniforms_only w w' \<Longrightarrow> keeps_target w w'"
  by (auto simp: keeps_target_def uniforms_only_def)

lemma keeps_target_gl_ops [simp]:
  "keeps_target w (set_uniform sh u v w)" "keeps_target w (enable_shader sh w)"
  "keeps_target w (disable_shader w)" "keeps_target w (gl_blend b w)"
  "keeps_target w (gl_blend_func bs bd w)" "keeps_target w (gl_depth_test b w)"
  "keeps_target w (gl_depth_func f w)" "keeps_target w (gl_cull b w)"
  "keeps_target w (gl_front_face fo w)" "keeps_target w (gl_color_mask b w)"
  "keeps_target w (gl_scissor_test b w)" "keeps_target w (gl_scissor rr w)"
  "keeps_target w (gl_viewport rr w)" "keeps_target w (draw p w)" "keeps_target w (gl_clear cc cd w)"
  "keeps_target w (copy_tex ta tb w)"
  by (auto simp: keeps_target_def gl_ops_defs draw_def gl_clear_def copy_tex_def ev_in_def)

lemma keeps_target_opsI:
  "keeps_target w w1 \<Longrightarrow> keeps_target w (set_uniform sh u v w1)"
  "keeps_target w w1 \<Longrightarrow> keeps_target w (enable_shader sh w1)"
  "keeps_target w w1 \<Longrightarrow> keeps_target w (disable_shader w1)"
  "keeps_target w w1 \<Longrightarrow> keeps_target w (gl_blend b w1)"
  "keeps_target w w1 \<Longrightarrow> keeps_target w (gl_blend_func bs bd w1)"
  "keeps_target w w1 \<Longrightarrow> keeps_target w (gl_depth_test b w1)"
  "keeps_target w w1 \<Longrightarrow> keeps_target w (gl_depth_func f w1)"
  "keeps_target w w1 \<Longrightarrow> keeps_target w (gl_cull b w1)"
  "keeps_target w w1 \<Longrightarrow> keeps_target w (gl_front_face fo w1)"
  "keeps_target w w1 \<Longrightarrow> keeps_target w (gl_color_mask b w1)"
  "keeps_target w w1 \<Longrightarrow> keeps_target w (gl_scissor_test b w1)"
  "keeps_target w w1 \<Longrightarrow> keeps_target w (gl_scissor rr w1)"
  "keeps_target w w1 \<Longrightarrow> keeps_target w (gl_viewport rr w1)"
  "keeps_target w w1 \<Longrightarrow> keeps_target w (draw p w1)"
  "keeps_target w w1 \<Longrightarrow> keeps_target w (gl_clear cc cd w1)"
  "keeps_target w w1 \<Longrightarrow> keeps_target w (copy_tex ta tb w1)"
  by (meson keeps_target_trans keeps_target_gl_ops)+

lemma keeps_target_run:
  "(\<And>f w. f \<in> set fs \<Longrightarrow> keeps_target w (f w)) \<Longrightarrow> keeps_target w (run fs w)"
  by (rule run_rel) (auto intro: keeps_target_trans)

lemma keeps_target_fold_err:
  "(\<And>x w w'. x \<in> set xs \<Longrightarrow> f x w = Inr w' \<Longrightarrow> keeps_target w w') \<Longrightarrow>
   fold_err f xs w = Inr w' \<Longrightarrow> keeps_target w w'"
  by (rule fold_err_rel [where R = keeps_target]) (auto intro: keeps_target_trans)

lemma irr_uniforms_target: "irr_uniforms sh w = Inr w' \<Longrightarrow> keeps_target w w'"
  using keeps_target_uniforms_only irr_uniforms_Inr by blast

lemma multi_pass_lights_target:
  "multi_pass_lights me ma sh pl k is w = Inr w' \<Longrightarrow> keeps_target w w'"
proof (induction me ma sh pl k "is" w arbitrary: w' rule: multi_pass_lights.induct)
  case (1 me ma sh pl k w)
  then show ?case by simp
next
  case (2 me ma sh pl k i "is" w)
  obtain l w1 where l: "get_light w i = Some l"
    and up: "upload_light_params i l True (hdr_gamma (rnd w)) sh
               (if k = 0 then w else run (later_pass ma sh pl) w) = Inr w1"
    and rest: "multi_pass_lights me ma sh pl (Suc k) is (draw (PMesh me) w1) = Inr w'"
    using "2.prems" by (auto simp: ebind_Inr_iff split: option.splits)
  have "keeps_target w (if k = 0 then w else run (later_pass ma sh pl) w)"
    by (auto simp: later_pass_def intro!: keeps_target_opsI)
  then have "keeps_target w (draw (PMesh me) w1)"
    using keeps_target_uniforms_only [OF conjunct1 [OF upload_light_params_Inr [OF up]]]
    by (meson keeps_target_gl_ops(14) keeps_target_trans)
  with "2.IH" [OF l rest] show ?case by (rule keeps_target_trans [rotated])
qed

lemma render_single_pass_target:
  "render_single_pass sh me w = Inr w' \<Longrightarrow> keeps_target w w'"
  by (auto simp: render_single_pass_def Let_def ebind_Inr_iff split: if_splits sum.splits
      intro!: keeps_target_opsI intro: irr_uniforms_target)

lemma render_multi_pass_target:
  assumes "render_multi_pass me ma sh pl w = Inr w'"
  shows "keeps_target w w'"
proof -
  obtain w1 where i: "irr_uniforms sh (run [gl_depth_test True, gl_depth_func GL_LEQUAL,
        set_uniform sh ''u_pcf'' (UBool (pcf (rnd w)))] w) = Inr w1"
    and m: "multi_pass_lights me ma sh pl 0 (lights (rnd w))
        (set_uniform sh ''u_irr'' (UBool (activate_irr (rnd w))) w1) = Inr w'"
    using assms by (auto simp: render_multi_pass_def ebind_Inr_iff)
  have "keeps_target w (run [gl_depth_test True, gl_depth_func GL_LEQUAL,
        set_uniform sh ''u_pcf'' (UBool (pcf (rnd w)))] w)"
    by (rule keeps_target_run) auto
  then have "keeps_target w (set_uniform sh ''u_irr'' (UBool (activate_irr (rnd w))) w1)"
    using irr_uniforms_target [OF i] by (blast intro: keeps_target_trans keeps_target_opsI)
  then show ?thesis
    using multi_pass_lights_target [OF m] by (blast intro: keeps_target_trans)
qed

lemma light_pass_target:
  assumes "light_pass pl c sh w = Inr w'"
  shows "keeps_target w w'"
proof (cases "pl = FORWARD \<and> light_mode (rnd w) = MULTI \<or> pl = DEFERRED_ALPHA")
  case True
  have "keeps_target w (run (blend_setup (rc_material c)) w)"
    by (auto simp: blend_setup_def intro!: keeps_target_opsI)
  with True show ?thesis using assms render_multi_pass_target
    by (auto simp: light_pass_def Let_def split: if_splits intro!: keeps_target_opsI
        intro: keeps_target_trans)
next
  case F: False
  show ?thesis
  proof (cases "pl = FORWARD \<and> light_mode (rnd w) = SINGLE")
    case True
    have "keeps_target w (run (if alpha_mode (rc_material c) = BLEND
        then [gl_blend True, gl_blend_func GL_SRC_ALPHA GL_ONE_MINUS_SRC_ALPHA] else []) w)"
      by (rule keeps_target_run) (auto split: if_splits)
    moreover have "render_single_pass sh (rc_mesh c) (run (if alpha_mode (rc_material c) = BLEND
        then [gl_blend True, gl_blend_func GL_SRC_ALPHA GL_ONE_MINUS_SRC_ALPHA] else []) w) = Inr w'"
      using assms F True by (simp add: light_pass_def Let_def del: run_simps)
    ultimately show ?thesis by (blast intro: keeps_target_trans render_single_pass_target)
  next
    case False
    obtain a where a: "irr_uniforms sh w = Inr a"
      and w': "w' = run (set_uniform sh ''u_irr'' (UBool (probes_texture (rnd w) \<noteq> None)) #
          (if dithering (rnd w) \<or> alpha_mode (rc_material c) = NO_ALPHA
           then [draw (PMesh (rc_mesh c))] else [])) a"
      using assms F False by (auto simp: light_pass_def Let_def ebind_Inr_iff simp del: run_simps)
    have "keeps_target a w'" unfolding w' by (rule keeps_target_run) (auto split: if_splits)
    then show ?thesis using irr_uniforms_target [OF a] by (blast intro: keeps_target_trans)
  qed
qed

lemma render_mesh_target:
  assumes ok: "render_mesh_with_material cam pl c w = Inr w'"
  shows "keeps_target w w'"
proof (cases "num_vertices (rc_mesh c) \<noteq> 0 \<and> choose_shader pl (light_mode (rnd w)) \<noteq> None \<and>
              shader_ok w (the (choose_shader pl (light_mode (rnd w))))")
  case True
  then obtain sh where ch: "choose_shader pl (light_mode (rnd w)) = Some sh" "shader_ok w sh"
    "num_vertices (rc_mesh c) \<noteq> 0" by auto
  define w1 where "w1 = gl_cull (\<not> two_sided (rc_material c)) w"
  obtain w2 w3 where r: "reflection_uniforms c sh (run (material_uniforms cam pl c sh w1)
        (enable_shader sh w1)) = Inr w2"
    and lp: "light_pass pl c sh w2 = Inr w3"
    and fin: "w' = run [disable_shader, gl_blend False, gl_depth_func GL_LESS] w3"
    using ok ch unfolding render_mesh_with_material_def by (auto simp: Let_def w1_def ebind_Inr_iff)
  have "keeps_target w (enable_shader sh w1)"
    unfolding w1_def by (blast intro: keeps_target_opsI keeps_target_refl)
  moreover have "keeps_target (enable_shader sh w1)
      (run (material_uniforms cam pl c sh w1) (enable_shader sh w1))"
    by (rule keeps_target_uniforms_only [OF material_uniforms_only])
  moreover have "keeps_target (run (material_uniforms cam pl c sh w1) (enable_shader sh w1)) w2"
    using reflection_uniforms_Inr [OF r] keeps_target_uniforms_only by blast
  moreover have "keeps_target w2 w3" by (rule light_pass_target [OF lp])
  moreover have "keeps_target w3 w'" unfolding fin by (rule keeps_target_run) auto
  ultimately show ?thesis by (blast intro: keeps_target_trans)
next
  case False
  with ok show ?thesis
    by (auto simp: render_mesh_with_material_def Let_def split: option.splits if_splits)
qed

lemma draws_ev_in:
  "list_all (ev_in f bs) t \<Longrightarrow> \<forall>d\<in>set (draws t). bound_fbo (snd d) = f \<and> fbo_buffers (snd d) = bs"
  by (induction t rule: draws.induct) (auto simp: ev_in_def)

lemma keeps_target_draws:
  assumes "keeps_target w w'"
  shows "\<exists>ds. draws (trace w') = draws (trace w) @ ds \<and>
    (\<forall>d\<in>set ds. bound_fbo (snd d) = bound_fbo (gls w) \<and> fbo_buffers (snd d) = fbo_buffers (gls w))"
proof -
  obtain t where "trace w' = trace w @ t" "list_all (ev_in (bound_fbo (gls w)) (fbo_buffers (gls w))) t"
    using assms by (auto simp: keeps_target_def)
  then show ?thesis using draws_ev_in by auto
qed

subsection \<open>Passes that leave the scene and the renderer alone\<close>

lemma frame_eq_more [simp]:
  "frame_eq w (copy_tex ta tb w)" "frame_eq w (gl_draw_buffers bs w)"
  by (simp_all add: frame_eq_def)

lemma frame_eq_fold_err:
  "(\<And>x w w'. x \<in> set xs \<Longrightarrow> f x w = Inr w' \<Longrightarrow> frame_eq w w') \<Longrightarrow>
   fold_err f xs w = Inr w' \<Longrightarrow> frame_eq w w'"
  by (rule fold_err_rel [where R = frame_eq]) (auto intro: frame_eq_trans)

lemma frame_eq_run_after:
  assumes "frame_eq w w1" "\<And>f w. f \<in> set fs \<Longrightarrow> frame_eq w (f w)"
  shows "frame_eq w (run fs w1)"
proof -
  have "frame_eq w1 (run fs w1)" by (rule frame_eq_run) (rule assms(2))
  with assms(1) show ?thesis by (rule frame_eq_trans)
qed

lemma frame_eq_upload: "upload_light_params i l lin g sh w = Inr w' \<Longrightarrow> frame_eq w w'"
  using frame_eq_uniforms_only upload_light_params_Inr by blast

lemma material_uniforms_shader_ok [simp]:
  "shader_ok (run (material_uniforms cam pl c sh w) w0) = shader_ok w0"
  using uniforms_only_D(4) [OF material_uniforms_only] .

lemma draw_calls_frame:
  "draw_calls svc cam pl cs w = Inr w' \<Longrightarrow> frame_eq w w' \<and> keeps_target w w'"
  unfolding draw_calls_def
  by (intro conjI; erule frame_eq_fold_err [rotated] keeps_target_fold_err [rotated])
     (auto split: if_splits intro: render_mesh_frame render_mesh_target)

lemma render_skybox_frame:
  "render_skybox svc e cam w = Inr w' \<Longrightarrow> frame_eq w w'"
  by (auto simp: render_skybox_def frame_eq_def split: if_splits)

lemma ssao_apply_frame:
  "ssao_apply svc nb db cam w = Inr (t, w') \<Longrightarrow> frame_eq w w'"
  by (auto simp: ssao_apply_def Let_def frame_eq_def split: if_splits)

lemma render_probes_frame: "render_probes cam w = Inr w' \<Longrightarrow> frame_eq w w'"
  unfolding render_probes_def
  by (auto simp: ebind_Inr_iff simp del: run_simps split: option.splits if_splits
      intro!: frame_eq_run)

lemma volumetric_frame:
  assumes "volumetric_directional svc cam w = Inr w'"
  shows "frame_eq w w'"
proof -
  have loop: "fold_err (\<lambda>i w. case get_light w i of
                          None \<Rightarrow> Inl (BadCast i)
                        | Some l \<Rightarrow>
                            if light_type l = DIRECTIONAL \<or> light_type l = SPOT then Inr w
                            else ebind (upload_light_params i l True g ''volume'' w)
                                   (\<lambda>w'. Inr (draw PQuad w'))) is w0 = Inr w1 \<Longrightarrow> frame_eq w0 w1"
    for g "is" w0 w1
    by (erule frame_eq_fold_err [rotated])
       (auto simp: ebind_Inr_iff split: option.splits if_splits dest!: frame_eq_upload
         intro: frame_eq_trans)
  show ?thesis
    using assms unfolding volumetric_directional_def Let_def
    by (auto simp: ebind_Inr_iff split: if_splits option.splits dest!: frame_eq_upload loop)
       (auto simp: frame_eq_def)
qed

lemma render_reflection_probes_frame:
  assumes "render_reflection_probes svc cam w = Inr w'"
  shows "frame_eq w w'"
proof -
  have loop: "fold_err (\<lambda>i w. ebind (get_refl_probe w i) (\<lambda>p.
                      Inr (run [set_uniform ''reflection_probe'' ''u_model'' (UMat (scale svc (model p) (10, 10, 10))),
                                set_uniform ''reflection_probe'' ''u_texture'' (UTex (TexCubemap i) 0),
                                draw PSphere] w))) is w0 = Inr w1 \<Longrightarrow> frame_eq w0 w1" for "is" w0 w1
    by (erule frame_eq_fold_err [rotated]) (auto simp: ebind_Inr_iff frame_eq_def)
  show ?thesis
    using assms unfolding render_reflection_probes_def
    by (auto simp: ebind_Inr_iff simp del: run_simps split: if_splits dest!: loop)
       (auto simp: frame_eq_def)
qed

lemma deferred_extras_frame:
  "deferred_extras svc cam w = Inr w' \<Longrightarrow> frame_eq w w'"
  unfolding deferred_extras_def Let_def
  by (auto simp: ebind_Inr_iff split: if_splits
      dest!: volumetric_frame render_probes_frame render_reflection_probes_frame)
     (auto simp: frame_eq_def)

lemma frame_eq_pass_deferred_uniforms:
  "frame_eq w0 (run (pass_deferred_uniforms svc sh first cam w) w0)"
  by (rule frame_eq_run) (auto simp: pass_deferred_uniforms_def Let_def split: if_splits)

subsection \<open>Geometry and decal passes\<close>

lemma light_pass_deferred_skip:
  "light_pass DEFERRED c sh w = Inr w' \<Longrightarrow> \<not> dithering (rnd w) \<Longrightarrow>
   alpha_mode (rc_material c) \<noteq> NO_ALPHA \<Longrightarrow> trace w' = trace w"
  using uniforms_only_D(1) [OF conjunct1 [OF irr_uniforms_Inr]]
  by (auto simp: light_pass_def Let_def ebind_Inr_iff)

lemma render_mesh_deferred_skip:
  assumes ok: "render_mesh_with_material cam DEFERRED c w = Inr w'"
    and nd: "\<not> dithering (rnd w)" "alpha_mode (rc_material c) \<noteq> NO_ALPHA"
  shows "trace w' = trace w"
proof (cases "num_vertices (rc_mesh c) \<noteq> 0 \<and> shader_ok w ''gbuffers''")
  case True
  define w1 where "w1 = gl_cull (\<not> two_sided (rc_material c)) w"
  obtain w2 w3 where r: "reflection_uniforms c ''gbuffers'' (run (material_uniforms cam DEFERRED c ''gbuffers'' w1)
        (enable_shader ''gbuffers'' w1)) = Inr w2"
    and lp: "light_pass DEFERRED c ''gbuffers'' w2 = Inr w3"
    and fin: "w' = run [disable_shader, gl_blend False, gl_depth_func GL_LESS] w3"
    using ok True unfolding render_mesh_with_material_def
    by (auto simp: Let_def w1_def ebind_Inr_iff choose_shader_def)
  note u = uniforms_only_D [OF conjunct1 [OF reflection_uniforms_Inr [OF r]]]
  have "rnd w2 = rnd w" "trace w2 = trace w" using u by (simp_all add: w1_def gl_ops_defs)
  then show ?thesis using light_pass_deferred_skip [OF lp] nd fin by (simp add: gl_ops_defs)
next
  case False
  with ok show ?thesis
    by (auto simp: render_mesh_with_material_def Let_def choose_shader_def gl_ops_defs split: if_splits)
qed

lemma draw_calls_deferred:
  "draw_calls svc cam DEFERRED cs w = Inr w' \<Longrightarrow>
   frame_eq w w' \<and> keeps_target w w' \<and>
   (\<exists>ds. draws (trace w') = draws (trace w) @ ds \<and>
     (\<forall>d\<in>set ds. bound_fbo (snd d) = bound_fbo (gls w) \<and> fbo_buffers (snd d) = fbo_buffers (gls w) \<and>
        (\<exists>c\<in>set cs. fst d = PMesh (rc_mesh c) \<and>
           (dithering (rnd w) \<or> alpha_mode (rc_material c) = NO_ALPHA))))"
proof (induction cs arbitrary: w)
  case Nil
  then show ?case by (simp add: draw_calls_def)
next
  case (Cons c cs)
  obtain w1 where s: "(if box_in_frustum svc cam (rc_model c) (rc_mesh c)
        then render_mesh_with_material cam DEFERRED c w else Inr w) = Inr w1"
    and r: "draw_calls svc cam DEFERRED cs w1 = Inr w'"
    using Cons.prems by (auto simp: draw_calls_def ebind_Inr_iff)
  have f1: "frame_eq w w1" and k1: "keeps_target w w1"
    using s render_mesh_frame render_mesh_target by (auto split: if_splits)
  obtain ds1 where d1: "draws (trace w1) = draws (trace w) @ ds1"
    "\<forall>d\<in>set ds1. fst d = PMesh (rc_mesh c) \<and> (dithering (rnd w) \<or> alpha_mode (rc_material c) = NO_ALPHA)"
  proof -
    obtain ds where ds: "draws (trace w1) = draws (trace w) @ ds" "fst ` set ds \<subseteq> {PMesh (rc_mesh c)}"
      using s render_mesh_mesh [of cam DEFERRED c w w1] by (cases "box_in_frustum svc cam (rc_model c) (rc_mesh c)") auto
    have "ds = [] \<or> dithering (rnd w) \<or> alpha_mode (rc_material c) = NO_ALPHA"
      using s ds(1) render_mesh_deferred_skip [of cam c w w1]
      by (cases "dithering (rnd w)") (auto split: if_splits)
    then show ?thesis using that ds by auto
  qed
  obtain ds2 where d2: "draws (trace w') = draws (trace w1) @ ds2"
    "\<forall>d\<in>set ds2. bound_fbo (snd d) = bound_fbo (gls w1) \<and> fbo_buffers (snd d) = fbo_buffers (gls w1) \<and>
        (\<exists>c\<in>set cs. fst d = PMesh (rc_mesh c) \<and> (dithering (rnd w1) \<or> alpha_mode (rc_material c) = NO_ALPHA))"
    and f2: "frame_eq w1 w'" and k2: "keeps_target w1 w'"
    using Cons.IH [OF r] by blast
  obtain dk where dk: "draws (trace w1) = draws (trace w) @ dk"
    "\<forall>d\<in>set dk. bound_fbo (snd d) = bound_fbo (gls w) \<and> fbo_buffers (snd d) = fbo_buffers (gls w)"
    using keeps_target_draws [OF k1] by blast
  have "dk = ds1" using d1(1) dk(1) by simp
  have t1: "bound_fbo (gls w1) = bound_fbo (gls w)" "fbo_buffers (gls w1) = fbo_buffers (gls w)"
    "rnd w1 = rnd w" using k1 f1 by (simp_all add: keeps_target_def frame_eq_def)
  show ?case
    apply (intro conjI)
    subgoal using f1 f2 by (rule frame_eq_trans)
    subgoal using k1 k2 by (rule keeps_target_trans)
    subgoal using d1 d2 dk \<open>dk = ds1\<close> t1 by (intro exI [of _ "ds1 @ ds2"]) auto
    done
qed

lemma decal_step_Inr:
  assumes "decal_step svc e w = Inr w'"
  shows "frame_eq w w' \<and> keeps_target w w' \<and>
    (\<exists>ds. draws (trace w') = draws (trace w) @ ds \<and>
       map fst ds = (if entity_type e = DECAL then [PCube] else []))"
  using assms
  by (cases e) (auto simp: decal_step_def frame_eq_def split: option.splits
      intro!: keeps_target_opsI)

lemma decals_loop:
  "fold_err (decal_step svc) es w = Inr w' \<Longrightarrow>
   frame_eq w w' \<and> keeps_target w w' \<and>
   (\<exists>ds. draws (trace w') = draws (trace w) @ ds \<and>
      map fst ds = replicate (length (filter (\<lambda>e. entity_type e = DECAL) es)) PCube)"
proof (induction es arbitrary: w)
  case Nil
  then show ?case by simp
next
  case (Cons e es)
  then obtain w1 where s: "decal_step svc e w = Inr w1" and r: "fold_err (decal_step svc) es w1 = Inr w'"
    by (auto simp: ebind_Inr_iff)
  obtain ds1 where d1: "draws (trace w1) = draws (trace w) @ ds1"
      "map fst ds1 = (if entity_type e = DECAL then [PCube] else [])"
    and f1: "frame_eq w w1" and k1: "keeps_target w w1"
    using decal_step_Inr [OF s] by blast
  obtain ds2 where d2: "draws (trace w') = draws (trace w1) @ ds2"
      "map fst ds2 = replicate (length (filter (\<lambda>e. entity_type e = DECAL) es)) PCube"
    and f2: "frame_eq w1 w'" and k2: "keeps_target w1 w'"
    using Cons.IH [OF r] by blast
  show ?case
    apply (intro conjI)
    subgoal using f1 f2 by (rule frame_eq_trans)
    subgoal using k1 k2 by (rule keeps_target_trans)
    subgoal using d1 d2 by (intro exI [of _ "ds1 @ ds2"]) auto
    done
qed

lemma render_decals_Inr:
  assumes "render_decals svc cam w = Inr w'"
  shows "frame_eq w w' \<and> keeps_target w w' \<and>
    (\<exists>ds. draws (trace w') = draws (trace w) @ ds \<and>
       map fst ds = replicate (length (filter (\<lambda>e. entity_type e = DECAL) (entities (w_scene w)))) PCube)"
proof -
  define w1 where "w1 = run [enable_shader ''decals'',
                 set_uniform ''decals'' ''u_color_texture'' (UTex (TexGBuffer 0) 0),
                 set_uniform ''decals'' ''u_normal_texture'' (UTex (TexGBuffer 1) 1),
                 set_uniform ''decals'' ''u_extra_texture'' (UTex (TexGBuffer 2) 2),
                 set_uniform ''decals'' ''u_depth_texture'' (UTex TexGBufferDepth 3),
                 set_uniform ''decals'' ''u_inverse_viewprojection''
                   (UMat (inverse svc (viewprojection_matrix cam))),
                 set_uniform ''decals'' ''u_iRes'' (inv_res w),
                 set_uniform ''decals'' ''u_viewprojection'' (UMat (viewprojection_matrix cam)),
                 gl_depth_test False, gl_blend False] w"
  have l: "fold_err (decal_step svc) (entities (w_scene w)) w1 = Inr w'"
    using assms by (simp add: render_decals_def w1_def del: run_simps split: if_splits)
  have f: "frame_eq w w1" "trace w1 = trace w" "w_scene w1 = w_scene w"
    unfolding w1_def by (simp_all add: frame_eq_def)
  have k: "keeps_target w w1" unfolding w1_def by (rule keeps_target_run) auto
  show ?thesis
    using decals_loop [OF l] f k by (auto intro: frame_eq_trans keeps_target_trans)
qed

lemma draws_replicate_PCube:
  "map fst ds = replicate n PCube \<Longrightarrow> length ds = n \<and> (\<forall>d\<in>set ds. fst d = PCube)"
proof -
  assume h: "map fst ds = replicate n PCube"
  have "length ds = n" using arg_cong [OF h, of length] by simp
  moreover have "fst d = PCube" if "d \<in> set ds" for d
    using that arg_cong [OF h, of set] by (force split: if_splits)
  ultimately show ?thesis by blast
qed

lemma render_gbuffers_steps:
  assumes "render_gbuffers svc cam cs w = Inr w'"
  obtains w2 w3 w4 where
    "(case environment (w_scene w) of
        None \<Rightarrow> Inr (run [bind_fbo GBuffersFbo, gl_draw_buffers (Some [0]), gl_clear True True]
                  (w\<lparr>rnd := (rnd w)\<lparr>gbuffers_ready := True\<rparr>\<rparr>))
      | Some e \<Rightarrow> render_skybox svc e cam
                  (run [bind_fbo GBuffersFbo, gl_draw_buffers (Some [0]), gl_clear True True]
                    (w\<lparr>rnd := (rnd w)\<lparr>gbuffers_ready := True\<rparr>\<rparr>))) = Inr w2"
    "draw_calls svc cam (render_mode (rnd w)) cs (run gbuffer_clears w2) = Inr w3"
    "render_decals svc cam (run [unbind_fbo, copy_tex (TexGBuffer 0) (TexDecals 0),
        copy_tex (TexGBuffer 1) (TexDecals 1), copy_tex (TexGBuffer 2) (TexDecals 2),
        bind_fbo DecalsFbo, copy_tex TexGBufferDepth TexNone] w3) = Inr w4"
    "w' = run [unbind_fbo, copy_tex (TexDecals 0) (TexGBuffer 0),
        copy_tex (TexDecals 1) (TexGBuffer 1), copy_tex (TexDecals 2) (TexGBuffer 2),
        gl_depth_test False, gl_blend False] w4"
  using assms unfolding render_gbuffers_def Let_def ebind_Inr_iff by blast

lemma render_gbuffers_frame:
  assumes "render_gbuffers svc cam cs w = Inr w'"
  shows "frame_eq (w\<lparr>rnd := (rnd w)\<lparr>gbuffers_ready := True\<rparr>\<rparr>) w'"
proof -
  define w0 where "w0 = w\<lparr>rnd := (rnd w)\<lparr>gbuffers_ready := True\<rparr>\<rparr>"
  obtain w2 w3 w4 where s: "(case environment (w_scene w) of
        None \<Rightarrow> Inr (run [bind_fbo GBuffersFbo, gl_draw_buffers (Some [0]), gl_clear True True] w0)
      | Some e \<Rightarrow> render_skybox svc e cam
                  (run [bind_fbo GBuffersFbo, gl_draw_buffers (Some [0]), gl_clear True True] w0)) = Inr w2"
    and dc: "draw_calls svc cam (render_mode (rnd w)) cs (run gbuffer_clears w2) = Inr w3"
    and dec: "render_decals svc cam (run [unbind_fbo, copy_tex (TexGBuffer 0) (TexDecals 0),
        copy_tex (TexGBuffer 1) (TexDecals 1), copy_tex (TexGBuffer 2) (TexDecals 2),
        bind_fbo DecalsFbo, copy_tex TexGBufferDepth TexNone] w3) = Inr w4"
    and fin: "w' = run [unbind_fbo, copy_tex (TexDecals 0) (TexGBuffer 0),
        copy_tex (TexDecals 1) (TexGBuffer 1), copy_tex (TexDecals 2) (TexGBuffer 2),
        gl_depth_test False, gl_blend False] w4"
    using render_gbuffers_steps [OF assms] unfolding w0_def by blast
  have "frame_eq w0 (run [bind_fbo GBuffersFbo, gl_draw_buffers (Some [0]), gl_clear True True] w0)"
    by (rule frame_eq_run) auto
  then have "frame_eq w0 w2"
    using s by (auto split: option.splits dest: render_skybox_frame intro: frame_eq_trans)
  then have "frame_eq w0 (run gbuffer_clears w2)"
    by (rule frame_eq_run_after) (auto simp: gbuffer_clears_def)
  then have "frame_eq w0 w3" using conjunct1 [OF draw_calls_frame [OF dc]] by (rule frame_eq_trans)
  then have "frame_eq w0 (run [unbind_fbo, copy_tex (TexGBuffer 0) (TexDecals 0),
        copy_tex (TexGBuffer 1) (TexDecals 1), copy_tex (TexGBuffer 2) (TexDecals 2),
        bind_fbo DecalsFbo, copy_tex TexGBufferDepth TexNone] w3)"
    by (rule frame_eq_run_after) auto
  then have "frame_eq w0 w4" using conjunct1 [OF render_decals_Inr [OF dec]] by (rule frame_eq_trans)
  then show ?thesis unfolding fin w0_def [symmetric] by (rule frame_eq_run_after) auto
qed

text \<open>C35: in the deferred pipeline, renderGBuffers draws the sky (when the scene has an
  environment) into the gbuffer FBO with only target 0 enabled, then, with all targets
  enabled, only meshes of calls that are opaque (or all calls when dithering is on), then one
  cube per decal entity into the decals FBO, in that order.\<close>
theorem gbuffers_sky_then_opaque:
  assumes ok: "render_gbuffers svc cam cs w = Inr w'" and m: "render_mode (rnd w) = DEFERRED"
  shows "\<exists>sky ms ds. draws (trace w') = draws (trace w) @ sky @ ms @ ds \<and>
    map fst sky = (case environment (w_scene w) of None \<Rightarrow> [] | Some _ \<Rightarrow> [PSphere]) \<and>
    (\<forall>d\<in>set sky. bound_fbo (snd d) = Some GBuffersFbo \<and> fbo_buffers (snd d) GBuffersFbo = Some [0]) \<and>
    (\<forall>d\<in>set ms. bound_fbo (snd d) = Some GBuffersFbo \<and> fbo_buffers (snd d) GBuffersFbo = None \<and>
       (\<exists>c\<in>set cs. fst d = PMesh (rc_mesh c) \<and>
          (dithering (rnd w) \<or> alpha_mode (rc_material c) = NO_ALPHA))) \<and>
    (\<forall>d\<in>set ds. fst d = PCube \<and> bound_fbo (snd d) = Some DecalsFbo) \<and>
    length ds = length (filter (\<lambda>e. entity_type e = DECAL) (entities (w_scene w)))"
proof -
  define w1 where "w1 = run [bind_fbo GBuffersFbo, gl_draw_buffers (Some [0]), gl_clear True True]
      (w\<lparr>rnd := (rnd w)\<lparr>gbuffers_ready := True\<rparr>\<rparr>)"
  obtain w2 w3 w4 where sk: "(case environment (w_scene w) of None \<Rightarrow> Inr w1
        | Some e \<Rightarrow> render_skybox svc e cam w1) = Inr w2"
    and dc: "draw_calls svc cam DEFERRED cs (run gbuffer_clears w2) = Inr w3"
    and dec: "render_decals svc cam (run [unbind_fbo, copy_tex (TexGBuffer 0) (TexDecals 0),
        copy_tex (TexGBuffer 1) (TexDecals 1), copy_tex (TexGBuffer 2) (TexDecals 2),
        bind_fbo DecalsFbo, copy_tex TexGBufferDepth TexNone] w3) = Inr w4"
    and fin: "w' = run [unbind_fbo, copy_tex (TexDecals 0) (TexGBuffer 0),
        copy_tex (TexDecals 1) (TexGBuffer 1), copy_tex (TexDecals 2) (TexGBuffer 2),
        gl_depth_test False, gl_blend False] w4"
    using render_gbuffers_steps [OF ok] unfolding w1_def [symmetric] m by blast
  have g1: "bound_fbo (gls w1) = Some GBuffersFbo" "fbo_buffers (gls w1) GBuffersFbo = Some [0]"
    "draws (trace w1) = draws (trace w)" "w_scene w1 = w_scene w" "dithering (rnd w1) = dithering (rnd w)"
    by (simp_all add: w1_def gl_ops_defs gl_clear_def)
  have "\<exists>sky. draws (trace w2) = draws (trace w) @ sky \<and>
    map fst sky = (case environment (w_scene w) of None \<Rightarrow> [] | Some _ \<Rightarrow> [PSphere]) \<and>
    (\<forall>d\<in>set sky. bound_fbo (snd d) = Some GBuffersFbo \<and> fbo_buffers (snd d) GBuffersFbo = Some [0])"
    using sk g1 by (auto simp: render_skybox_def gl_ops_defs split: option.splits if_splits)
  then obtain sky where sky: "draws (trace w2) = draws (trace w) @ sky"
    "map fst sky = (case environment (w_scene w) of None \<Rightarrow> [] | Some _ \<Rightarrow> [PSphere])"
    "\<forall>d\<in>set sky. bound_fbo (snd d) = Some GBuffersFbo \<and> fbo_buffers (snd d) GBuffersFbo = Some [0]"
    by blast
  have g2: "bound_fbo (gls w2) = Some GBuffersFbo" "w_scene w2 = w_scene w"
      "dithering (rnd w2) = dithering (rnd w)"
    using sk g1 by (auto simp: render_skybox_def gl_ops_defs draw_def split: option.splits if_splits)
  define w2' where "w2' = run gbuffer_clears w2"
  have g2': "bound_fbo (gls w2') = Some GBuffersFbo" "fbo_buffers (gls w2') GBuffersFbo = None"
    "draws (trace w2') = draws (trace w2)" "w_scene w2' = w_scene w2" "dithering (rnd w2') = dithering (rnd w2)"
    using g2(1) by (simp_all add: w2'_def gbuffer_clears_def gl_ops_defs gl_clear_def)
  obtain ms where ms: "draws (trace w3) = draws (trace w2') @ ms"
    "\<forall>d\<in>set ms. bound_fbo (snd d) = bound_fbo (gls w2') \<and> fbo_buffers (snd d) = fbo_buffers (gls w2') \<and>
        (\<exists>c\<in>set cs. fst d = PMesh (rc_mesh c) \<and>
           (dithering (rnd w2') \<or> alpha_mode (rc_material c) = NO_ALPHA))"
    and f3: "frame_eq w2' w3"
    using draw_calls_deferred [OF dc[folded w2'_def]] by blast
  define w3' where "w3' = run [unbind_fbo, copy_tex (TexGBuffer 0) (TexDecals 0),
        copy_tex (TexGBuffer 1) (TexDecals 1), copy_tex (TexGBuffer 2) (TexDecals 2),
        bind_fbo DecalsFbo, copy_tex TexGBufferDepth TexNone] w3"
  have g3: "bound_fbo (gls w3') = Some DecalsFbo" "draws (trace w3') = draws (trace w3)"
    "w_scene w3' = w_scene w3"
    by (simp_all add: w3'_def gl_ops_defs copy_tex_def)
  obtain ds where ds: "draws (trace w4) = draws (trace w3') @ ds"
      "map fst ds = replicate (length (filter (\<lambda>e. entity_type e = DECAL) (entities (w_scene w3')))) PCube"
    and k4: "keeps_target w3' w4"
    using render_decals_Inr [OF dec[folded w3'_def]] by blast
  obtain dk where dk: "draws (trace w4) = draws (trace w3') @ dk"
    "\<forall>d\<in>set dk. bound_fbo (snd d) = bound_fbo (gls w3') \<and> fbo_buffers (snd d) = fbo_buffers (gls w3')"
    using keeps_target_draws [OF k4] by blast
  have "dk = ds" using ds(1) dk(1) by simp
  have scene: "w_scene w3 = w_scene w" using f3 g2 g2' by (simp add: frame_eq_def)
  have fin': "draws (trace w') = draws (trace w4)" unfolding fin by (simp add: gl_ops_defs copy_tex_def)
  show ?thesis
    apply (rule exI [of _ sky], rule exI [of _ ms], rule exI [of _ ds])
    using sky ms g2 g2' g3 ds dk \<open>dk = ds\<close> scene fin' draws_replicate_PCube [OF ds(2)]
    by auto
qed

lemma render_mesh_deferred_ok:
  "\<not> reflections (rnd w) \<Longrightarrow> probes_texture (rnd w) = None \<Longrightarrow>
   \<exists>w'. render_mesh_with_material cam DEFERRED c w = Inr w'"
  by (simp add: render_mesh_with_material_def reflection_uniforms_def light_pass_def
      irr_uniforms_def Let_def choose_shader_def gl_ops_defs)

lemma draw_calls_deferred_ok:
  "\<not> reflections (rnd w) \<Longrightarrow> probes_texture (rnd w) = None \<Longrightarrow>
   \<exists>w'. draw_calls svc cam DEFERRED cs w = Inr w'"
proof (induction cs arbitrary: w)
  case Nil
  then show ?case by (simp add: draw_calls_def)
next
  case (Cons c cs)
  obtain w1 where s: "(if box_in_frustum svc cam (rc_model c) (rc_mesh c)
        then render_mesh_with_material cam DEFERRED c w else Inr w) = Inr w1"
    using render_mesh_deferred_ok [OF Cons.prems] by (cases "box_in_frustum svc cam (rc_model c) (rc_mesh c)") auto
  have "rnd w1 = rnd w" using s render_mesh_frame by (auto simp: frame_eq_def split: if_splits)
  then have "\<exists>w'. draw_calls svc cam DEFERRED cs w1 = Inr w'" using Cons.IH Cons.prems by simp
  then obtain w' where "draw_calls svc cam DEFERRED cs w1 = Inr w'" ..
  then show ?case using s by (simp add: draw_calls_def)
qed

lemma decals_loop_ok:
  "list_all (\<lambda>e. case e of EDecal d \<Rightarrow> albedo d \<noteq> None | _ \<Rightarrow> True) es \<Longrightarrow>
   \<exists>w'. fold_err (decal_step svc) es w = Inr w'"
  by (induction es arbitrary: w) (auto simp: decal_step_def split: entity.splits option.splits)

text \<open>C40: in the deferred pipeline, renderGBuffers returns a world when the decal (and,
  with an environment, skybox) shaders are loaded, reflections and the probe texture are off,
  and every decal has an albedo texture.\<close>
theorem gbuffers_completes:
  assumes "render_mode (rnd w) = DEFERRED" "shader_ok w ''decals''"
    "environment (w_scene w) = None \<or> shader_ok w ''skybox''"
    "\<not> reflections (rnd w)" "probes_texture (rnd w) = None"
    "list_all (\<lambda>e. case e of EDecal d \<Rightarrow> albedo d \<noteq> None | _ \<Rightarrow> True) (entities (w_scene w))"
  shows "\<exists>w'. render_gbuffers svc cam cs w = Inr w'"
proof -
  define w1 where "w1 = run [bind_fbo GBuffersFbo, gl_draw_buffers (Some [0]), gl_clear True True]
      (w\<lparr>rnd := (rnd w)\<lparr>gbuffers_ready := True\<rparr>\<rparr>)"
  obtain w2 where sk: "(case environment (w_scene w) of None \<Rightarrow> Inr w1
        | Some e \<Rightarrow> render_skybox svc e cam w1) = Inr w2"
    using assms(3) by (cases "environment (w_scene w)") (simp_all add: render_skybox_def w1_def)
  have f2: "frame_eq w1 w2"
    using sk by (auto split: option.splits dest: render_skybox_frame)
  have r2: "\<not> reflections (rnd (run gbuffer_clears w2))" "probes_texture (rnd (run gbuffer_clears w2)) = None"
    using f2 assms(4,5) by (simp_all add: frame_eq_def w1_def gbuffer_clears_def)
  obtain w3 where dc: "draw_calls svc cam DEFERRED cs (run gbuffer_clears w2) = Inr w3"
    using draw_calls_deferred_ok [OF r2] by blast
  define w3' where "w3' = run [unbind_fbo, copy_tex (TexGBuffer 0) (TexDecals 0),
        copy_tex (TexGBuffer 1) (TexDecals 1), copy_tex (TexGBuffer 2) (TexDecals 2),
        bind_fbo DecalsFbo, copy_tex TexGBufferDepth TexNone] w3"
  have "frame_eq (run gbuffer_clears w2) w3" using draw_calls_frame [OF dc] by blast
  then have s3: "w_scene w3' = w_scene w" "shader_ok w3' = shader_ok w"
    using f2 by (simp_all add: frame_eq_def w1_def w3'_def gbuffer_clears_def)
  obtain w4 where "render_decals svc cam w3' = Inr w4"
    using decals_loop_ok [of "entities (w_scene w3')" svc] s3 assms(2,6)
    by (auto simp: render_decals_def simp del: run_simps)
  then show ?thesis
    using sk dc assms(1) unfolding render_gbuffers_def Let_def w1_def [symmetric] w3'_def
    by (simp del: run_simps)
qed

subsection \<open>Light volumes\<close>

lemma upload_light_params_model:
  "upload_light_params i l lin g sh w = Inr w' \<Longrightarrow>
   uniforms (gls w') sh ''u_model'' = uniforms (gls w) sh ''u_model''"
  unfolding upload_light_params_def
  by (cases "cast_shadows l") (auto simp: set_uniform_def split: if_splits)

lemma sphere_state_uniforms_only:
  "uniforms_only w w' \<Longrightarrow> uniforms (gls w') sh ''u_ambient_light'' = uniforms (gls w) sh ''u_ambient_light'' \<Longrightarrow>
   sphere_state sh (gls w') = sphere_state sh (gls w)"
  by (simp add: sphere_state_def uniforms_only_D) (auto simp: uniforms_only_def)

lemma sphere_light_Inr:
  "sphere_light svc sh cam g i w = Inr w' \<longleftrightarrow> (\<exists>l w1. get_light w i = Some l \<and>
     upload_light_params i l True g sh
        (run [set_uniform sh ''u_viewprojection'' (UMat (viewprojection_matrix cam)),
              set_uniform sh ''u_model'' (UMat (light_volume svc l))] w) = Inr w1 \<and>
     w' = run [gl_front_face GL_CW, draw PSphere] w1)"
  by (auto simp: sphere_light_def ebind_Inr_iff simp del: run_simps split: option.splits)

lemma sphere_loop:
  "fold_err (sphere_light svc sh cam g) is w = Inr w' \<Longrightarrow> sphere_state sh (gls w) \<Longrightarrow>
   \<exists>ds. draws (trace w') = draws (trace w) @ ds \<and> length ds = length is \<and>
     (\<forall>j<length ds. fst (ds ! j) = PSphere \<and> sphere_state sh (snd (ds ! j)) \<and>
        front_face (snd (ds ! j)) = GL_CW \<and>
        (\<exists>l. get_light w (is ! j) = Some l \<and>
           draw_uniform (snd (ds ! j)) ''u_model'' = Some (UMat (light_volume svc l)) \<and>
           draw_uniform (snd (ds ! j)) ''u_light_type'' = Some (UInt (light_type_code (light_type l)))))"
proof (induction "is" arbitrary: w)
  case Nil
  then show ?case by simp
next
  case (Cons i "is")
  obtain l w1 where l: "get_light w i = Some l"
    and up: "upload_light_params i l True g sh
        (run [set_uniform sh ''u_viewprojection'' (UMat (viewprojection_matrix cam)),
              set_uniform sh ''u_model'' (UMat (light_volume svc l))] w) = Inr w1"
    and rest: "fold_err (sphere_light svc sh cam g) is (run [gl_front_face GL_CW, draw PSphere] w1) = Inr w'"
  proof -
    obtain w3 where "sphere_light svc sh cam g i w = Inr w3"
      "fold_err (sphere_light svc sh cam g) is w3 = Inr w'"
      using Cons.prems(1) by (auto simp: ebind_Inr_iff)
    then show thesis using that unfolding sphere_light_Inr by blast
  qed
  define w0 where "w0 = run [set_uniform sh ''u_viewprojection'' (UMat (viewprojection_matrix cam)),
              set_uniform sh ''u_model'' (UMat (light_volume svc l))] w"
  note u = upload_light_params_Inr [OF up[folded w0_def]]
  have s0: "sphere_state sh (gls w0)" "uniforms (gls w0) sh ''u_model'' = Some (UMat (light_volume svc l))"
    "trace w0 = trace w" "w_scene w0 = w_scene w"
    using Cons.prems(2) by (simp_all add: w0_def sphere_state_def set_uniform_def)
  have s1: "sphere_state sh (gls w1)" "uniforms (gls w1) sh ''u_model'' = Some (UMat (light_volume svc l))"
    "trace w1 = trace w" "w_scene w1 = w_scene w"
    "uniforms (gls w1) sh ''u_light_type'' = Some (UInt (light_type_code (light_type l)))"
    using s0 u sphere_state_uniforms_only [of w0 w1 sh] upload_light_params_model [OF up[folded w0_def]]
      uniforms_only_D [of w0 w1] by auto
  define w2 where "w2 = run [gl_front_face GL_CW, draw PSphere] w1"
  have s2: "sphere_state sh (gls w2)" "trace w2 = trace w @ [Draw PSphere (gls w2)]"
    "front_face (gls w2) = GL_CW" "w_scene w2 = w_scene w"
    using s1 by (simp_all add: w2_def gl_ops_defs draw_def sphere_state_def)
  obtain ds where ds: "draws (trace w') = draws (trace w2) @ ds" "length ds = length is"
    "\<forall>j<length ds. fst (ds ! j) = PSphere \<and> sphere_state sh (snd (ds ! j)) \<and>
        front_face (snd (ds ! j)) = GL_CW \<and>
        (\<exists>l. get_light w2 (is ! j) = Some l \<and>
           draw_uniform (snd (ds ! j)) ''u_model'' = Some (UMat (light_volume svc l)) \<and>
           draw_uniform (snd (ds ! j)) ''u_light_type'' = Some (UInt (light_type_code (light_type l))))"
    using Cons.IH [OF rest[folded w2_def] s2(1)] by blast
  have gl: "get_light w2 = get_light w" by (rule get_light_eq [OF s2(4)])
  have d0: "draw_uniform (gls w2) ''u_model'' = Some (UMat (light_volume svc l)) \<and>
      draw_uniform (gls w2) ''u_light_type'' = Some (UInt (light_type_code (light_type l)))"
    using s1 s2(1) by (simp add: w2_def gl_ops_defs draw_def draw_uniform_def sphere_state_def)
  show ?case
    apply (rule exI [of _ "(PSphere, gls w2) # ds"])
    apply (intro conjI)
    subgoal using ds(1) s2(2) by simp
    subgoal using ds(2) by simp
    apply (rule allI, rule impI)
    subgoal for j using ds(3) s2 l d0 gl by (cases j) auto
    done
qed

text \<open>C36: renderMultiPassSphere draws one sphere per entry of the light list, in order,
  additively blended (ONE, ONE) with clockwise front faces and zero ambient light, each with
  the model of its light's influence volume and the light's parameters.\<close>
theorem deferred_sphere_per_light:
  assumes ok: "render_multi_pass_sphere svc sh cam w = Inr w'" and p: "program (gls w) = Some sh"
  shows "\<exists>ds. draws (trace w') = draws (trace w) @ ds \<and> length ds = length (lights (rnd w)) \<and>
    (\<forall>j<length ds. fst (ds ! j) = PSphere \<and> blend (snd (ds ! j)) \<and>
       blend_src (snd (ds ! j)) = GL_ONE \<and> blend_dst (snd (ds ! j)) = GL_ONE \<and>
       front_face (snd (ds ! j)) = GL_CW \<and>
       draw_uniform (snd (ds ! j)) ''u_ambient_light'' = Some (UVec3 vzero) \<and>
       (\<exists>l. get_light w (lights (rnd w) ! j) = Some l \<and>
          draw_uniform (snd (ds ! j)) ''u_model'' = Some (UMat (light_volume svc l)) \<and>
          draw_uniform (snd (ds ! j)) ''u_light_type'' = Some (UInt (light_type_code (light_type l)))))"
proof -
  define w1 where "w1 = run [gl_blend True, gl_blend_func GL_ONE GL_ONE, gl_cull True,
                     set_uniform sh ''u_ambient_light'' (UVec3 vzero),
                     set_uniform sh ''u_emissive'' (UBool False), set_uniform sh ''u_back'' (UBool False),
                     set_uniform sh ''u_light_eq'' (UInt (light_eq_code (light_eq (rnd w)))),
                     set_uniform sh ''u_camera_position'' (UVec3 (eye cam)),
                     set_uniform sh ''u_pcf'' (UBool (pcf (rnd w)))] w"
  obtain w2 where l: "fold_err (sphere_light svc sh cam (hdr_gamma (rnd w))) (lights (rnd w)) w1 = Inr w2"
    and fin: "w' = run [disable_shader, gl_depth_test False, gl_blend False, gl_front_face GL_CCW] w2"
    using ok unfolding render_multi_pass_sphere_def Let_def w1_def [symmetric] ebind_Inr_iff by blast
  have s1: "sphere_state sh (gls w1)" "trace w1 = trace w" "w_scene w1 = w_scene w"
    using p by (simp_all add: w1_def gl_ops_defs sphere_state_def)
  have "draws (trace w') = draws (trace w2)" unfolding fin by simp
  then show ?thesis
    using sphere_loop [OF l s1(1)] s1 get_light_eq [OF s1(3)]
    by (fastforce simp: sphere_state_def draw_uniform_def)
qed

lemma sphere_light_frame:
  assumes "sphere_light svc sh cam g i w = Inr w'"
  shows "frame_eq w w'"
proof -
  obtain l w1 where up: "upload_light_params i l True g sh
        (run [set_uniform sh ''u_viewprojection'' (UMat (viewprojection_matrix cam)),
              set_uniform sh ''u_model'' (UMat (light_volume svc l))] w) = Inr w1"
    and w': "w' = run [gl_front_face GL_CW, draw PSphere] w1"
    using assms unfolding sphere_light_Inr by blast
  have "frame_eq w (run [set_uniform sh ''u_viewprojection'' (UMat (viewprojection_matrix cam)),
              set_uniform sh ''u_model'' (UMat (light_volume svc l))] w)"
    by (rule frame_eq_run) auto
  then have "frame_eq w w1" using frame_eq_upload [OF up] by (rule frame_eq_trans)
  then show ?thesis unfolding w' by (rule frame_eq_run_after) auto
qed

lemma render_multi_pass_sphere_frame:
  assumes "render_multi_pass_sphere svc sh cam w = Inr w'"
  shows "frame_eq w w'"
proof -
  define w1 where "w1 = run [gl_blend True, gl_blend_func GL_ONE GL_ONE, gl_cull True,
                     set_uniform sh ''u_ambient_light'' (UVec3 vzero),
                     set_uniform sh ''u_emissive'' (UBool False), set_uniform sh ''u_back'' (UBool False),
                     set_uniform sh ''u_light_eq'' (UInt (light_eq_code (light_eq (rnd w)))),
                     set_uniform sh ''u_camera_position'' (UVec3 (eye cam)),
                     set_uniform sh ''u_pcf'' (UBool (pcf (rnd w)))] w"
  obtain w2 where l: "fold_err (sphere_light svc sh cam (hdr_gamma (rnd w))) (lights (rnd w)) w1 = Inr w2"
    and fin: "w' = run [disable_shader, gl_depth_test False, gl_blend False, gl_front_face GL_CCW] w2"
    using assms unfolding render_multi_pass_sphere_def Let_def w1_def [symmetric] ebind_Inr_iff by blast
  have "frame_eq w w1" unfolding w1_def by (rule frame_eq_run) auto
  then have "frame_eq w w2"
    using frame_eq_fold_err [OF _ l] sphere_light_frame by (blast intro: frame_eq_trans)
  then show ?thesis unfolding fin by (rule frame_eq_run_after) auto
qed

subsection \<open>Occlusion\<close>

text \<open>C38: with blur on, SSAO::apply returns the blurred texture, and its blur draw samples
  the first colour attachment of the SSAO FBO while that FBO is bound with all its draw
  buffers enabled.\<close>
theorem ssao_blur_samples_own_target:
  assumes "ssao_apply svc nb db cam w = Inr (t, w')" "ssao_blur (r_ssao (rnd w))"
    "fbo_buffers (gls w) SSAOFbo = None"
  shows "t = TexSSAO 1 \<and>
    (\<exists>g0 g. draws (trace w') = draws (trace w) @ [(PQuad, g0), (PQuad, g)] \<and>
       bound_fbo g0 = Some SSAOFbo \<and> bound_fbo g = Some SSAOFbo \<and> fbo_buffers g SSAOFbo = None \<and>
       draw_uniform g ''u_ssao'' = Some (UTex (TexSSAO 0) 0) \<and>
       TexSSAO 0 \<in> set (fbo_attachments SSAOFbo))"
  using assms
  by (auto simp: ssao_apply_def Let_def gl_ops_defs draw_def draw_uniform_def fbo_attachments_def
      split: if_splits)

subsection \<open>The whole deferred frame\<close>

lemma deferred_resolve_frame:
  "deferred_resolve svc cam ao w = Inr w' \<Longrightarrow> frame_eq w w'"
  unfolding deferred_resolve_def Let_def
  by (auto simp: ebind_Inr_iff split: if_splits option.splits
      dest!: frame_eq_upload render_multi_pass_sphere_frame)
     (auto simp: frame_eq_def pass_deferred_uniforms_def Let_def gl_ops_defs split: option.splits)

lemma alpha_overlay_rnd:
  assumes "alpha_overlay svc cam cs w = Inr w'"
  shows "w_scene w' = w_scene w \<and> shader_ok w' = shader_ok w \<and>
    rnd w' = (if dithering (rnd w) then rnd w
              else (rnd w)\<lparr>lights := lights (rnd w) @
                     (case directional_light (rnd w) of Some d \<Rightarrow> [d] | None \<Rightarrow> [])\<rparr>)"
proof (cases "dithering (rnd w)")
  case True
  then show ?thesis using assms by (simp add: alpha_overlay_def)
next
  case False
  define w0 where "w0 = (case directional_light (rnd w) of
                Some d \<Rightarrow> w\<lparr>rnd := (rnd w)\<lparr>lights := lights (rnd w) @ [d]\<rparr>\<rparr>
              | None \<Rightarrow> w)"
  have l: "fold_err (\<lambda>c w. if alpha_mode (rc_material c) = NO_ALPHA then Inr w
                           else if box_in_frustum svc cam (rc_model c) (rc_mesh c)
                           then render_mesh_with_material cam DEFERRED_ALPHA c w else Inr w) cs w0 = Inr w'"
    using assms False unfolding alpha_overlay_def Let_def w0_def by simp
  have "frame_eq w0 w'"
    by (rule frame_eq_fold_err [OF _ l]) (auto split: if_splits intro: render_mesh_frame)
  then show ?thesis using False by (auto simp: frame_eq_def w0_def split: option.splits)
qed

lemma render_deferred_steps:
  assumes "render_deferred svc cam cs w = Inr w'"
  obtains w4 where "deferred_extras svc cam w4 = Inr w'" "w_scene w4 = w_scene w"
    "rnd w4 = (rnd w)\<lparr>gbuffers_ready := True,
      lights := lights (rnd w) @ (case directional_light (rnd w) of
                                    Some d \<Rightarrow> if dithering (rnd w) then [] else [d]
                                  | None \<Rightarrow> [])\<rparr>"
proof -
  obtain w1 where g: "render_gbuffers svc cam cs w = Inr w1"
    and r1: "ebind (if activate_ssao (rnd w1)
            then ebind (ssao_apply svc (TexGBuffer 1) TexGBufferDepth cam w1) (\<lambda>(t, w'). Inr (Some t, w'))
            else Inr (None, w1)) (\<lambda>(ao, w2). ebind (deferred_resolve svc cam ao w2) (\<lambda>w3.
               ebind (alpha_overlay svc cam cs w3) (deferred_extras svc cam))) = Inr w'"
    using assms unfolding render_deferred_def ebind_Inr_iff by blast
  obtain ao w2 where a: "(if activate_ssao (rnd w1)
            then ebind (ssao_apply svc (TexGBuffer 1) TexGBufferDepth cam w1) (\<lambda>(t, w'). Inr (Some t, w'))
            else Inr (None, w1)) = Inr (ao, w2)"
    and r2: "ebind (deferred_resolve svc cam ao w2) (\<lambda>w3.
               ebind (alpha_overlay svc cam cs w3) (deferred_extras svc cam)) = Inr w'"
    using r1 by (subst (asm) ebind_Inr_iff) auto
  obtain w3 w4 where r: "deferred_resolve svc cam ao w2 = Inr w3"
    and o: "alpha_overlay svc cam cs w3 = Inr w4"
    and e: "deferred_extras svc cam w4 = Inr w'"
    using r2 unfolding ebind_Inr_iff by blast
  have f1: "frame_eq (w\<lparr>rnd := (rnd w)\<lparr>gbuffers_ready := True\<rparr>\<rparr>) w1"
    by (rule render_gbuffers_frame [OF g])
  have "frame_eq w1 w2"
    using a by (auto simp: ebind_Inr_iff split: if_splits prod.splits dest: ssao_apply_frame)
  with f1 have "frame_eq (w\<lparr>rnd := (rnd w)\<lparr>gbuffers_ready := True\<rparr>\<rparr>) w3"
    using deferred_resolve_frame [OF r] by (blast intro: frame_eq_trans)
  then show ?thesis
    using that [OF e] alpha_overlay_rnd [OF o] by (auto simp: frame_eq_def split: option.splits)
qed

text \<open>C39: renderDeferred leaves the scene unchanged and changes the renderer only by
  marking the gbuffers as created and, with dithering off, by appending the directional light
  to the light list.\<close>
theorem render_deferred_state:
  assumes "render_deferred svc cam cs w = Inr w'"
  shows "w_scene w' = w_scene w \<and>
    rnd w' = (rnd w)\<lparr>gbuffers_ready := True,
      lights := lights (rnd w) @ (case directional_light (rnd w) of
                                    Some d \<Rightarrow> if dithering (rnd w) then [] else [d]
                                  | None \<Rightarrow> [])\<rparr>"
  using assms by (rule render_deferred_steps) (auto simp: frame_eq_def dest!: deferred_extras_frame)

lemma deferred_extras_volumetric:
  "volumetric (rnd w) \<Longrightarrow> directional_light (rnd w) = None \<Longrightarrow> \<exists>e. deferred_extras svc cam w = Inl e"
  by (simp add: deferred_extras_def volumetric_directional_def Let_def)

text \<open>C37: with volumetric scattering on and no directional light, renderDeferred never
  completes: whatever the earlier passes do, volumetricDirectional dereferences the null
  directional light.\<close>
theorem volumetric_without_directional:
  assumes "volumetric (rnd w)" "directional_light (rnd w) = None"
  shows "\<exists>e. render_deferred svc cam cs w = Inl e"
proof (cases "render_deferred svc cam cs w")
  case (Inr w')
  obtain w4 where e: "deferred_extras svc cam w4 = Inr w'"
    and r: "rnd w4 = (rnd w)\<lparr>gbuffers_ready := True,
      lights := lights (rnd w) @ (case directional_light (rnd w) of
                                    Some d \<Rightarrow> if dithering (rnd w) then [] else [d]
                                  | None \<Rightarrow> [])\<rparr>"
    using render_deferred_steps [OF Inr] by blast
  have "volumetric (rnd w4)" "directional_light (rnd w4) = None" using r assms by simp_all
  from deferred_extras_volumetric [OF this, of svc cam] e show ?thesis by auto
qed simp

subsection \<open>Witnesses\<close>

lemmas deferred_eval = demo_deferred_world_def demo_world_def renderer_new_def demo_decal_def
  demo_dir_light_def demo_call_def

lemma demo_deferred_facts:
  "render_mode (rnd (demo_deferred_world dl vol)) = DEFERRED"
  "shader_ok (demo_deferred_world dl vol) = (\<lambda>s. True)"
  "environment (w_scene (demo_deferred_world dl vol)) = None"
  "trace (demo_deferred_world dl vol) = []"
  "\<not> reflections (rnd (demo_deferred_world dl vol))"
  "probes_texture (rnd (demo_deferred_world dl vol)) = None"
  "entities (w_scene (demo_deferred_world dl vol)) = [ELight demo_dir_light, EDecal demo_decal]"
  "dithering (rnd (demo_deferred_world dl vol)) = False"
  by (simp_all add: deferred_eval)

lemmas gbuf_eval = render_gbuffers_def render_decals_def decal_step_def draw_calls_def gbuffer_clears_def
  lit_eval deferred_eval demo_svc_def

lemmas deferred_frame_eval = gbuf_eval ssao_apply_def deferred_resolve_def pass_deferred_uniforms_def
  render_multi_pass_sphere_def alpha_overlay_def deferred_extras_def

theorem gbuffers_sky_then_opaque_witness:
  "\<exists>w'. render_gbuffers demo_svc demo_camera [demo_call 0 NO_ALPHA 1] (demo_deferred_world None False) = Inr w' \<and>
     (\<forall>d\<in>set (draws (trace w')). fst d = PCube \<longrightarrow> bound_fbo (snd d) = Some DecalsFbo) \<and>
     length (filter (\<lambda>d. fst d = PCube) (draws (trace w'))) \<le> 1"
proof -
  have "\<exists>w'. render_gbuffers demo_svc demo_camera [demo_call 0 NO_ALPHA 1] (demo_deferred_world None False) = Inr w'"
    by (simp add: gbuf_eval)
  then obtain w' where w': "render_gbuffers demo_svc demo_camera [demo_call 0 NO_ALPHA 1]
      (demo_deferred_world None False) = Inr w'" ..
  obtain sky ms ds where t: "draws (trace w') = sky @ ms @ ds" "sky = []"
    "\<forall>d\<in>set ms. fst d \<noteq> PCube" "\<forall>d\<in>set ds. fst d = PCube \<and> bound_fbo (snd d) = Some DecalsFbo"
    "length ds = 1"
    using gbuffers_sky_then_opaque [OF w'] demo_deferred_facts by (fastforce simp: demo_decal_def)
  show ?thesis using w' t by auto
qed

theorem deferred_sphere_per_light_witness:
  "\<exists>w'. render_multi_pass_sphere demo_svc ''deferred_ws'' demo_camera
          (enable_shader ''deferred_ws'' (demo_lit_world MULTI [0] False)) = Inr w' \<and>
     length (draws (trace w')) = 1 \<and> fst (draws (trace w') ! 0) = PSphere \<and>
     draw_uniform (snd (draws (trace w') ! 0)) ''u_model'' = Some (UMat (light_volume demo_svc demo_dir_light))"
proof -
  have "\<exists>w'. render_multi_pass_sphere demo_svc ''deferred_ws'' demo_camera
          (enable_shader ''deferred_ws'' (demo_lit_world MULTI [0] False)) = Inr w'"
    by (simp add: render_multi_pass_sphere_def sphere_light_def gl_ops_defs lit_eval)
  then obtain w' where w': "render_multi_pass_sphere demo_svc ''deferred_ws'' demo_camera
          (enable_shader ''deferred_ws'' (demo_lit_world MULTI [0] False)) = Inr w'" ..
  have h: "program (gls (enable_shader ''deferred_ws'' (demo_lit_world MULTI [0] False))) = Some ''deferred_ws''"
    "trace (enable_shader ''deferred_ws'' (demo_lit_world MULTI [0] False)) = []"
    "lights (rnd (enable_shader ''deferred_ws'' (demo_lit_world MULTI [0] False))) = [0]"
    "get_light (enable_shader ''deferred_ws'' (demo_lit_world MULTI [0] False)) 0 = Some demo_dir_light"
    by (simp_all add: gl_ops_defs lit_eval)
  show ?thesis using deferred_sphere_per_light [OF w' h(1)] w' h(2-4) by auto
qed

theorem volumetric_without_directional_witness:
  "volumetric (rnd (demo_deferred_world None True)) \<and>
   directional_light (rnd (demo_deferred_world None True)) = None \<and>
   (\<exists>e. render_deferred demo_svc demo_camera [demo_call 0 NO_ALPHA 1] (demo_deferred_world None True) = Inl e)"
  using volumetric_without_directional [of "demo_deferred_world None True"] by (simp add: deferred_eval)

theorem ssao_blur_samples_own_target_witness:
  "\<exists>w'. ssao_apply demo_svc (TexGBuffer 1) TexGBufferDepth demo_camera (demo_deferred_world None False) =
          Inr (TexSSAO 1, w') \<and>
     draw_uniform (snd (last (draws (trace w')))) ''u_ssao'' = Some (UTex (TexSSAO 0) 0) \<and>
     bound_fbo (snd (last (draws (trace w')))) = Some SSAOFbo"
proof -
  have "\<exists>t w'. ssao_apply demo_svc (TexGBuffer 1) TexGBufferDepth demo_camera
      (demo_deferred_world None False) = Inr (t, w')"
    by (simp add: ssao_apply_def Let_def deferred_eval)
  then obtain t w' where w': "ssao_apply demo_svc (TexGBuffer 1) TexGBufferDepth demo_camera
      (demo_deferred_world None False) = Inr (t, w')" by blast
  have h: "ssao_blur (r_ssao (rnd (demo_deferred_world None False)))"
    "fbo_buffers (gls (demo_deferred_world None False)) SSAOFbo = None"
    "trace (demo_deferred_world None False) = []"
    by (simp_all add: deferred_eval gl_init_def)
  show ?thesis using ssao_blur_samples_own_target [OF w' h(1,2)] w' h(3) by auto
qed

theorem render_deferred_state_witness:
  "\<exists>w'. render_deferred demo_svc demo_camera [] (demo_deferred_world (Some 0) False) = Inr w' \<and>
     lights (rnd w') = [0] \<and> gbuffers_ready (rnd w')"
proof -
  have "\<exists>w'. render_deferred demo_svc demo_camera [] (demo_deferred_world (Some 0) False) = Inr w'"
    by (simp add: render_deferred_def deferred_frame_eval)
  then obtain w' where w': "render_deferred demo_svc demo_camera [] (demo_deferred_world (Some 0) False) = Inr w'" ..
  show ?thesis using render_deferred_state [OF w'] w' by (simp add: deferred_eval)
qed

theorem gbuffers_completes_witness:
  "\<exists>w'. render_gbuffers demo_svc demo_camera [demo_call 0 NO_ALPHA 1] (demo_deferred_world None False) = Inr w'"
  by (rule gbuffers_completes) (simp_all add: demo_deferred_facts demo_decal_def)

end
