(* ===== verification/Atlas.thy ===== *)
theory Atlas
  imports Shadows
begin

text \<open>
  The shared shadow atlas of single-pass lighting (\<open>src/src/renderer.cpp\<close>:
  \<open>Renderer::renderToAtlas\<close>). The atlas is skipped when \<open>shadow_count\<close> is zero or there
  are no calls; otherwise \<open>shadow_count\<close> is overwritten with 4, the atlas is allocated
  once with side \<open>res * ceil(sqrt(shadow_count))\<close>, and every non-point light in
  \<open>lights\<close>, counted by \<open>c\<close>, gets the cell \<open>(c mod len, floor(c / len))\<close> of a
  \<open>len * len\<close> grid (\<open>len = ceil(sqrt(shadow_count))\<close>, a float): the scissor and
  viewport are set to the cell, its depth is cleared, the light's UV rectangle (offset and
  scale in atlas space) is stored in \<open>uvs\<close>, and the opaque calls in the light's frustum
  (all of them for a directional light) are drawn into it.
\<close>

text \<open>\<open>float len = ceil(sqrt(shadow_count))\<close>.\<close>

definition atlas_len :: "int \<Rightarrow> real" where
  "atlas_len sc = of_int \<lceil>sqrt (of_int sc)\<rceil>"

text \<open>The cell of the \<open>c\<close>-th non-point light: \<open>uvs = (wi, hj, 1 / len)\<close>.\<close>

definition atlas_cell :: "int \<Rightarrow> nat \<Rightarrow> vec3" where
  "atlas_cell sc c =
     (let len = atlas_len sc
      in (of_int (int c mod \<lfloor>len\<rfloor>) / len, of_int \<lfloor>of_int (int c) / len\<rfloor> / len, 1 / len))"

text \<open>The cell's scissor and viewport rectangle \<open>(ires, jres, res, res)\<close>.\<close>

definition atlas_rect :: "int \<Rightarrow> int \<Rightarrow> nat \<Rightarrow> int \<times> int \<times> int \<times> int" where
  "atlas_rect sc res c =
     (let len = atlas_len sc
      in ((int c mod \<lfloor>len\<rfloor>) * res, \<lfloor>of_int (int c) / len\<rfloor> * res, res, res))"

text \<open>The inner loop: the calls drawn into one light's cell.\<close>

definition atlas_call :: "services \<Rightarrow> light_entity \<Rightarrow> render_call \<Rightarrow> world \<Rightarrow> world" where
  "atlas_call svc l c w =
     (if (\<not> box_in_frustum svc (l_camera l) (rc_model c) (rc_mesh c) \<and> light_type l \<noteq> DIRECTIONAL)
         \<or> alpha_mode (rc_material c) = BLEND then w
      else run [gl_cull (\<not> two_sided (rc_material c)),
        set_uniform ''shadowmap'' ''u_viewprojection'' (UMat (viewprojection_matrix (l_camera l))),
        set_uniform ''shadowmap'' ''u_model'' (UMat (rc_model c)),
        set_uniform ''shadowmap'' ''u_texture''
          (UTex (case color_texture (rc_material c) of None \<Rightarrow> TexNone | Some t \<Rightarrow> TexNamed t) 5),
        set_uniform ''shadowmap'' ''u_alpha_cutoff''
          (UFloat (if alpha_mode (rc_material c) = MASK then alpha_cutoff (rc_material c) else 0)),
        draw (PMesh (rc_mesh c))] w)"

text \<open>The outer loop over \<open>lights\<close>, with the counter \<open>c\<close> of non-point lights.\<close>

fun atlas_lights :: "services \<Rightarrow> int \<Rightarrow> nat \<Rightarrow> nat list \<Rightarrow> world \<Rightarrow> error + world" where
  "atlas_lights svc res c [] w = Inr w"
| "atlas_lights svc res c (i # is) w =
     (case get_light w i of None \<Rightarrow> Inl (BadCast i)
      | Some l \<Rightarrow>
          if light_type l = POINT then atlas_lights svc res c is w
          else (case update_light svc (win_w w) l of Inl e \<Rightarrow> Inl e
                | Inr l1 \<Rightarrow>
                    let sc = shadow_count (rnd w); l2 = l1\<lparr>uvs := atlas_cell sc c\<rparr>;
                        w1 = run [gl_scissor (atlas_rect sc res c), gl_clear False True,
                                  gl_viewport (atlas_rect sc res c)] (put_light i l2 w);
                        w2 = fold (atlas_call svc l2) (calls (rnd w)) w1
                    in atlas_lights svc res (Suc c) is w2))"

definition render_to_atlas :: "services \<Rightarrow> world \<Rightarrow> error + world" where
  "render_to_atlas svc w =
     (if shadow_count (rnd w) = 0 \<or> calls (rnd w) = [] then Inr w
      else if \<not> shader_ok w ''shadowmap'' then Inr w
      else let w1 = enable_shader ''shadowmap'' w;
               res = shadow_res (quality w);
               w2 = w1\<lparr>rnd := (rnd w1)\<lparr>shadow_count := 4\<rparr>\<rparr>;
               n = \<lceil>sqrt (of_int (shadow_count (rnd w2)))\<rceil>;
               w3 = (if atlas (rnd w2) = None
                     then w2\<lparr>rnd := (rnd w2)\<lparr>atlas := Some (depth_only_fbo (res * n))\<rparr>\<rparr> else w2);
               w4 = run [bind_fbo AtlasFbo, gl_color_mask False, gl_scissor_test True] w3
           in case atlas_lights svc res 0 (lights (rnd w4)) w4 of Inl e \<Rightarrow> Inl e
              | Inr w5 \<Rightarrow> Inr (run [unbind_fbo, disable_shader, gl_viewport (0, 0, win_w w5, win_h w5),
                                    gl_scissor_test False, gl_cull True, gl_color_mask True] w5))"

text \<open>Test fixture: the demo world with its directional light fetched and counted.\<close>

definition demo_atlas_world :: world where
  "demo_atlas_world = demo_world\<lparr>rnd := (rnd demo_world)\<lparr>shadow_count := 1, lights := [0]\<rparr>\<rparr>"

declare atlas_len_def [model_defs] atlas_cell_def [model_defs] atlas_rect_def [model_defs]
  atlas_call_def [model_defs] render_to_atlas_def [model_defs]

subsection \<open>Cells of the atlas\<close>

lemma atlas_len_4 [simp]: "atlas_len 4 = 2"
  by (simp add: atlas_len_def)

lemma atlas_cell_4:
  "atlas_cell 4 c = (of_int (int c mod 2) / 2, of_int (int c div 2) / 2, 1 / 2)"
proof -
  have "\<lfloor>real c / 2\<rfloor> = int c div 2" by linarith
  then show ?thesis by (simp add: atlas_cell_def Let_def)
qed

lemma atlas_rect_4:
  "atlas_rect 4 res c = ((int c mod 2) * res, (int c div 2) * res, res, res)"
proof -
  have "\<lfloor>real c / 2\<rfloor> = int c div 2" by linarith
  then show ?thesis by (simp add: atlas_rect_def Let_def)
qed

lemma lt4_cases: "(c :: nat) < 4 \<Longrightarrow> c = 0 \<or> c = 1 \<or> c = 2 \<or> c = 3"
  by auto

lemma atlas_call_frame [simp]:
  "rnd (atlas_call svc l c w) = rnd w" "win_w (atlas_call svc l c w) = win_w w"
  by (simp_all add: atlas_call_def gl_ops_defs draw_def)

lemma fold_atlas_call_frame [simp]:
  "rnd (fold (atlas_call svc l) cs w) = rnd w" "win_w (fold (atlas_call svc l) cs w) = win_w w"
  by (induction cs arbitrary: w) simp_all

lemma atlas_lights_rnd: "atlas_lights svc res c is w = Inr w' \<Longrightarrow> rnd w' = rnd w"
proof (induction svc res c "is" w rule: atlas_lights.induct)
  case (1 svc res c w)
  then show ?case by simp
next
  case (2 svc res c i "is" w)
  then show ?case
    by (auto simp: Let_def gl_ops_defs put_light_def gl_clear_def
        split: option.splits if_splits sum.splits)
qed

subsection \<open>Properties of the atlas\<close>

text \<open>C16: with the \<open>len = 2\<close> grid that \<open>renderToAtlas\<close> always uses, the UV rectangles
  of the first four non-point lights lie inside the atlas and do not overlap.\<close>

theorem atlas_cells_disjoint:
  assumes "c1 < 4" and "c2 < 4" and "c1 \<noteq> c2"
  shows "case atlas_cell 4 c1 of (u1, v1, s) \<Rightarrow> case atlas_cell 4 c2 of (u2, v2, _) \<Rightarrow>
           (u1 + s \<le> u2 \<or> u2 + s \<le> u1 \<or> v1 + s \<le> v2 \<or> v2 + s \<le> v1) \<and>
           0 \<le> u1 \<and> u1 + s \<le> 1 \<and> 0 \<le> v1 \<and> v1 + s \<le> 1"
  using lt4_cases [OF assms(1)] lt4_cases [OF assms(2)] assms(3)
  by (elim disjE) (simp_all add: atlas_cell_4)

theorem atlas_cells_disjoint_witness:
  "atlas_cell 4 0 = (0, 0, 1 / 2) \<and> atlas_cell 4 3 = (1 / 2, 1 / 2, 1 / 2)"
  using atlas_cells_disjoint [of 0 3] by (simp add: atlas_cell_4)

text \<open>C17: the fifth and every later non-point light gets a cell outside the atlas: its
  UV offset is at least 1 and its scissor rectangle starts at or beyond the atlas side
  \<open>2 * res\<close>, so its shadow is neither rendered into the atlas nor sampled from it.\<close>

theorem atlas_cell_outside:
  assumes "4 \<le> c" and "0 < res"
  shows "1 \<le> fst (snd (atlas_cell 4 c)) \<and> 2 * res \<le> fst (snd (atlas_rect 4 res c))"
proof -
  have "2 \<le> int c div 2" using assms(1) by linarith
  then show ?thesis using assms(2) by (simp add: atlas_cell_4 atlas_rect_4)
qed

theorem atlas_cell_outside_witness:
  "atlas_cell 4 4 = (0, 1, 1 / 2) \<and> atlas_rect 4 2048 4 = (0, 4096, 2048, 2048)"
  using atlas_cell_outside [of 4 2048] by (simp add: atlas_cell_4 atlas_rect_4)

text \<open>C18: with no shadow-counted light or no call, \<open>renderToAtlas\<close> changes nothing:
  no atlas is allocated and nothing is drawn.\<close>

theorem render_to_atlas_skip:
  "shadow_count (rnd w) = 0 \<or> calls (rnd w) = [] \<Longrightarrow> render_to_atlas svc w = Inr w"
  by (simp add: render_to_atlas_def)

theorem render_to_atlas_skip_witness: "render_to_atlas demo_svc demo_world = Inr demo_world"
  using render_to_atlas_skip [of demo_world demo_svc]
  by (simp add: demo_world_def renderer_new_def)

text \<open>C19: whenever \<open>renderToAtlas\<close> does its work, it leaves \<open>shadow_count = 4\<close> and, on
  first use, allocates an atlas of side \<open>2 * res\<close>, whatever the number of lights.\<close>

lemma render_to_atlas_rnd:
  assumes "render_to_atlas svc w = Inr w'" and "shadow_count (rnd w) \<noteq> 0" and "calls (rnd w) \<noteq> []"
    and "shader_ok w ''shadowmap''"
  shows "rnd w' = (rnd w)\<lparr>shadow_count := 4, atlas := (if atlas (rnd w) = None
            then Some (depth_only_fbo (shadow_res (quality w) * 2)) else atlas (rnd w))\<rparr>"
  using assms
  by (auto simp: render_to_atlas_def Let_def enable_shader_def split: sum.splits dest!: atlas_lights_rnd)

theorem render_to_atlas_fixed_grid:
  assumes "shadow_count (rnd w) \<noteq> 0" and "calls (rnd w) \<noteq> []" and "shader_ok w ''shadowmap''"
    and "render_to_atlas svc w = Inr w'"
  shows "shadow_count (rnd w') = 4 \<and>
         (atlas (rnd w) = None \<longrightarrow> atlas (rnd w') = Some (depth_only_fbo (2 * shadow_res (quality w))))"
  using render_to_atlas_rnd [OF assms(4,1-3)] by (simp add: mult.commute)

theorem render_to_atlas_fixed_grid_witness:
  "\<exists>w'. render_to_atlas demo_svc demo_atlas_world = Inr w' \<and> shadow_count (rnd w') = 4 \<and>
     atlas (rnd w') = Some (depth_only_fbo 4096)"
proof -
  have "\<exists>w'. render_to_atlas demo_svc demo_atlas_world = Inr w'"
    by (simp add: render_to_atlas_def demo_atlas_world_def demo_world_def renderer_new_def
        get_light_def demo_dir_light_def update_light_def Let_def)
  then obtain w' where w': "render_to_atlas demo_svc demo_atlas_world = Inr w'" ..
  have h: "shadow_count (rnd demo_atlas_world) \<noteq> 0" "calls (rnd demo_atlas_world) \<noteq> []"
    "shader_ok demo_atlas_world ''shadowmap''" "atlas (rnd demo_atlas_world) = None"
    "quality demo_atlas_world = MEDIUM"
    by (simp_all add: demo_atlas_world_def demo_world_def renderer_new_def)
  show ?thesis
    using render_to_atlas_fixed_grid [OF h(1-3) w'] h(4,5) w' by (simp add: shadow_res_def)
qed

end
