(* ===== verification/Frame.thy ===== *)
theory Frame
  imports Deferred Atlas "HOL-Library.Signed_Division"
begin

text \<open>
  The frame driver of \<open>src/src/renderer.cpp\<close>: \<open>Renderer::renderScene\<close> (clear, fetch the
  entities, the shadow passes of the light mode, then the forward or the deferred pipeline)
  and \<open>Renderer::renderToFBO\<close>, which runs \<open>renderScene\<close> into the illumination FBO and then
  the post-processing chain (FXAA, separable blur, depth of field, motion blur, bloom via
  \<open>applyBloom\<close>, chromatic aberration, grain, tone mapping), records the view-projection
  for the next frame's motion blur and draws the debug views (\<open>showGbuffers\<close>,
  \<open>renderShadowmaps\<close>, \<open>renderAtlas\<close>). The clock of the grain pass,
  \<open>abs(cos(getTime()))\<close>, is a parameter.
\<close>

subsection \<open>Framework helpers\<close>

definition vscale :: "real \<Rightarrow> vec3 \<Rightarrow> vec3" where
  "vscale k v = (case v of (x, y, z) \<Rightarrow> (k * x, k * y, k * z))"

text \<open>\<open>Vector3::normalize\<close>: the vector divided by its length.\<close>

definition vnormalize :: "vec3 \<Rightarrow> vec3" where
  "vnormalize v = vscale (1 / vdistance v vzero) v"

text \<open>\<open>Texture::toViewport(shader)\<close>: a full-screen quad sampling the texture through
  \<open>u_texture\<close>; without a shader the framework's screen shader is used.\<close>

definition to_viewport :: "string \<Rightarrow> tex \<Rightarrow> (world \<Rightarrow> world) list" where
  "to_viewport sh t =
     [enable_shader sh, set_uniform sh ''u_texture'' (UTex t 0), draw (PToViewport t), disable_shader]"

text \<open>\<open>Shader::Get(sh)->enable()\<close> followed by the passes that use the shader: a shader that
  did not load is a null pointer.\<close>

definition with_shader :: "string \<Rightarrow> (world \<Rightarrow> error + world) \<Rightarrow> world \<Rightarrow> error + world" where
  "with_shader sh f w = (if \<not> shader_ok w sh then Inl (NullDeref sh) else f (enable_shader sh w))"

subsection \<open>\<open>Renderer::renderScene\<close>\<close>

text \<open>The shadow pass of one light of \<open>lights\<close>, taken only if the light casts shadows.\<close>

definition light_shadow :: "services \<Rightarrow> nat \<Rightarrow> world \<Rightarrow> error + world" where
  "light_shadow svc i w =
     (case get_light w i of
        None \<Rightarrow> Inl (BadCast i)
      | Some l \<Rightarrow> if cast_shadows l then shadow_mapping svc i w else Inr w)"

definition scene_shadows :: "services \<Rightarrow> world \<Rightarrow> error + world" where
  "scene_shadows svc w =
     (let r = rnd w in
      if light_mode r = MULTI then
        ebind (fold_err (light_shadow svc) (lights r) w) (\<lambda>w1.
          if render_mode (rnd w1) = DEFERRED then
            (case directional_light (rnd w1) of None \<Rightarrow> Inr w1 | Some d \<Rightarrow> light_shadow svc d w1)
          else Inr w1)
      else if light_mode r = SINGLE then render_to_atlas svc w
      else Inr w)"

definition render_scene :: "services \<Rightarrow> camera \<Rightarrow> world \<Rightarrow> error + world" where
  "render_scene svc cam w =
     (let w1 = gl_clear True True w;
          w2 = w1\<lparr>rnd := fetch_scene_entities svc cam True True True True (entities (w_scene w1)) (rnd w1)\<rparr>
      in ebind (scene_shadows svc w2) (\<lambda>w3.
         if render_mode (rnd w3) = FORWARD then
           ebind (render_calls svc cam FORWARD (calls (rnd w3)) (bind_fbo IlluminationFbo w3))
             (\<lambda>w4. Inr (run [unbind_fbo, gl_blend False, gl_depth_test False] w4))
         else if render_mode (rnd w3) = DEFERRED then render_deferred svc cam (calls (rnd w3)) w3
         else Inr w3))"

subsection \<open>Debug views\<close>

text \<open>\<open>Renderer::renderAtlas\<close>: the near/far planes and types of the shadow-casting
  non-point lights go into arrays of \<open>max_lights\<close> entries, then the atlas depth is drawn
  into a corner viewport.\<close>

definition render_atlas :: "world \<Rightarrow> error + world" where
  "render_atlas w =
     ebind (fetch_lights w (lights (rnd w))) (\<lambda>ls.
       let sl = filter (\<lambda>l. light_type l \<noteq> POINT \<and> cast_shadows l) ls; c = length sl;
           ww = win_w w; wh = win_h w
       in if max_lights < c then Inl (ArrayOverflow c)
          else if \<not> shader_ok w ''atlas'' then Inl (NullDeref ''atlas'')
          else case atlas (rnd w) of
            None \<Rightarrow> Inl (NullDeref ''atlas'')
          | Some _ \<Rightarrow> Inr (run ([gl_blend False, enable_shader ''atlas'',
                set_uniform ''atlas'' ''u_camera_nearfars''
                  (UFloatArr (concat (map (\<lambda>l. [near_plane (l_camera l), far_plane (l_camera l)]) sl))),
                set_uniform ''atlas'' ''u_light_types'' (UIntArr (map (\<lambda>l. light_type_code (light_type l)) sl)),
                set_uniform ''atlas'' ''u_total_lights'' (UInt (int c)),
                gl_viewport (30, 30, float_to_int (real_of_int ww * 0.5 - 30),
                             float_to_int (real_of_int wh * 0.5 - 30))] @
                to_viewport ''atlas'' TexAtlasDepth @
                [disable_shader, gl_viewport (0, 0, ww, wh)]) w))"

text \<open>\<open>Renderer::renderShadowmaps\<close>. In deferred mode the directional light is pushed onto
  \<open>lights\<close> before indexing it with \<open>depth_light\<close>; when there is no directional light
  the pushed entry is a null pointer, which the local list \<open>ls\<close> records as \<open>None\<close> (the
  renderer's list, a list of indices, keeps only the lights that exist).\<close>

definition render_shadowmaps :: "world \<Rightarrow> error + world" where
  "render_shadowmaps w =
     (let r = rnd w in
      ebind (if lights r \<noteq> [] \<and> depth_viewport r \<and> light_mode r = MULTI then
        (let ls = map Some (lights r) @ (if render_mode r = DEFERRED then [directional_light r] else []);
             w1 = (if render_mode r = DEFERRED then
                     (case directional_light r of
                        Some d \<Rightarrow> w\<lparr>rnd := r\<lparr>lights := lights r @ [d]\<rparr>\<rparr>
                      | None \<Rightarrow> w)
                   else w);
             k = nat (depth_light r)
         in if depth_light r < 0 \<or> length ls \<le> k then Inl (ArrayOverflow k)
            else case ls ! k of
              None \<Rightarrow> Inl (NullDeref ''light'')
            | Some i \<Rightarrow>
                (case get_light w1 i of
                   None \<Rightarrow> Inl (BadCast i)
                 | Some l \<Rightarrow>
                     if \<not> cast_shadows l then Inr w1
                     else if \<not> shader_ok w1 ''depth'' then Inl (NullDeref ''depth'')
                     else if shadow_fbo l = None then Inl (NullDeref ''shadow_fbo'')
                     else Inr (run ([gl_viewport (20, 20, win_w w1 sdiv 4, win_h w1 sdiv 4),
                                     enable_shader ''depth'',
                                     set_uniform ''depth'' ''u_cam_type''
                                       (UInt (if light_type l = DIRECTIONAL then 0 else 1)),
                                     set_uniform ''depth'' ''u_camera_nearfar''
                                       (UFloatArr [near_plane (l_camera l), far_plane (l_camera l)])] @
                                    to_viewport ''depth'' (TexShadowDepth i)) w1)))
        else Inr w) (\<lambda>w2.
      if light_mode (rnd w2) = SINGLE \<and> depth_viewport (rnd w2) \<and> 0 < shadow_count (rnd w2)
      then render_atlas w2 else Inr w2))"

text \<open>\<open>Renderer::showGbuffers\<close>: four quadrants, either metallic, occlusion, roughness and
  the SSAO result, or bloom, normals, extra and the linearised depth.\<close>

definition show_gbuffers_view :: "camera \<Rightarrow> world \<Rightarrow> error + world" where
  "show_gbuffers_view cam w =
     (let r = rnd w; ww = win_w w; wh = win_h w;
          hw = float_to_int (real_of_int ww * 0.5); hh = float_to_int (real_of_int wh * 0.5)
      in if show_omr r then
           (if \<not> shader_ok w ''omr'' then Inl (NullDeref ''omr'')
            else Inr (run ([gl_viewport (0, 0, hw, hh)] @ to_viewport ''omr'' (TexGBuffer 2) @
                           [gl_viewport (hw, hh, hw, hh)] @ to_viewport ''omr'' (TexGBuffer 1) @
                           [gl_viewport (0, hh, hw, hh)] @ to_viewport ''omr'' (TexGBuffer 0) @
                           [gl_viewport (hw, 0, hw, hh)] @
                           (if activate_ssao r
                            then to_viewport ''screen'' (TexSSAO (if ssao_blur (r_ssao r) then 1 else 0))
                            else [])) w))
         else if \<not> shader_ok w ''hdr'' then Inl (NullDeref ''hdr'')
         else if \<not> shader_ok w ''depth'' then Inl (NullDeref ''depth'')
         else Inr (run ([enable_shader ''hdr'', set_uniform ''hdr'' ''u_hdr'' (UBool False),
                         gl_viewport (0, 0, hw, hh)] @ to_viewport ''hdr'' TexBloom @
                        [gl_viewport (hw, hh, hw, hh)] @ to_viewport ''hdr'' (TexGBuffer 1) @
                        [gl_viewport (hw, 0, hw, hh)] @ to_viewport ''screen'' (TexGBuffer 2) @
                        [gl_viewport (0, hh, hw, hh), enable_shader ''depth'',
                         set_uniform ''depth'' ''u_camera_nearfar'' (UFloatArr [near_plane cam, far_plane cam])] @
                        to_viewport ''depth'' TexIllumDepth) w))"

subsection \<open>\<open>Renderer::renderToFBO\<close>\<close>

text \<open>The blur loop: \<open>blur_iterations\<close> passes of the \<open>blur\<close> shader, alternating the
  direction, each sampling the blurred texture while its FBO is bound.\<close>

fun blur_passes :: "nat \<Rightarrow> bool \<Rightarrow> world \<Rightarrow> world" where
  "blur_passes 0 h w = w"
| "blur_passes (Suc n) h w =
     blur_passes n (\<not> h) (run [bind_fbo BlurredFbo,
        set_uniform ''blur'' ''image'' (UTex TexBlurred 0), set_uniform ''blur'' ''horizontal'' (UBool h),
        draw PQuad, unbind_fbo] w)"

text \<open>\<open>Renderer::applyBloom\<close>: the bright-pass of the blurred image into the bloom FBO.\<close>

definition apply_bloom :: "world \<Rightarrow> error + world" where
  "apply_bloom w =
     (if \<not> shader_ok w ''bloom'' then Inl (NullDeref ''bloom'')
      else Inr (run [bind_fbo BloomFbo, enable_shader ''bloom'',
                     set_uniform ''bloom'' ''image'' (UTex TexBlurred 15),
                     set_uniform ''bloom'' ''th'' (UFloat (bloom_th (rnd w))),
                     set_uniform ''bloom'' ''soft_th'' (UFloat (bloom_soft_th (rnd w))),
                     draw PQuad, disable_shader, unbind_fbo] w))"

text \<open>The first three effects: FXAA into ping, the blur of a copy, depth of field into pong,
  motion blur back into ping.\<close>

definition post_fx_first :: "services \<Rightarrow> camera \<Rightarrow> world \<Rightarrow> error + world" where
  "post_fx_first svc cam w =
     (let r = rnd w; ww = real_of_int (win_w w); wh = real_of_int (win_h w);
          inv_vp = inverse svc (viewprojection_matrix cam);
          focal = vadd (eye cam) (vscale (focal_dist r) (vnormalize (vsub (center cam) (eye cam))))
      in with_shader ''fxaa'' (\<lambda>w1.
         with_shader ''blur'' (\<lambda>w2.
         with_shader ''dof'' (\<lambda>w3.
         with_shader ''motionblur'' (\<lambda>w4. Inr (run (
            [set_uniform ''motionblur'' ''u_prev_vp'' (UMat (prev_vp r)),
             set_uniform ''motionblur'' ''u_inverse_viewprojection'' (UMat inv_vp),
             set_uniform ''motionblur'' ''u_texture'' (UTex TexPong 0),
             set_uniform ''motionblur'' ''u_depth_texture'' (UTex TexIllumDepth 1)] @
            to_viewport ''motionblur'' TexPong @ [unbind_fbo]) w4))
           (run ([set_uniform ''dof'' ''focusTexture'' (UTex TexPing 0),
                  set_uniform ''dof'' ''outOfFocusTexture'' (UTex TexBlurred 1),
                  set_uniform ''dof'' ''u_depth_texture'' (UTex TexIllumDepth 2),
                  set_uniform ''dof'' ''u_inverse_viewprojection'' (UMat inv_vp),
                  set_uniform ''dof'' ''u_iRes'' (UFloatArr [1 / ww, 1 / wh]),
                  set_uniform ''dof'' ''u_focus_point'' (UVec3 focal),
                  set_uniform ''dof'' ''minDistance'' (UFloat (min_dist_dof r)),
                  set_uniform ''dof'' ''maxDistance'' (UFloat (max_dist_dof r))] @
                 to_viewport ''dof'' TexPing @ [unbind_fbo, bind_fbo PingFbo]) w3))
           (run [disable_shader, bind_fbo PongFbo] (blur_passes (nat (blur_iterations r)) True w2)))
           (copy_tex TexPing TexBlurred
              (run ([set_uniform ''fxaa'' ''u_iViewportSize'' (UFloatArr [1 / ww, 1 / wh]),
                     set_uniform ''fxaa'' ''u_ViewportSize'' (UFloatArr [ww, wh]),
                     set_uniform ''fxaa'' ''tex'' (UTex TexIllum 0)] @
                    to_viewport ''fxaa'' TexPong @ [unbind_fbo, disable_shader]) w1)))
         (bind_fbo PingFbo w))"

text \<open>The last effects: bloom added into ping, chromatic aberration into pong, grain into
  ping, then tone mapping to the screen.\<close>

definition post_fx_last :: "real \<Rightarrow> world \<Rightarrow> error + world" where
  "post_fx_last tm w =
     ebind (apply_bloom w) (\<lambda>w1.
       let r = rnd w1; ww = real_of_int (win_w w1); wh = real_of_int (win_h w1);
           w2 = run ([bind_fbo PingFbo, gl_blend True, gl_blend_func GL_ONE GL_ONE] @
                     to_viewport ''screen'' TexBloom @ [unbind_fbo, gl_blend False, bind_fbo PongFbo]) w1
       in with_shader ''ca'' (\<lambda>w3.
          with_shader ''grain'' (\<lambda>w4.
          with_shader ''hdr'' (\<lambda>w5. Inr (run (
             [set_uniform ''hdr'' ''u_hdr'' (UBool (hdr_active r)),
              set_uniform ''hdr'' ''u_texture_bloom'' (UTex TexBloom 1)] @
             (if hdr_active r then
                [set_uniform ''hdr'' ''u_scale'' (UFloat (hdr_scale r)),
                 set_uniform ''hdr'' ''u_average_lum'' (UFloat (hdr_average_lum r)),
                 set_uniform ''hdr'' ''u_lumwhite2'' (UFloat (hdr_white_balance r)),
                 set_uniform ''hdr'' ''u_igamma'' (UFloat (1 / hdr_gamma r))]
              else []) @
             gl_blend False # to_viewport ''hdr'' TexPing) w5))
            (run ([set_uniform ''grain'' ''tDiffuse'' (UTex TexPong 0),
                   set_uniform ''grain'' ''amount'' (UFloat tm),
                   set_uniform ''grain'' ''noise_amount'' (UFloat (noise_amount r))] @
                  to_viewport ''grain'' TexPong @ [unbind_fbo]) w4))
            (run ([set_uniform ''ca'' ''resolution'' (UFloatArr [ww, wh]),
                   set_uniform ''ca'' ''tInput'' (UTex TexPing 0),
                   set_uniform ''ca'' ''u_lens_dist'' (UFloat (lens_dist r))] @
                  to_viewport ''ca'' TexPing @ [unbind_fbo, disable_shader, bind_fbo PingFbo]) w3))
          w2)"

definition render_to_fbo :: "services \<Rightarrow> camera \<Rightarrow> real \<Rightarrow> world \<Rightarrow> error + world" where
  "render_to_fbo svc cam tm w =
     ebind (render_scene svc cam w) (\<lambda>w1.
     ebind (post_fx_first svc cam w1) (\<lambda>w2.
     ebind (post_fx_last tm w2) (\<lambda>w3.
     let w4 = w3\<lparr>rnd := (rnd w3)\<lparr>prev_vp := viewprojection_matrix cam\<rparr>\<rparr> in
     ebind (if render_mode (rnd w4) = DEFERRED \<and> show_gbuffers (rnd w4) then show_gbuffers_view cam w4
            else Inr w4) render_shadowmaps)))"

subsection \<open>Fixtures\<close>

text \<open>The one-light world of \<open>Shadows\<close> in the forward pipeline.\<close>

definition demo_forward_world :: world where
  "demo_forward_world =
     demo_world\<lparr>w_scene := (w_scene demo_world)\<lparr>entities := [ELight demo_dir_light]\<rparr>,
                rnd := (rnd demo_world)\<lparr>render_mode := FORWARD\<rparr>\<rparr>"

subsection \<open>Passes of a frame and their render targets\<close>

lemma fetch_entity_modes [simp]:
  "render_mode (fetch_entity svc cam fp fl fpr fg es r i) = render_mode r"
  "light_mode (fetch_entity svc cam fp fl fpr fg es r i) = light_mode r"
  by (auto simp: fetch_entity_def fetch_light_def Let_def split: entity.splits option.splits)

lemma foldl_fetch_modes [simp]:
  "render_mode (foldl (fetch_entity svc cam fp fl fpr fg es) r is) = render_mode r"
  "light_mode (foldl (fetch_entity svc cam fp fl fpr fg es) r is) = light_mode r"
  by (induction "is" arbitrary: r) simp_all

lemma fetch_scene_entities_modes [simp]:
  "render_mode (fetch_scene_entities svc cam fp fl fpr fg es r) = render_mode r"
  "light_mode (fetch_scene_entities svc cam fp fl fpr fg es r) = light_mode r"
  by (simp_all add: fetch_scene_entities_def Let_def)

lemma shadow_mesh_target:
  "keeps_target w (render_mesh_with_material_shadow m me ma l w)"
  unfolding render_mesh_with_material_shadow_def Let_def
  by (auto simp del: run_simps intro!: keeps_target_run)

lemma shadow_calls_target: "keeps_target w (shadow_calls svc l cs w)"
  unfolding shadow_calls_def
  by (rule fold_rel) (auto intro: keeps_target_trans shadow_mesh_target)

lemma shadow_calls_frame_eq: "frame_eq w (shadow_calls svc l cs w)"
proof -
  have "frame_eq w0 (render_mesh_with_material_shadow m me ma l w0)" for m me ma w0
    by (simp add: render_mesh_with_material_shadow_def Let_def frame_eq_def)
  then show ?thesis unfolding shadow_calls_def
    by - (rule fold_rel, auto intro: frame_eq_trans)
qed

lemma shadow_mapping_into_shadow_fbo:
  assumes "shadow_mapping svc i w = Inr w'"
  shows "rnd w' = rnd w \<and> shader_ok w' = shader_ok w \<and>
    (\<exists>ds. draws (trace w') = draws (trace w) @ ds \<and>
       (\<forall>d\<in>set ds. bound_fbo (snd d) = Some (ShadowFbo i)))"
proof -
  obtain l l1 f where l1: "update_light svc (win_w w) l = Inr l1" "get_light w i = Some l"
    and f: "shadow_fbo l1 = Some f"
    using assms by (auto simp: shadow_mapping_def split: option.splits sum.splits)
  define w1 where "w1 = run [bind_fbo (ShadowFbo i), gl_color_mask False, gl_clear False True] (put_light i l1 w)"
  have w': "w' = run [unbind_fbo, gl_color_mask True] (shadow_calls svc l1 (calls (rnd w)) w1)"
    using assms l1 f by (simp add: shadow_mapping_def w1_def Let_def del: run_simps)
  have g1: "bound_fbo (gls w1) = Some (ShadowFbo i)" "draws (trace w1) = draws (trace w)"
    "rnd w1 = rnd w" "shader_ok w1 = shader_ok w"
    by (simp_all add: w1_def gl_ops_defs gl_clear_def put_light_def)
  have k: "keeps_target w1 (shadow_calls svc l1 (calls (rnd w)) w1)" by (rule shadow_calls_target)
  have fr: "frame_eq w1 (shadow_calls svc l1 (calls (rnd w)) w1)" by (rule shadow_calls_frame_eq)
  show ?thesis
    using keeps_target_draws [OF k] g1 fr unfolding w'
    by (auto simp: frame_eq_def gl_ops_defs)
qed

lemma light_shadow_loop:
  "fold_err (light_shadow svc) is w = Inr w' \<Longrightarrow>
   rnd w' = rnd w \<and> shader_ok w' = shader_ok w \<and>
   (\<exists>ds. draws (trace w') = draws (trace w) @ ds \<and>
      (\<forall>d\<in>set ds. \<exists>i. bound_fbo (snd d) = Some (ShadowFbo i)))"
proof (induction "is" arbitrary: w)
  case Nil
  then show ?case by simp
next
  case (Cons i "is")
  obtain w1 where s: "light_shadow svc i w = Inr w1" and r: "fold_err (light_shadow svc) is w1 = Inr w'"
    using Cons.prems by (auto simp: ebind_Inr_iff)
  have "rnd w1 = rnd w \<and> shader_ok w1 = shader_ok w \<and>
      (\<exists>ds. draws (trace w1) = draws (trace w) @ ds \<and> (\<forall>d\<in>set ds. bound_fbo (snd d) = Some (ShadowFbo i)))"
    using s shadow_mapping_into_shadow_fbo [of svc i w w1]
    by (auto simp: light_shadow_def split: option.splits if_splits)
  then show ?case using Cons.IH [OF r] by fastforce
qed

lemma render_skybox_target: "render_skybox svc e cam w = Inr w' \<Longrightarrow> keeps_target w w'"
  unfolding render_skybox_def by (auto simp del: run_simps split: if_splits intro!: keeps_target_run)

lemma render_calls_target:
  assumes "render_calls svc cam pl cs w = Inr w'"
  shows "keeps_target w w'"
proof -
  obtain w1 where w1: "(case environment (w_scene w) of None \<Rightarrow> Inr (gl_clear True True w)
            | Some e \<Rightarrow> render_skybox svc e cam (gl_clear True True w)) = Inr w1"
    and r: "draw_calls svc cam pl cs w1 = Inr w'"
    using assms unfolding render_calls_def draw_calls_def [symmetric] ebind_Inr_iff by blast
  have "keeps_target w w1"
  proof (cases "environment (w_scene w)")
    case None
    then have "w1 = gl_clear True True w" using w1 by simp
    then show ?thesis by simp
  next
    case (Some e)
    then have "render_skybox svc e cam (gl_clear True True w) = Inr w1" using w1 by simp
    from keeps_target_gl_ops(15) [of w True True] render_skybox_target [OF this]
    show ?thesis by (rule keeps_target_trans)
  qed
  then show ?thesis using draw_calls_frame [OF r] by (blast intro: keeps_target_trans)
qed

text \<open>C33: in forward multi-pass mode, renderScene issues every shadow-map draw before any
  lit draw: the new draws are the shadow passes, each into a light's shadow FBO, followed by
  the lighting passes, all into the illumination FBO.\<close>
theorem render_scene_shadows_first:
  assumes ok: "render_scene svc cam w = Inr w'"
    and m: "light_mode (rnd w) = MULTI" "render_mode (rnd w) = FORWARD"
  shows "\<exists>s l. draws (trace w') = draws (trace w) @ s @ l \<and>
    (\<forall>d\<in>set s. \<exists>i. bound_fbo (snd d) = Some (ShadowFbo i)) \<and>
    (\<forall>d\<in>set l. bound_fbo (snd d) = Some IlluminationFbo)"
proof -
  define w2 where "w2 = (gl_clear True True w)\<lparr>rnd := fetch_scene_entities svc cam True True True True
      (entities (w_scene (gl_clear True True w))) (rnd (gl_clear True True w))\<rparr>"
  have m2: "light_mode (rnd w2) = MULTI" "render_mode (rnd w2) = FORWARD" "draws (trace w2) = draws (trace w)"
    using m by (simp_all add: w2_def gl_clear_def)
  obtain w3 where sh: "scene_shadows svc w2 = Inr w3"
    and rest: "(if render_mode (rnd w3) = FORWARD then
           ebind (render_calls svc cam FORWARD (calls (rnd w3)) (bind_fbo IlluminationFbo w3))
             (\<lambda>w4. Inr (run [unbind_fbo, gl_blend False, gl_depth_test False] w4))
         else if render_mode (rnd w3) = DEFERRED then render_deferred svc cam (calls (rnd w3)) w3
         else Inr w3) = Inr w'"
    using ok unfolding render_scene_def Let_def w2_def [symmetric] ebind_Inr_iff by blast
  obtain a where l: "fold_err (light_shadow svc) (lights (rnd w2)) w2 = Inr a"
    and a: "(if render_mode (rnd a) = DEFERRED
           then case directional_light (rnd a) of None \<Rightarrow> Inr a | Some d \<Rightarrow> light_shadow svc d a
           else Inr a) = Inr w3"
    using sh m2 by (auto simp: scene_shadows_def ebind_Inr_iff)
  obtain s where s: "draws (trace a) = draws (trace w) @ s"
      "\<forall>d\<in>set s. \<exists>i. bound_fbo (snd d) = Some (ShadowFbo i)" and ra: "rnd a = rnd w2"
    using light_shadow_loop [OF l] m2 by auto
  have "w3 = a" using a ra m2 by simp
  then have r3: "rnd w3 = rnd w2" and s3: "draws (trace w3) = draws (trace w) @ s" using ra s by simp_all
  obtain w4 where rc: "render_calls svc cam FORWARD (calls (rnd w3)) (bind_fbo IlluminationFbo w3) = Inr w4"
    and fin: "w' = run [unbind_fbo, gl_blend False, gl_depth_test False] w4"
    using rest r3 m2 by (auto simp: ebind_Inr_iff simp del: run_simps)
  obtain l where l: "draws (trace w4) = draws (trace (bind_fbo IlluminationFbo w3)) @ l"
      "\<forall>d\<in>set l. bound_fbo (snd d) = bound_fbo (gls (bind_fbo IlluminationFbo w3))"
    using keeps_target_draws [OF render_calls_target [OF rc]] by blast
  show ?thesis
    using s3 s(2) l unfolding fin by (intro exI [of _ s] exI [of _ l]) (auto simp: gl_ops_defs)
qed

theorem render_scene_shadows_first_witness:
  "\<exists>w'. render_scene demo_svc demo_camera demo_forward_world = Inr w' \<and>
     (\<forall>d\<in>set (draws (trace w')). (\<exists>i. bound_fbo (snd d) = Some (ShadowFbo i)) \<or>
        bound_fbo (snd d) = Some IlluminationFbo)"
proof -
  have "\<exists>w'. render_scene demo_svc demo_camera demo_forward_world = Inr w'"
    by (simp add: render_scene_def scene_shadows_def light_shadow_def shadow_mapping_def
        update_light_def render_calls_def fetch_scene_entities_def fetch_entity_def fetch_light_def
        demo_forward_world_def demo_prefab_def lit_eval demo_svc_def prefab_calls_def
        rc_sort_def shadow_calls_def render_mesh_with_material_shadow_def put_light_def)
  then obtain w' where w': "render_scene demo_svc demo_camera demo_forward_world = Inr w'" ..
  have h: "light_mode (rnd demo_forward_world) = MULTI" "render_mode (rnd demo_forward_world) = FORWARD"
    "trace demo_forward_world = []"
    by (simp_all add: demo_forward_world_def demo_world_def renderer_new_def)
  show ?thesis using render_scene_shadows_first [OF w' h(1,2)] w' h(3) by fastforce
qed

end
