(* ===== verification/Reflections.thy ===== *)
theory Reflections
  imports Frame
begin

text \<open>
  The reflection-probe bake \<open>Renderer::updateReflectionProbes\<close> of
  \<open>src/src/renderer.cpp\<close>: for every probe of \<open>reflection_probes\<close> and every cubemap
  face, the face of the probe's cubemap is attached to the reflections FBO, a 90 degree
  square camera at the probe looks along the face direction and the calls are rendered
  forward into that FBO; the probe's mipmaps are regenerated after its six faces. One camera
  object is reused by every face of every probe, so the camera is threaded through the loops.
\<close>

subsection \<open>Framework helpers\<close>

text \<open>\<open>FBO::setTexture(texture, face)\<close>: the face of a cubemap becomes the colour
  attachment of the FBO.\<close>

definition fbo_set_texture :: "fbo_name \<Rightarrow> tex \<Rightarrow> nat \<Rightarrow> world \<Rightarrow> world" where
  "fbo_set_texture f t k w = w\<lparr>trace := trace w @ [AttachTex f t k]\<rparr>"

text \<open>\<open>Texture::generateMipmaps()\<close>.\<close>

definition gen_mipmaps :: "tex \<Rightarrow> world \<Rightarrow> world" where
  "gen_mipmaps t w = w\<lparr>trace := trace w @ [GenMipmaps t]\<rparr>"

subsection \<open>\<open>Renderer::updateReflectionProbes\<close>\<close>

text \<open>One face \<open>k\<close> (with its front and up directions) of the probe at entity index \<open>i\<close>
  and position \<open>e\<close>: attach, bind, look, render, unbind.\<close>

fun refl_face ::
  "services \<Rightarrow> nat \<Rightarrow> vec3 \<Rightarrow> nat \<times> vec3 \<times> vec3 \<Rightarrow> camera \<times> world \<Rightarrow> error + camera \<times> world"
where
  "refl_face svc i e (k, front, u) (cam, w) =
     (let w1 = bind_fbo ReflectionsFbo (fbo_set_texture ReflectionsFbo (TexCubemap i) k w);
          cam1 = camera_look_at svc cam e (vadd e front) u
      in ebind (render_calls svc cam1 FORWARD (calls (rnd w1)) w1) (\<lambda>w2. Inr (cam1, unbind_fbo w2)))"

text \<open>The body of the probe loop: the six faces, then \<open>probe->cubemap->generateMipmaps()\<close>.\<close>

definition refl_probe_bake :: "services \<Rightarrow> nat \<Rightarrow> camera \<times> world \<Rightarrow> error + camera \<times> world" where
  "refl_probe_bake svc i cw =
     ebind (get_refl_probe (snd cw) i) (\<lambda>p.
       ebind (fold_err (refl_face svc i (get_translation (model p))) (zip [0..<6] cube_faces) cw)
         (\<lambda>cw1. Inr (fst cw1, gen_mipmaps (TexCubemap i) (snd cw1))))"

text \<open>\<open>Renderer::updateReflectionProbes\<close>; \<open>c0\<close> is the default-constructed \<open>Camera cam\<close>
  before \<open>setPerspective(90, 1, 0.1, 1000)\<close>.\<close>

definition update_reflection_probes :: "services \<Rightarrow> camera \<Rightarrow> world \<Rightarrow> error + world" where
  "update_reflection_probes svc c0 w =
     ebind (fold_err (refl_probe_bake svc) (reflection_probes (rnd w))
              (camera_set_perspective svc c0 90 1 0.1 1000, w))
       (\<lambda>cw. Inr (snd cw))"

subsection \<open>Proof-level definitions and fixtures\<close>

text \<open>The events that change what a texture holds outside of drawing.\<close>

fun tex_event :: "gl_event \<Rightarrow> bool" where
  "tex_event (AttachTex _ _ _) = True"
| "tex_event (GenMipmaps _) = True"
| "tex_event _ = False"

text \<open>A bake step from \<open>w\<close> to \<open>w'\<close> that issues the texture events \<open>es\<close>, draws only
  into the reflections FBO and leaves the scene and the renderer alone.\<close>

definition bakes :: "gl_event list \<Rightarrow> world \<Rightarrow> world \<Rightarrow> bool" where
  "bakes es w w' \<longleftrightarrow> frame_eq w w' \<and>
     (\<exists>t. trace w' = trace w @ t \<and> filter tex_event t = es \<and>
          (\<forall>d\<in>set (draws t). bound_fbo (snd d) = Some ReflectionsFbo))"

text \<open>A world holding one reflection probe, listed in \<open>reflection_probes\<close>, and no
  draw calls.\<close>

definition demo_refl_world :: world where
  "demo_refl_world =
     demo_world\<lparr>w_scene := (w_scene demo_world)\<lparr>entities :=
                   [EReflProbe \<lparr>name = ''probe'', model = mat_identity, visible = True, cubemap = ''cube''\<rparr>]\<rparr>,
                rnd := (rnd demo_world)\<lparr>reflection_probes := [0], calls := []\<rparr>\<rparr>"

subsection \<open>The bake issues the faces of every probe in order\<close>

lemma list_all_ev_in_tex_event: "list_all (ev_in f bs) t \<Longrightarrow> filter tex_event t = []"
  by (induction t) (auto simp: ev_in_def split: gl_event.splits)

lemma bakes_nil [simp]: "bakes [] w w"
  by (auto simp: bakes_def)

lemma bakes_append: "bakes a w1 w2 \<Longrightarrow> bakes b w2 w3 \<Longrightarrow> bakes (a @ b) w1 w3"
  unfolding bakes_def by (auto intro: frame_eq_trans)

lemma refl_face_bakes:
  assumes "refl_face svc i e kf cw = Inr cw'"
  shows "bakes [AttachTex ReflectionsFbo (TexCubemap i) (fst kf)] (snd cw) (snd cw')"
proof -
  obtain k front u cam w where kf: "kf = (k, front, u)" and cw: "cw = (cam, w)" by (cases kf, cases cw) auto
  define w1 where "w1 = bind_fbo ReflectionsFbo (fbo_set_texture ReflectionsFbo (TexCubemap i) k w)"
  define cam1 where "cam1 = camera_look_at svc cam e (vadd e front) u"
  have "ebind (render_calls svc cam1 FORWARD (calls (rnd w1)) w1) (\<lambda>w2. Inr (cam1, unbind_fbo w2)) = Inr cw'"
    using assms unfolding kf cw refl_face.simps Let_def w1_def cam1_def .
  then obtain w2 where r: "render_calls svc cam1 FORWARD (calls (rnd w1)) w1 = Inr w2"
    and "Inr (cam1, unbind_fbo w2) = Inr cw'"
    unfolding ebind_Inr_iff by blast
  then have w': "snd cw' = unbind_fbo w2" by auto
  have b: "bound_fbo (gls w1) = Some ReflectionsFbo" by (simp add: w1_def bind_fbo_def)
  obtain t where t: "trace w2 = trace w1 @ t" "list_all (ev_in (bound_fbo (gls w1)) (fbo_buffers (gls w1))) t"
    using render_calls_target [OF r] unfolding keeps_target_def by blast
  have "frame_eq w w1" by (simp add: w1_def frame_eq_def bind_fbo_def fbo_set_texture_def)
  then have "frame_eq w w2" using render_calls_frame [OF r] by (rule frame_eq_trans)
  then have "frame_eq w (snd cw')" unfolding w' using frame_eq_gl_ops(15) by (rule frame_eq_trans)
  moreover have "trace (snd cw') = trace w @ AttachTex ReflectionsFbo (TexCubemap i) k # t"
    using t(1) w' by (simp add: w1_def bind_fbo_def unbind_fbo_def fbo_set_texture_def)
  moreover have "filter tex_event t = []" by (rule list_all_ev_in_tex_event [OF t(2)])
  moreover have "\<forall>d\<in>set (draws t). bound_fbo (snd d) = Some ReflectionsFbo" using draws_ev_in [OF t(2)] b by simp
  ultimately show ?thesis unfolding bakes_def cw kf by auto
qed

lemma refl_probe_bake_bakes:
  assumes "refl_probe_bake svc i cw = Inr cw'"
  shows "bakes (map (AttachTex ReflectionsFbo (TexCubemap i)) [0..<6] @ [GenMipmaps (TexCubemap i)])
           (snd cw) (snd cw')"
proof -
  obtain p cw1 where "get_refl_probe (snd cw) i = Inr p" and f: "fold_err (refl_face svc i (get_translation (model p))) (zip [0..<6] cube_faces) cw = Inr cw1"
    and "Inr (fst cw1, gen_mipmaps (TexCubemap i) (snd cw1)) = Inr cw'"
    using assms unfolding refl_probe_bake_def ebind_Inr_iff by blast
  then have w': "cw' = (fst cw1, gen_mipmaps (TexCubemap i) (snd cw1))" by simp
  have "(\<lambda>cw cw'. bakes (concat (map (\<lambda>kf. [AttachTex ReflectionsFbo (TexCubemap i) (fst kf)])
          (zip [0..<6] cube_faces))) (snd cw) (snd cw')) cw cw1"
    by (rule fold_err_concat [OF _ _ _ f]) (auto intro: bakes_append refl_face_bakes)
  then have "bakes (map (AttachTex ReflectionsFbo (TexCubemap i)) [0..<6]) (snd cw) (snd cw1)"
    by (simp add: cube_faces_def upt_rec)
  moreover have "bakes [GenMipmaps (TexCubemap i)] (snd cw1) (snd cw')"
    by (auto simp: w' bakes_def gen_mipmaps_def frame_eq_def)
  ultimately show ?thesis by (rule bakes_append)
qed

text \<open>C31: a successful reflection-probe bake leaves the scene and the renderer alone, draws
  only into the reflections FBO, and attaches exactly the six faces of each listed probe's
  cubemap, in face order and probe by probe, each probe's faces followed by the regeneration
  of its mipmaps.\<close>
theorem update_reflection_probes_bakes:
  assumes "update_reflection_probes svc c0 w = Inr w'"
  shows "frame_eq w w' \<and>
    (\<exists>t. trace w' = trace w @ t \<and>
       filter tex_event t = concat (map (\<lambda>i. map (AttachTex ReflectionsFbo (TexCubemap i)) [0..<6] @
                                                [GenMipmaps (TexCubemap i)]) (reflection_probes (rnd w))) \<and>
       (\<forall>d\<in>set (draws t). bound_fbo (snd d) = Some ReflectionsFbo))"
proof -
  obtain cw where f: "fold_err (refl_probe_bake svc) (reflection_probes (rnd w))
      (camera_set_perspective svc c0 90 1 0.1 1000, w) = Inr cw" and w': "w' = snd cw"
    using assms unfolding update_reflection_probes_def by (auto simp: ebind_Inr_iff)
  have "(\<lambda>cw cw'. bakes (concat (map (\<lambda>i. map (AttachTex ReflectionsFbo (TexCubemap i)) [0..<6] @
          [GenMipmaps (TexCubemap i)]) (reflection_probes (rnd w)))) (snd cw) (snd cw'))
          (camera_set_perspective svc c0 90 1 0.1 1000, w) cw"
    by (rule fold_err_concat [OF _ _ _ f]) (auto intro: bakes_append refl_probe_bake_bakes)
  then show ?thesis unfolding w' bakes_def by simp
qed

theorem update_reflection_probes_bakes_witness:
  "\<exists>w'. update_reflection_probes demo_svc demo_camera demo_refl_world = Inr w' \<and>
     (\<exists>t. trace w' = trace demo_refl_world @ t \<and>
        filter tex_event t = map (AttachTex ReflectionsFbo (TexCubemap 0)) [0..<6] @ [GenMipmaps (TexCubemap 0)])"
proof -
  have "\<exists>w'. update_reflection_probes demo_svc demo_camera demo_refl_world = Inr w'"
    by (simp add: update_reflection_probes_def refl_probe_bake_def demo_refl_world_def get_refl_probe_def
        cube_faces_def upt_rec render_calls_def Let_def fbo_set_texture_def bind_fbo_def demo_world_def
        gen_mipmaps_def unbind_fbo_def gl_clear_def)
  then obtain w' where w': "update_reflection_probes demo_svc demo_camera demo_refl_world = Inr w'" ..
  show ?thesis
    using update_reflection_probes_bakes [OF w'] w' by (auto simp: demo_refl_world_def)
qed

end
