(* ===== verification/Gui.thy ===== *)
theory Gui
  imports Shadows "HOL-Library.Signed_Division"
begin

text \<open>
  The configuration handlers of \<open>src/application.cpp\<close>: the widgets of
  \<open>Application::renderDebugGUI\<close> that change the renderer (quality, render mode, light mode,
  SSAO switches, depth viewport) and the keys of \<open>Application::onKeyDown\<close> that do. Each
  widget change or key press is an event of \<open>gui_event\<close>; \<open>gui_step\<close> runs the handler
  code of that widget, errors included, and \<open>gui_reach\<close> is the set of worlds reachable
  from a start world by a sequence of successful events.
\<close>

subsection \<open>Events\<close>

datatype gui_event =
    SetQuality eQuality
  | SetRenderMode eRenderMode
  | SetLightMode eLightMode
  | SetSSAO bool
  | SetSSAOPlus bool
  | SetSSAOBlur bool
  | SetDepthViewport bool
  | KeyNextLight
  | KeyToggleGBuffers
  | KeyToggleOMR

subsection \<open>Handlers\<close>

text \<open>One iteration of the loop of the quality handler: a spot or directional light gets a
  new depth-only FBO of the new resolution; the old one is destroyed through
  \<open>shadow_fbo->~FBO()\<close>, a null dereference when the light has none. A \<open>None\<close> pointer is
  the null \<open>directional_light\<close> pushed in deferred mode.\<close>

fun realloc_shadow :: "eQuality \<Rightarrow> nat option \<Rightarrow> world \<Rightarrow> error + world" where
  "realloc_shadow q None w = Inl (NullDeref ''light'')"
| "realloc_shadow q (Some i) w =
     (case get_light w i of
        None \<Rightarrow> Inl (BadCast i)
      | Some l \<Rightarrow>
          if light_type l = SPOT \<or> light_type l = DIRECTIONAL then
            (if shadow_fbo l = None then Inl (NullDeref ''shadow_fbo'')
             else Inr (put_light i (l\<lparr>shadow_fbo := Some (depth_only_fbo (shadow_res q))\<rparr>) w))
          else Inr w)"

text \<open>The \<open>changed_quality\<close> block: in deferred mode the directional light is pushed onto
  \<open>lights\<close> first; then every light of the list is reallocated and the atlas is dropped.\<close>

definition change_quality :: "eQuality \<Rightarrow> world \<Rightarrow> error + world" where
  "change_quality q w =
     (let r = rnd w;
          pushed = (if render_mode r = DEFERRED then [directional_light r] else []);
          w1 = w\<lparr>quality := q, rnd := r\<lparr>lights := lights r @
                  (case pushed of [Some d] \<Rightarrow> [d] | _ \<Rightarrow> [])\<rparr>\<rparr>
      in ebind (fold_err (realloc_shadow q) (map Some (lights r) @ pushed) w1)
           (\<lambda>w2. Inr (w2\<lparr>rnd := (rnd w2)\<lparr>atlas := None\<rparr>\<rparr>)))"

text \<open>The \<open>changed_render_mode\<close> block: deferred rendering forces the multi-pass light mode.\<close>

definition change_render_mode :: "eRenderMode \<Rightarrow> world \<Rightarrow> error + world" where
  "change_render_mode m w =
     Inr (w\<lparr>rnd := (rnd w)\<lparr>render_mode := m,
            light_mode := (if m = DEFERRED then MULTI else light_mode (rnd w))\<rparr>\<rparr>)"

text \<open>The light-mode combo, shown in forward mode only. The condition
  \<open>light_mode == MULTI || atlas\<close> destroys the atlas also when there is none.\<close>

definition change_light_mode :: "eLightMode \<Rightarrow> world \<Rightarrow> error + world" where
  "change_light_mode lm w =
     (if render_mode (rnd w) \<noteq> FORWARD then Inr w
      else let w1 = w\<lparr>rnd := (rnd w)\<lparr>light_mode := lm\<rparr>\<rparr> in
        if lm = MULTI \<or> atlas (rnd w) \<noteq> None then
          (case atlas (rnd w) of
             None \<Rightarrow> Inl (NullDeref ''atlas'')
           | Some _ \<Rightarrow> Inr (w1\<lparr>rnd := (rnd w1)\<lparr>atlas := None\<rparr>\<rparr>))
        else Inr w1)"

text \<open>The SSAO widgets, shown in deferred mode (the SSAO+ and blur boxes only while SSAO
  is on, the blur box only while SSAO+ is on); the block ends by clearing \<open>blur\<close> when
  \<open>plus\<close> is off. The regenerated sample points are not part of the model.\<close>

definition ssao_fixup :: "renderer \<Rightarrow> renderer" where
  "ssao_fixup r =
     (if ssao_plus (r_ssao r) then r else r\<lparr>r_ssao := (r_ssao r)\<lparr>ssao_blur := False\<rparr>\<rparr>)"

definition change_ssao :: "gui_event \<Rightarrow> world \<Rightarrow> error + world" where
  "change_ssao e w =
     (let r = rnd w; s = r_ssao r in
      if render_mode r \<noteq> DEFERRED then Inr w
      else case e of
        SetSSAO b \<Rightarrow>
          Inr (w\<lparr>rnd := (if b then ssao_fixup (r\<lparr>activate_ssao := True\<rparr>)
                          else r\<lparr>activate_ssao := False\<rparr>)\<rparr>)
      | SetSSAOPlus b \<Rightarrow>
          (if activate_ssao r then Inr (w\<lparr>rnd := ssao_fixup (r\<lparr>r_ssao := s\<lparr>ssao_plus := b\<rparr>\<rparr>)\<rparr>)
           else Inr w)
      | SetSSAOBlur b \<Rightarrow>
          (if activate_ssao r \<and> ssao_plus s
           then Inr (w\<lparr>rnd := ssao_fixup (r\<lparr>r_ssao := s\<lparr>ssao_blur := b\<rparr>\<rparr>)\<rparr>)
           else Inr w)
      | _ \<Rightarrow> Inr w)"

text \<open>The depth-viewport checkbox: while it is on, the GUI reads
  \<open>lights[depth_light]->name\<close>, out of range when \<open>depth_light\<close> is not below the number of
  lights fetched this frame.\<close>

definition change_depth_viewport :: "bool \<Rightarrow> world \<Rightarrow> error + world" where
  "change_depth_viewport b w =
     (let w1 = w\<lparr>rnd := (rnd w)\<lparr>depth_viewport := b\<rparr>\<rparr>; d = depth_light (rnd w) in
      if b \<and> \<not> (0 \<le> d \<and> nat d < length (lights (rnd w))) then Inl (ArrayOverflow (nat d))
      else Inr w1)"

text \<open>Key \<open>1\<close>: \<open>depth_light = (depth_light + 1) % lights.size()\<close> with C's truncating
  remainder; keys \<open>2\<close> and \<open>3\<close> toggle the debug views.\<close>

definition key_next_light :: "world \<Rightarrow> error + world" where
  "key_next_light w =
     (let r = rnd w in
      if 0 < length (lights r)
      then Inr (w\<lparr>rnd := r\<lparr>depth_light := (depth_light r + 1) smod int (length (lights r))\<rparr>\<rparr>)
      else Inr w)"

fun gui_step :: "gui_event \<Rightarrow> world \<Rightarrow> error + world" where
  "gui_step (SetQuality q) w = change_quality q w"
| "gui_step (SetRenderMode m) w = change_render_mode m w"
| "gui_step (SetLightMode lm) w = change_light_mode lm w"
| "gui_step (SetSSAO b) w = change_ssao (SetSSAO b) w"
| "gui_step (SetSSAOPlus b) w = change_ssao (SetSSAOPlus b) w"
| "gui_step (SetSSAOBlur b) w = change_ssao (SetSSAOBlur b) w"
| "gui_step (SetDepthViewport b) w = change_depth_viewport b w"
| "gui_step KeyNextLight w = key_next_light w"
| "gui_step KeyToggleGBuffers w = Inr (w\<lparr>rnd := (rnd w)\<lparr>show_gbuffers := \<not> show_gbuffers (rnd w)\<rparr>\<rparr>)"
| "gui_step KeyToggleOMR w = Inr (w\<lparr>rnd := (rnd w)\<lparr>show_omr := \<not> show_omr (rnd w)\<rparr>\<rparr>)"

text \<open>The worlds reachable from \<open>w0\<close> by successful GUI events.\<close>

inductive gui_reach :: "world \<Rightarrow> world \<Rightarrow> bool" for w0 :: world where
  start: "gui_reach w0 w0"
| step: "gui_reach w0 w \<Longrightarrow> gui_step e w = Inr w' \<Longrightarrow> gui_reach w0 w'"

text \<open>The configuration invariant: deferred rendering runs in multi-pass light mode, and
  SSAO blur is only on with SSAO+.\<close>

definition gui_inv :: "renderer \<Rightarrow> bool" where
  "gui_inv r \<longleftrightarrow> (render_mode r = DEFERRED \<longrightarrow> light_mode r = MULTI) \<and>
     (ssao_blur (r_ssao r) \<longrightarrow> ssao_plus (r_ssao r))"


subsection \<open>Lemmas\<close>

lemma fold_err_realloc:
  "fold_err (realloc_shadow q) ps w = Inr w' \<Longrightarrow>
   rnd w' = rnd w \<and> quality w' = quality w \<and>
   (\<forall>i. Some i \<notin> set ps \<longrightarrow> get_light w' i = get_light w i) \<and>
   (\<forall>i l. Some i \<in> set ps \<longrightarrow> get_light w' i = Some l \<longrightarrow>
      light_type l = SPOT \<or> light_type l = DIRECTIONAL \<longrightarrow>
      shadow_fbo l = Some (depth_only_fbo (shadow_res q)))"
proof (induction ps arbitrary: w)
  case Nil
  then show ?case by simp
next
  case (Cons p ps)
  then obtain i w1 where p: "p = Some i" and s: "realloc_shadow q (Some i) w = Inr w1"
    and r: "fold_err (realloc_shadow q) ps w1 = Inr w'"
    by (cases p) (auto simp: ebind_Inr_iff)
  obtain l where l: "get_light w i = Some l" using s by (auto split: option.splits)
  have len: "i < length (entities (w_scene w))" using l by (auto simp: get_light_def split: if_splits)
  have w1: "rnd w1 = rnd w \<and> quality w1 = quality w \<and>
    (\<forall>j. j \<noteq> i \<longrightarrow> get_light w1 j = get_light w j) \<and>
    (\<forall>l'. get_light w1 i = Some l' \<longrightarrow> light_type l' = SPOT \<or> light_type l' = DIRECTIONAL \<longrightarrow>
       shadow_fbo l' = Some (depth_only_fbo (shadow_res q)))"
    using s l len by (auto simp: put_light_def get_light_def split: if_splits)
  note ih = Cons.IH [OF r]
  show ?case
  proof (intro conjI allI impI)
    show "rnd w' = rnd w" "quality w' = quality w" using ih w1 by simp_all
  next
    fix j assume "Some j \<notin> set (p # ps)"
    then show "get_light w' j = get_light w j" using ih w1 p by auto
  next
    fix j l' assume j: "Some j \<in> set (p # ps)" and g: "get_light w' j = Some l'"
      and t: "light_type l' = SPOT \<or> light_type l' = DIRECTIONAL"
    show "shadow_fbo l' = Some (depth_only_fbo (shadow_res q))"
    proof (cases "Some j \<in> set ps")
      case True
      then show ?thesis using ih g t by blast
    next
      case False
      then have "j = i" "get_light w1 j = Some l'" using j p ih g by auto
      then show ?thesis using w1 t by blast
    qed
  qed
qed

lemma gui_step_inv: "gui_inv (rnd w) \<Longrightarrow> gui_step e w = Inr w' \<Longrightarrow> gui_inv (rnd w')"
proof (cases e)
  case (SetQuality q)
  assume "gui_inv (rnd w)" "gui_step e w = Inr w'"
  with SetQuality show ?thesis
    by (auto simp: change_quality_def Let_def gui_inv_def ebind_Inr_iff dest!: fold_err_realloc)
qed (auto simp: gui_inv_def change_render_mode_def change_light_mode_def change_ssao_def
       ssao_fixup_def change_depth_viewport_def key_next_light_def Let_def
       split: if_splits option.splits)

text \<open>C26: every world reachable from a start world satisfying the configuration invariant by
  successful GUI events satisfies it: deferred rendering always runs in multi-pass light mode
  and SSAO blur is only on together with SSAO+.\<close>
theorem gui_reach_inv:
  assumes "gui_inv (rnd w0)" and "gui_reach w0 w"
  shows "gui_inv (rnd w)"
  using assms(2,1) by induction (auto intro: gui_step_inv)

text \<open>C27: a successful quality change records the new quality, drops the atlas, and gives every
  spot or directional light in the current \<open>lights\<close> list a depth-only FBO of side
  \<open>1024 * 2^quality\<close>; every light not in that list (culled this frame) is left as it was,
  with its old resolution.\<close>
theorem change_quality_realloc:
  assumes "change_quality q w = Inr w'"
  shows "quality w' = q \<and> atlas (rnd w') = None \<and>
    (\<forall>i\<in>set (lights (rnd w')). \<forall>l. get_light w' i = Some l \<longrightarrow>
       light_type l = SPOT \<or> light_type l = DIRECTIONAL \<longrightarrow>
       shadow_fbo l = Some (depth_only_fbo (shadow_res q))) \<and>
    (\<forall>i. i \<notin> set (lights (rnd w')) \<longrightarrow> get_light w' i = get_light w i)"
proof -
  define r where "r = rnd w"
  define pushed where "pushed = (if render_mode r = DEFERRED then [directional_light r] else [])"
  define w1 where "w1 = w\<lparr>quality := q, rnd := r\<lparr>lights := lights r @
                  (case pushed of [Some d] \<Rightarrow> [d] | _ \<Rightarrow> [])\<rparr>\<rparr>"
  obtain w2 where f: "fold_err (realloc_shadow q) (map Some (lights r) @ pushed) w1 = Inr w2"
    and w': "w' = w2\<lparr>rnd := (rnd w2)\<lparr>atlas := None\<rparr>\<rparr>"
    using assms unfolding change_quality_def Let_def r_def [symmetric] pushed_def [symmetric]
      w1_def [symmetric] by (auto simp: ebind_Inr_iff)
  have ls: "set (lights (rnd w')) = {i. Some i \<in> set (map Some (lights r) @ pushed)}"
    using fold_err_realloc [OF f] unfolding w' w1_def pushed_def
    by (auto split: option.splits)
  have g: "get_light w1 = get_light w"
    by (rule get_light_eq) (simp add: w1_def)
  have gw: "get_light w' = get_light w2"
    by (rule get_light_eq) (simp add: w')
  show ?thesis
    using fold_err_realloc [OF f] ls g gw unfolding w' by (auto simp: w1_def)
qed

text \<open>C28: in forward mode with no atlas allocated, choosing the multi-pass light mode destroys
  the null atlas: the condition \<open>light_mode == MULTI || atlas\<close> should be a conjunction.\<close>
theorem light_mode_multi_without_atlas:
  assumes "render_mode (rnd w) = FORWARD" and "atlas (rnd w) = None"
  shows "gui_step (SetLightMode MULTI) w = Inl (NullDeref ''atlas'')"
  using assms by (simp add: change_light_mode_def)


theorem gui_reach_inv_witness:
  "gui_inv (rnd demo_world) \<and>
   gui_reach demo_world (demo_world\<lparr>rnd := (rnd demo_world)\<lparr>render_mode := FORWARD\<rparr>\<rparr>) \<and>
   gui_inv (rnd (demo_world\<lparr>rnd := (rnd demo_world)\<lparr>render_mode := FORWARD\<rparr>\<rparr>))"
proof -
  have i: "gui_inv (rnd demo_world)"
    by (simp add: gui_inv_def demo_world_def renderer_new_def)
  have "gui_step (SetRenderMode FORWARD) demo_world =
          Inr (demo_world\<lparr>rnd := (rnd demo_world)\<lparr>render_mode := FORWARD\<rparr>\<rparr>)"
    by (simp add: change_render_mode_def demo_world_def renderer_new_def)
  then have r: "gui_reach demo_world (demo_world\<lparr>rnd := (rnd demo_world)\<lparr>render_mode := FORWARD\<rparr>\<rparr>)"
    by (rule gui_reach.step [OF gui_reach.start])
  show ?thesis using gui_reach_inv [OF i r] i r by blast
qed

theorem change_quality_realloc_witness:
  "\<exists>w'. change_quality HIGH (demo_world\<lparr>rnd := (rnd demo_world)\<lparr>render_mode := FORWARD, lights := [0]\<rparr>\<rparr>) = Inr w' \<and>
     get_light w' 0 = Some (demo_dir_light\<lparr>shadow_fbo := Some (depth_only_fbo 4096)\<rparr>)"
proof -
  let ?w = "demo_world\<lparr>rnd := (rnd demo_world)\<lparr>render_mode := FORWARD, lights := [0]\<rparr>\<rparr>"
  have "\<exists>w'. change_quality HIGH ?w = Inr w'"
    by (simp add: change_quality_def get_light_def demo_world_def demo_dir_light_def Let_def)
  then obtain w' where w': "change_quality HIGH ?w = Inr w'" ..
  have "get_light w' 0 = Some (demo_dir_light\<lparr>shadow_fbo := Some (depth_only_fbo 4096)\<rparr>)"
    using w' [symmetric] by (simp add: change_quality_def get_light_def put_light_def demo_world_def
        demo_dir_light_def shadow_res_def Let_def)
  then show ?thesis using change_quality_realloc [OF w'] w' by blast
qed

theorem light_mode_multi_without_atlas_witness:
  "gui_step (SetLightMode MULTI) (demo_world\<lparr>rnd := (rnd demo_world)\<lparr>render_mode := FORWARD\<rparr>\<rparr>) =
     Inl (NullDeref ''atlas'')"
  by (rule light_mode_multi_without_atlas) (simp_all add: demo_world_def renderer_new_def)


end
