(* ===== verification/Spec2Isabelle.thy ===== *)
theory Spec2Isabelle
  imports Reflections Gui
begin

text \<open>
  \<^bold>\<open>A verification model of the Graphics-Engine scene renderer.\<close>

  The program (\<open>src/src/\<close>) turns a scene of entities (prefabs, lights, irradiance probes
  and grids, reflection probes, decals) into a sequence of OpenGL draw operations. Each
  frame \<open>Renderer::fetchSceneEntities\<close> walks the scene into a sorted list of draw calls
  (\<open>RenderCall\<close>) and a list of visible lights; the shadow passes render per-light depth
  maps (multi-pass) or a shared atlas (single-pass); the forward passes then draw every call
  with its material and the lights; the deferred pipeline, ambient occlusion and the
  post-processing chain follow. The GUI of \<open>Application\<close> changes the renderer's
  configuration between frames; the probe bakes run on demand.

  \<^bold>\<open>How the code is modelled.\<close> A shallow embedding: C++ classes are records
  (\<open>light_entity\<close> extends \<open>base_entity\<close> as \<open>LightEntity\<close> extends \<open>BaseEntity\<close>),
  enums and the entity hierarchy are datatypes, pointers into the scene are entity indices
  with explicit read (\<open>get_light\<close>, \<open>get_grid\<close>) and write-back (\<open>put_light\<close>,
  \<open>put_grid\<close>), floats are reals. The whole program state is the record \<open>world\<close>: the
  scene, the renderer, the OpenGL state \<open>gl\<close> (blending, depth, culling, scissor,
  viewport, bound FBO, enabled program, the uniforms of every program) and the trace of
  graphics events, where each draw records a snapshot of \<open>gl\<close>. Every operation that can
  crash returns \<open>error + world\<close>: a null dereference is \<open>NullDeref\<close>, a pointer that is
  not the entity kind the code casts it to is \<open>BadCast\<close>, a write or read past a fixed
  array is \<open>ArrayOverflow\<close>. The framework's math and camera routines (\<open>Matrix44\<close>,
  \<open>Camera::lookAt\<close>, frustum tests) are the record \<open>services\<close> of functions; the claims
  hold for every choice of them unless a claim states a contract (\<open>svc_ok\<close>). All loops of
  the program run over finite lists (calls, lights, entities, probes, six cube faces), so
  every operation is a total function by structural recursion or a fold: no fuel is needed
  and each claim that an operation returns is stated for the value it returns.

  \<^bold>\<open>Theories and what they model.\<close>
  \<^item> \<open>Prelude\<close>: vectors and matrices, \<open>ebind\<close> (the first error stops a sequence)
    and \<open>fold_err\<close> (a loop whose body may fail), generic list lemmas.
  \<^item> \<open>Entities\<close>: \<open>scene.h\<close> and \<open>LightEntity::configure\<close> (\<open>scene.cpp\<close>),
    the shadow resolution \<open>1024 * 2^quality\<close>.
  \<^item> \<open>RenderCall\<close>: \<open>RenderCall::operator <\<close> (\<open>rendercall.h\<close>) and the
    \<open>std::sort\<close> of \<open>fetchSceneEntities\<close>, as its contract \<open>rc_sort_spec\<close> and as
    libstdc++'s insertion sort \<open>rc_sort\<close>.
  \<^item> \<open>RendererState\<close>: \<open>Renderer\<close> (\<open>renderer.h\<close>, its constructor), the graphics
    state and primitive OpenGL calls, the trace.
  \<^item> \<open>Traversal\<close>: \<open>getCallsFromPrefab\<close>, \<open>getCallsFromNode\<close>,
    \<open>fetchSceneEntities\<close>.
  \<^item> \<open>Shadows\<close>: \<open>updateLight\<close>, \<open>renderMeshWithMaterialShadow\<close>, \<open>shadowMapping\<close>.
  \<^item> \<open>Atlas\<close>: \<open>renderToAtlas\<close>.
  \<^item> \<open>Lighting\<close>: \<open>renderMeshWithMaterial\<close>, \<open>renderMultiPass\<close>,
    \<open>renderSinglePass\<close>, \<open>uploadLightParams\<close>, \<open>renderSkybox\<close>, \<open>renderCalls\<close>.
  \<^item> \<open>Gui\<close>: the configuration widgets of \<open>Application::renderDebugGUI\<close> and the keys
    of \<open>onKeyDown\<close> as events of a step function, with reachability \<open>gui_reach\<close>.
  \<^item> \<open>Probes\<close>: \<open>IrradianceGrid::configure\<close>, \<open>updateGrid\<close>, \<open>updateProbe\<close>,
    \<open>updateProbes\<close>, \<open>extractProbe\<close>, \<open>renderProbes\<close>.
  \<^item> \<open>Deferred\<close>: \<open>renderGBuffers\<close> (the active draw buffers of each FBO,
    \<open>enableSingleBuffer\<close>/\<open>enableAllBuffers\<close>, are part of the graphics state),
    \<open>renderDecals\<close>, \<open>SSAO::apply\<close>, \<open>passDeferredUniforms\<close>,
    \<open>renderMultiPassSphere\<close>, \<open>volumetricDirectional\<close>, \<open>renderReflectionProbes\<close>
    and \<open>renderDeferred\<close>, split as the code is into the lighting resolve
    (\<open>deferred_resolve\<close>), the alpha forward overlay (\<open>alpha_overlay\<close>) and the optional
    passes (\<open>deferred_extras\<close>). Two relations between worlds carry its proofs:
    \<open>frame_eq\<close> (scene, renderer and loaded shaders unchanged) and \<open>keeps_target\<close> (every
    event issued into the FBO and draw buffers the pass started with).
  \<^item> \<open>Frame\<close>: the frame driver \<open>renderScene\<close> (clear, fetch, the shadow passes of
    the light mode, then the forward or deferred pipeline), \<open>renderToFBO\<close> with its
    post-processing chain (FXAA, blur, depth of field, motion blur, \<open>applyBloom\<close>,
    chromatic aberration, grain, tone mapping) as the sequence of full-screen passes and FBO
    bindings it issues, and the debug views \<open>showGbuffers\<close>, \<open>renderShadowmaps\<close> and
    \<open>renderAtlas\<close>. The framework's \<open>Texture::toViewport\<close> and
    \<open>Vector3::normalize\<close> are written from their documented behaviour; the grain pass's
    clock \<open>abs(cos(getTime()))\<close> is a parameter.
  \<^item> \<open>Reflections\<close>: the reflection-probe bake \<open>updateReflectionProbes\<close>: per probe
    and cubemap face, \<open>FBO::setTexture\<close>, bind, \<open>Camera::lookAt\<close> on the one camera
    object the loops share (threaded through as state), a forward \<open>renderCalls\<close>, unbind;
    then \<open>generateMipmaps\<close>. Face attachments and mipmap generation are trace events.

  \<^bold>\<open>What is proved\<close> (claim ids of the manifest).
  \<^item> Draw-call order (C1-C6): the comparison is a strict weak ordering and the
    lexicographic order on (alpha rank, minus distance); the sort meets the contract of
    \<open>std::sort\<close>, puts opaque before masked before blended calls and each group back to
    front, is stable, and the contract determines the key sequence; the contract itself
    allows unstable results, although the specification asks for a stable sort.
  \<^item> Traversal (C7-C12): nearest-probe choice, composition of the node hierarchy, index
    validity of the per-frame lists, the shadow-count formula, sortedness, and the order
    dependence of probe assignment (a prefab listed before a probe gets none).
  \<^item> Shadows and atlas (C13-C19): what a shadow pass draws, texel snapping of the
    directional light camera, the null FBO of a point light that casts shadows, and the
    atlas: disjoint cells for four lights, cells outside the atlas from the fifth light on,
    the skip conditions and the hard-coded 2 x 2 grid.
  \<^item> Forward lighting (C20-C25): multi-pass draws (one per light, first with ambient and
    emission, later ones additive and zeroed), the no-light draw, the single-pass packing
    and its overflow past \<open>max_lights\<close>, the null probe dereference with reflections on,
    and frustum culling in \<open>renderCalls\<close>.
  \<^item> GUI (C26-C29): an invariant of all reachable configurations (deferred implies
    multi-pass; SSAO blur implies SSAO+), shadow-map reallocation on a quality change (only
    for the lights fetched this frame), the null atlas destroyed when choosing multi-pass,
    and the range of the depth-viewport light index.
  \<^item> Probes (C30, C32, C34): the grid's index/position round trip, the result of an
    irradiance bake, and that the forward pass never writes the scene or the renderer
    (duplicated indices with fractional dimensions are shown by
    \<open>grid_fractional_dim_indices\<close>).
  \<^item> Reflection bake (C31): \<open>updateReflectionProbes\<close> leaves scene and renderer
    alone, draws only into the reflections FBO and attaches the six faces of each probe's
    cubemap in order, each probe followed by its mipmap generation.
  \<^item> Frame (C33): in forward multi-pass mode \<open>renderScene\<close> issues all shadow-map draws,
    each into a light's shadow FBO, before the lit draws, which all go into the illumination
    FBO.
  \<^item> Deferred pipeline (C35-C40): the geometry pass puts the sky only into target 0 and
    draws only opaque meshes with all targets enabled, then the decal cubes into the decal FBO;
    one additive, clockwise light-volume sphere per light; volumetric scattering without a
    directional light never completes a frame; the SSAO blur samples a texture of the FBO it
    renders into; the deferred frame changes the renderer only by the gbuffer flag and by
    appending the directional light to the light list (which the specification says no pass
    mutates); and the geometry pass completes when its shaders are loaded, reflections and the
    probe texture are off and every decal has a texture.
  Each claim with hypotheses has a witness theorem that applies it to a concrete world built
  from the fixtures (\<open>demo_world\<close>, \<open>demo_lit_world\<close>, \<open>demo_grid_world\<close>, ...).

  \<^bold>\<open>Bounds.\<close> \<open>max_lights = 100\<close> is the size of the single-pass arrays; the shadow
  resolution is \<open>1024 * 2^q\<close> for the four quality levels; C's \<open>round\<close>, truncating
  float-to-int conversion and truncating \<open>%\<close> (\<open>smod\<close>) are written out where the code
  uses them.

  \<^bold>\<open>Not modelled.\<close> The SSAO sample kernel (\<open>generateSpherePoints\<close>, random) and texture filtering
  parameters are left out of \<open>SSAO::apply\<close>; pixel contents are not modelled at all (a draw is its primitive and the state it
  ran in), so image-processing steps (\<open>computeSH\<close>, bloom, tone mapping) are parameters or
  out of scope. Window, input and editor code of \<open>Application\<close>, ImGui menus
  (\<open>renderInMenu\<close>), scene and HDRE file loading beyond the JSON keys of lights and grids,
  and \<open>src/renderer.cpp\<close> (an older, shorter version of \<open>src/src/renderer.cpp\<close>)
  are outside the model.
\<close>

end
